theory Spec2Isabelle
  imports Main "HOL-Library.Multiset"
begin

section \<open>Errors\<close>

text \<open>
  The errors that \<^verbatim>\<open>database/sql\<close> hands to the repositories: \<^verbatim>\<open>sql.ErrNoRows\<close>, which
  \<^verbatim>\<open>Row.Scan\<close> returns on an empty result set, and any other error of the driver, known by
  its message. \<open>Error\<close> is the method \<^verbatim>\<open>err.Error()\<close>.
\<close>

datatype sql_error = ErrNoRows | DriverError string

fun Error :: "sql_error \<Rightarrow> string" where
  "Error ErrNoRows = ''sql: no rows in result set''"
| "Error (DriverError msg) = msg"

text \<open>
  The errors a repository function returns: an error of the database passed on as it is,
  or one of the package's own error values.
\<close>

datatype error =
    Sql sql_error
  | ErrContactNotFound
  | ErrDuplicateContact
  | ErrBlobNotFound
  | ErrDraftNotFound

section \<open>Rows\<close>

text \<open>
  The structs of the package, field by field. \<^verbatim>\<open>int64\<close> and \<^verbatim>\<open>int\<close> columns are only stored
  and compared, never computed with, so they are integers; a pointer field is an option
  (\<open>None\<close> is \<^verbatim>\<open>nil\<close>, the SQL \<^verbatim>\<open>NULL\<close>); a \<^verbatim>\<open>Timestamp\<close> is an instant on the integer time line.
  Of \<^verbatim>\<open>User\<close> and \<^verbatim>\<open>History\<close> the repositories read the fields below only.
\<close>

record User =
  Id :: int
  DeviceId :: "string option"

record History =
  Id :: int

record Contact =
  Id :: string
  UserId :: int
  EmailAddress :: "string option"
  FirstName :: "string option"
  LastName :: "string option"
  CreatedAt :: int
  ModifiedAt :: "int option"
  TimelineId :: int
  HistoryId :: int
  LastStmt :: int
  DeviceId :: "string option"

record ContactDeleted =
  Id :: string
  UserId :: int
  HistoryId :: int
  DeviceId :: "string option"

record ContactList =
  History :: int
  Contacts :: "Contact list"

record ContactSync =
  History :: int
  ContactsInserted :: "Contact list"
  ContactsUpdated :: "Contact list"
  ContactsTrashed :: "Contact list"
  ContactsDeleted :: "ContactDeleted list"

record Blob =
  Uri :: string
  UserId :: int
  Hash :: string
  Name :: string
  Snippet :: string
  Path :: string
  Size :: int
  ContentType :: string
  CreatedAt :: int
  ModifiedAt :: "int option"
  TimelineId :: int
  HistoryId :: int
  LastStmt :: int
  DeviceId :: "string option"

record BlobDeleted =
  Uri :: string
  UserId :: int
  HistoryId :: int
  DeviceId :: "string option"

record BlobList =
  History :: int
  Blobs :: "Blob list"

record BlobSync =
  History :: int
  BlobsInserted :: "Blob list"
  BlobsUpdated :: "Blob list"
  BlobsTrashed :: "Blob list"
  BlobsDeleted :: "BlobDeleted list"

typedecl MessagePart

record Draft =
  Id :: string
  UserId :: int
  MessageUid :: string
  ParentUid :: "string option"
  ThreadUid :: string
  Unread :: bool
  Starred :: bool
  Payload :: "MessagePart option"
  LabelIds :: "string option"
  CreatedAt :: int
  ModifiedAt :: "int option"
  TimelineId :: int
  HistoryId :: int
  LastStmt :: int
  DeviceId :: "string option"

section \<open>The store\<close>

text \<open>
  The tables the repositories name in their SQL, each a list of rows in storage order.
  A row of a history sequence table is the pair of its \<^verbatim>\<open>user_id\<close> and its
  \<^verbatim>\<open>last_history_id\<close>.
\<close>

record db =
  tbl_contact :: "Contact list"
  tbl_contact_deleted :: "ContactDeleted list"
  tbl_contact_history_seq :: "(int \<times> int) list"
  tbl_Blob :: "Blob list"
  tbl_BlobDeleted :: "BlobDeleted list"
  tbl_BlobHistorySeq :: "(int \<times> int) list"
  tbl_Draft :: "Draft list"
  tbl_DraftHistorySeq :: "(int \<times> int) list"

text \<open>
  What the repositories use and the sources do not hold:
  \<^item> \<open>fails n\<close>: whether the \<open>n\<close>-th call on the database handle inside one repository
    function (counted from 0 in program order) returns a driver error, and its message;
  \<^item> \<open>json_each\<close>, \<open>json_each_path\<close>: SQLite's table function \<^verbatim>\<open>json_each(X)\<close> and
    \<^verbatim>\<open>json_each(X, P)\<close>, giving the values of the array, or the message of the error
    that the statement fails with;
  \<^item> \<open>getPrefixedDeviceId\<close>: the helper of that name, called by every write;
  \<^item> \<open>contact_columns\<close>: the row that the schema gives an \<^verbatim>\<open>INSERT\<close> into \<^verbatim>\<open>contact\<close>
    before the columns named by the statement are filled in (generated id, defaults);
  \<^item> \<open>now\<close>: the time of the call on the database's clock.
  The schema itself (column defaults, triggers, sequences) is not among the sources: each
  statement is modelled by what its own text selects, sets and deletes. Two things are
  added from the specification, in the section \<open>The history kept by the schema\<close>: what
  the schema writes on a row changed by the \<^verbatim>\<open>UPDATE\<close> of \<^verbatim>\<open>Update\<close>, and the device that a
  write is attributed to.
\<close>

record env =
  fails :: "nat \<Rightarrow> string option"
  json_each :: "string \<Rightarrow> string + string list"
  json_each_path :: "string \<Rightarrow> string \<Rightarrow> string + string list"
  getPrefixedDeviceId :: "string option \<Rightarrow> string option"
  contact_columns :: "db \<Rightarrow> Contact"
  now :: int

section \<open>SQL\<close>

text \<open>
  Comparisons with a nullable operand are three-valued: \<open>None\<close> is SQL's unknown.
  A \<^verbatim>\<open>WHERE\<close> clause keeps a row only when its condition is true.
\<close>

type_synonym sql_bool = "bool option"

definition sql_ne :: "'a option \<Rightarrow> 'a option \<Rightarrow> sql_bool" where
  "sql_ne a b =
     (case a of None \<Rightarrow> None
      | Some x \<Rightarrow> (case b of None \<Rightarrow> None | Some y \<Rightarrow> Some (x \<noteq> y)))"

definition sql_is_null :: "'a option \<Rightarrow> sql_bool" where
  "sql_is_null a = Some (a = None)"

definition sql_or :: "sql_bool \<Rightarrow> sql_bool \<Rightarrow> sql_bool" where
  "sql_or p q =
     (if p = Some True \<or> q = Some True then Some True
      else if p = Some False \<and> q = Some False then Some False
      else None)"

definition sql_where :: "sql_bool \<Rightarrow> bool" where
  "sql_where p = (p = Some True)"

text \<open>The condition \<^verbatim>\<open>(device_id <> $2 OR device_id IS NULL)\<close> of every Sync query.\<close>

definition other_device :: "string option \<Rightarrow> string option \<Rightarrow> bool" where
  "other_device device_id arg2 =
     sql_where (sql_or (sql_ne device_id arg2) (sql_is_null device_id))"

definition sql_select :: "('r \<Rightarrow> bool) \<Rightarrow> 'r list \<Rightarrow> 'r list" where
  "sql_select wh tbl = filter wh tbl"

definition order_by_desc :: "('r \<Rightarrow> int) \<Rightarrow> 'r list \<Rightarrow> 'r list" where
  "order_by_desc col rows = sort_key (\<lambda>r. - col r) rows"

definition sql_update :: "('r \<Rightarrow> bool) \<Rightarrow> ('r \<Rightarrow> 'r) \<Rightarrow> 'r list \<Rightarrow> 'r list" where
  "sql_update wh st tbl = map (\<lambda>r. if wh r then st r else r) tbl"

definition sql_delete :: "('r \<Rightarrow> bool) \<Rightarrow> 'r list \<Rightarrow> 'r list" where
  "sql_delete wh tbl = filter (\<lambda>r. \<not> wh r) tbl"

text \<open>\<^verbatim>\<open>SELECT last_history_id FROM ... WHERE user_id = $1\<close> on a sequence table.\<close>

definition select_last_history_id :: "int \<Rightarrow> (int \<times> int) list \<Rightarrow> int list" where
  "select_last_history_id arg1 tbl = map snd (sql_select (\<lambda>s. fst s = arg1) tbl)"

section \<open>Calls on the database handle\<close>

text \<open>\<^verbatim>\<open>BeginTx\<close> and \<^verbatim>\<open>Commit\<close>: the error, if any.\<close>

definition call :: "env \<Rightarrow> nat \<Rightarrow> sql_error option" where
  "call e n = map_option DriverError (fails e n)"

text \<open>
  The loop \<^verbatim>\<open>for rows.Next() { ...; list = append(list, &row) }\<close>: each row is appended to
  what the list holds already.
\<close>

fun scan_rows :: "'r list \<Rightarrow> 'r list \<Rightarrow> 'r list" where
  "scan_rows acc [] = acc"
| "scan_rows acc (r # rs) = scan_rows (acc @ [r]) rs"

text \<open>
  \<^verbatim>\<open>QueryContext\<close>, the scanning loop and \<^verbatim>\<open>rows.Err()\<close>: the three return the same
  \<^verbatim>\<open>nil, err\<close> when one of them fails, so they are one call, which either fails or delivers
  every selected row.
\<close>

definition Query :: "env \<Rightarrow> nat \<Rightarrow> 'r list \<Rightarrow> sql_error + 'r list" where
  "Query e n rows =
     (case fails e n of
        Some msg \<Rightarrow> Inl (DriverError msg)
      | None \<Rightarrow> Inr (scan_rows [] rows))"

text \<open>\<^verbatim>\<open>QueryRowContext(...).Scan(...)\<close>: the first row, \<^verbatim>\<open>sql.ErrNoRows\<close> when there is none.\<close>

definition QueryRow :: "env \<Rightarrow> nat \<Rightarrow> 'r list \<Rightarrow> sql_error + 'r" where
  "QueryRow e n rows =
     (case fails e n of
        Some msg \<Rightarrow> Inl (DriverError msg)
      | None \<Rightarrow> (case rows of [] \<Rightarrow> Inl ErrNoRows | r # _ \<Rightarrow> Inr r))"

text \<open>
  \<^verbatim>\<open>ExecContext\<close> of a statement whose \<^verbatim>\<open>WHERE\<close> clause reads a JSON array: the values of the
  array when the statement runs, the error otherwise.
\<close>

definition Exec :: "env \<Rightarrow> nat \<Rightarrow> string + string list \<Rightarrow> sql_error + string list" where
  "Exec e n arr =
     (case fails e n of
        Some msg \<Rightarrow> Inl (DriverError msg)
      | None \<Rightarrow> (case arr of Inl msg \<Rightarrow> Inl (DriverError msg) | Inr vs \<Rightarrow> Inr vs))"

section \<open>The history kept by the schema\<close>

text \<open>Modelled from the spec: the current value of the history sequencer of a user (4.1, the
  "current high-water-mark"), in the sequence table that List and Sync read. The
  sequencer is part of the schema, which is not under src/. A user without a row in the
  table counts from 0.
\<close>

definition last_history_id :: "int \<Rightarrow> (int \<times> int) list \<Rightarrow> int" where
  "last_history_id userId tbl =
     (case select_last_history_id userId tbl of [] \<Rightarrow> 0 | h # _ \<Rightarrow> h)"

text \<open>Modelled from the spec: the sequence table after the sequencer of a user has assigned
  \<open>n\<close> further history ids (4.1: a per-user counter that assigns the next history id on
  every mutating write). The statements that advance it are in the schema, which is not
  under src/.
\<close>

definition history_seq_advance :: "int \<Rightarrow> nat \<Rightarrow> (int \<times> int) list \<Rightarrow> (int \<times> int) list" where
  "history_seq_advance userId n tbl =
     map (\<lambda>s. if fst s = userId then (fst s, snd s + int n) else s) tbl"

text \<open>Modelled from the spec: an \<^verbatim>\<open>UPDATE\<close> under the history keeping of the schema (its
  triggers are not under src/). Every row that the \<^verbatim>\<open>WHERE\<close> clause selects is changed,
  in storage order, and is given the next history id, counted on from \<open>h\<close> (3: \<open>historyId\<close>
  is set to the then-current sequencer value on every update; 4.1: the id is assigned in
  the transaction of the write it serves). \<open>st h' r\<close> is the changed row \<open>r\<close> with history
  id \<open>h'\<close>. Applied to the selected rows alone it gives the rows of \<^verbatim>\<open>RETURNING *\<close>, which
  4.2 calls the updated record.
\<close>

fun update_with_history :: "('r \<Rightarrow> bool) \<Rightarrow> (int \<Rightarrow> 'r \<Rightarrow> 'r) \<Rightarrow> int \<Rightarrow> 'r list \<Rightarrow> 'r list" where
  "update_with_history wh st h [] = []"
| "update_with_history wh st h (r # rs) =
     (if wh r then st (h + 1) r # update_with_history wh st (h + 1) rs
      else r # update_with_history wh st h rs)"

text \<open>Modelled from the spec: the columns that the schema (not under src/) writes on a row
  changed by \<^verbatim>\<open>Update\<close>, beside the columns of the statement's \<^verbatim>\<open>SET\<close> clause. 3:
  \<open>modifiedAt\<close> is set on every Update, \<open>historyId\<close> is set to the value of the sequencer,
  and \<open>lastStmt\<close> becomes 1 by an Update.
\<close>

definition Contact_on_update :: "int \<Rightarrow> int \<Rightarrow> Contact \<Rightarrow> Contact" where
  "Contact_on_update t h r =
     r\<lparr>Contact.ModifiedAt := Some t, Contact.HistoryId := h, Contact.LastStmt := 1\<rparr>"

text \<open>Modelled from the spec: the same columns of a blob (3: the entity records are
  structurally uniform); the schema is not under src/.
\<close>

definition Blob_on_update :: "int \<Rightarrow> int \<Rightarrow> Blob \<Rightarrow> Blob" where
  "Blob_on_update t h r =
     r\<lparr>Blob.ModifiedAt := Some t, Blob.HistoryId := h, Blob.LastStmt := 1\<rparr>"

text \<open>Modelled from the spec: the same columns of a draft (3: the entity records are
  structurally uniform); the schema is not under src/.
\<close>

definition Draft_on_update :: "int \<Rightarrow> int \<Rightarrow> Draft \<Rightarrow> Draft" where
  "Draft_on_update t h r =
     r\<lparr>Draft.ModifiedAt := Some t, Draft.HistoryId := h, Draft.LastStmt := 1\<rparr>"

text \<open>Modelled from the spec: the device that a write is attributed to, which is what the
  helper \<^verbatim>\<open>getPrefixedDeviceId\<close> and the column \<^verbatim>\<open>device_id\<close> make of \<^verbatim>\<open>user.DeviceId\<close>
  (neither the helper nor the schema is under src/). 3: \<open>deviceId\<close> is the device that
  performed the most recent mutation, null without device context; 4.2: Create inserts
  with \<open>deviceId = attributedDevice(user)\<close>; 4.4: Sync compares \<open>deviceId\<close> with the calling
  device.
\<close>

definition attributedDevice :: "string option \<Rightarrow> string option" where
  "attributedDevice deviceId = deviceId"

section \<open>ContactRepository\<close>

definition contact_unique_failed :: string where
  "contact_unique_failed =
     ''UNIQUE constraint failed: contact.email_address, contact.firstname, contact.lastname''"

text \<open>
  \<^verbatim>\<open>Create\<close>: one \<^verbatim>\<open>INSERT ... RETURNING *\<close> (call 0). The result is the pair of what the
  function returns and the store after it.
\<close>

definition ContactRepository_Create ::
  "env \<Rightarrow> db \<Rightarrow> User \<Rightarrow> Contact \<Rightarrow> (error + Contact) \<times> db" where
  "ContactRepository_Create e d user contact =
     (let prefixedDeviceId = getPrefixedDeviceId e (User.DeviceId user);
          row = (contact_columns e d)
                  \<lparr>Contact.UserId := User.Id user,
                   Contact.DeviceId := prefixedDeviceId,
                   Contact.EmailAddress := Contact.EmailAddress contact,
                   Contact.FirstName := Contact.FirstName contact,
                   Contact.LastName := Contact.LastName contact\<rparr>
      in case QueryRow e 0 [row] of
           Inl err \<Rightarrow>
             (if Error err = contact_unique_failed then (Inl ErrDuplicateContact, d)
              else (Inl (Sql err), d))
         | Inr r \<Rightarrow> (Inr r, d\<lparr>tbl_contact := tbl_contact d @ [row]\<rparr>))"

text \<open>
  \<^verbatim>\<open>List\<close>: \<^verbatim>\<open>BeginTx\<close> (call 0), the query of the live rows (1), the history query (2),
  \<^verbatim>\<open>Commit\<close> (3). A read-only transaction leaves the store as it is, whether it commits or
  is rolled back.
\<close>

definition ContactRepository_List :: "env \<Rightarrow> db \<Rightarrow> User \<Rightarrow> error + ContactList" where
  "ContactRepository_List e d user =
     (case call e 0 of Some err \<Rightarrow> Inl (Sql err) | None \<Rightarrow>
      (case Query e 1
              (order_by_desc Contact.CreatedAt
                 (sql_select (\<lambda>r. Contact.UserId r = User.Id user \<and> Contact.LastStmt r < 2)
                    (tbl_contact d))) of
         Inl err \<Rightarrow> Inl (Sql err)
       | Inr contacts \<Rightarrow>
      (case QueryRow e 2 (select_last_history_id (User.Id user) (tbl_contact_history_seq d)) of
         Inl err \<Rightarrow> Inl (Sql err)
       | Inr history \<Rightarrow>
      (case call e 3 of Some err \<Rightarrow> Inl (Sql err) | None \<Rightarrow>
         Inr \<lparr>ContactList.History = history, ContactList.Contacts = contacts\<rparr>))))"

text \<open>
  \<^verbatim>\<open>Sync\<close>: \<^verbatim>\<open>BeginTx\<close> (call 0), the inserted, updated, trashed and deleted queries (1 to 4),
  the history query (5), \<^verbatim>\<open>Commit\<close> (6).
\<close>

definition contact_changed :: "User \<Rightarrow> History \<Rightarrow> int \<Rightarrow> Contact \<Rightarrow> bool" where
  "contact_changed user history stmt r =
     (Contact.UserId r = User.Id user \<and>
      Contact.LastStmt r = stmt \<and>
      other_device (Contact.DeviceId r) (User.DeviceId user) \<and>
      Contact.HistoryId r > History.Id history)"

definition contact_deleted_changed :: "User \<Rightarrow> History \<Rightarrow> ContactDeleted \<Rightarrow> bool" where
  "contact_deleted_changed user history r =
     (ContactDeleted.UserId r = User.Id user \<and>
      other_device (ContactDeleted.DeviceId r) (User.DeviceId user) \<and>
      ContactDeleted.HistoryId r > History.Id history)"

definition ContactRepository_Sync ::
  "env \<Rightarrow> db \<Rightarrow> User \<Rightarrow> History \<Rightarrow> error + ContactSync" where
  "ContactRepository_Sync e d user history =
     (case call e 0 of Some err \<Rightarrow> Inl (Sql err) | None \<Rightarrow>
      (case Query e 1
              (order_by_desc Contact.CreatedAt
                 (sql_select (contact_changed user history 0) (tbl_contact d))) of
         Inl err \<Rightarrow> Inl (Sql err)
       | Inr inserted \<Rightarrow>
      (case Query e 2
              (order_by_desc Contact.CreatedAt
                 (sql_select (contact_changed user history 1) (tbl_contact d))) of
         Inl err \<Rightarrow> Inl (Sql err)
       | Inr updated \<Rightarrow>
      (case Query e 3
              (order_by_desc Contact.CreatedAt
                 (sql_select (contact_changed user history 2) (tbl_contact d))) of
         Inl err \<Rightarrow> Inl (Sql err)
       | Inr trashed \<Rightarrow>
      (case Query e 4
              (sql_select (contact_deleted_changed user history) (tbl_contact_deleted d)) of
         Inl err \<Rightarrow> Inl (Sql err)
       | Inr deleted \<Rightarrow>
      (case QueryRow e 5 (select_last_history_id (User.Id user) (tbl_contact_history_seq d)) of
         Inl err \<Rightarrow> Inl (Sql err)
       | Inr h \<Rightarrow>
      (case call e 6 of Some err \<Rightarrow> Inl (Sql err) | None \<Rightarrow>
         Inr \<lparr>ContactSync.History = h,
              ContactSync.ContactsInserted = inserted,
              ContactSync.ContactsUpdated = updated,
              ContactSync.ContactsTrashed = trashed,
              ContactSync.ContactsDeleted = deleted\<rparr>)))))))"

text \<open>
  \<^verbatim>\<open>Update\<close>: one \<^verbatim>\<open>UPDATE ... RETURNING *\<close> (call 0); \<^verbatim>\<open>Scan\<close> reads the first row that the
  statement returns. \<open>wh\<close> is the \<^verbatim>\<open>WHERE\<close> clause and the record update in \<open>st\<close> the \<^verbatim>\<open>SET\<close>
  clause of the statement; what the schema adds to a changed row (\<open>Contact_on_update\<close>,
  \<open>update_with_history\<close>, \<open>history_seq_advance\<close>) is modelled from the specification.
\<close>

definition ContactRepository_Update ::
  "env \<Rightarrow> db \<Rightarrow> User \<Rightarrow> Contact \<Rightarrow> (error + Contact) \<times> db" where
  "ContactRepository_Update e d user contact =
     (let prefixedDeviceId = getPrefixedDeviceId e (User.DeviceId user);
          wh = (\<lambda>r. Contact.UserId r = User.Id user \<and>
                     Contact.Id r = Contact.Id contact \<and>
                     Contact.LastStmt r \<noteq> 2);
          st = (\<lambda>h r. Contact_on_update (now e) h
                         (r\<lparr>Contact.EmailAddress := Contact.EmailAddress contact,
                            Contact.FirstName := Contact.FirstName contact,
                            Contact.LastName := Contact.LastName contact,
                            Contact.DeviceId := prefixedDeviceId\<rparr>));
          h = last_history_id (User.Id user) (tbl_contact_history_seq d)
      in case QueryRow e 0 (update_with_history wh st h (sql_select wh (tbl_contact d))) of
           Inl err \<Rightarrow>
             (if err = ErrNoRows then (Inl ErrContactNotFound, d)
              else if Error err = contact_unique_failed then (Inl ErrDuplicateContact, d)
              else (Inl (Sql err), d))
         | Inr r \<Rightarrow>
             (Inr r,
              d\<lparr>tbl_contact := update_with_history wh st h (tbl_contact d),
                tbl_contact_history_seq :=
                  history_seq_advance (User.Id user) (length (sql_select wh (tbl_contact d)))
                    (tbl_contact_history_seq d)\<rparr>))"

text \<open>
  \<^verbatim>\<open>Trash\<close>, \<^verbatim>\<open>Untrash\<close>, \<^verbatim>\<open>Delete\<close>: one statement (call 0) when \<^verbatim>\<open>len(idList) > 0\<close>, none
  otherwise. The result is the error, if any, and the store after the call.
\<close>

definition ContactRepository_Trash ::
  "env \<Rightarrow> db \<Rightarrow> User \<Rightarrow> string \<Rightarrow> error option \<times> db" where
  "ContactRepository_Trash e d user idList =
     (if length idList > 0 then
        (let prefixedDeviceId = getPrefixedDeviceId e (User.DeviceId user)
         in case Exec e 0 (json_each e idList) of
              Inl err \<Rightarrow> (Some (Sql err), d)
            | Inr vs \<Rightarrow>
                (None,
                 d\<lparr>tbl_contact :=
                     sql_update
                       (\<lambda>r. Contact.UserId r = User.Id user \<and> Contact.Id r \<in> set vs)
                       (\<lambda>r. r\<lparr>Contact.LastStmt := 2, Contact.DeviceId := prefixedDeviceId\<rparr>)
                       (tbl_contact d)\<rparr>))
      else (None, d))"

definition ContactRepository_Untrash ::
  "env \<Rightarrow> db \<Rightarrow> User \<Rightarrow> string \<Rightarrow> error option \<times> db" where
  "ContactRepository_Untrash e d user idList =
     (if length idList > 0 then
        (let prefixedDeviceId = getPrefixedDeviceId e (User.DeviceId user)
         in case Exec e 0 (json_each e idList) of
              Inl err \<Rightarrow> (Some (Sql err), d)
            | Inr vs \<Rightarrow>
                (None,
                 d\<lparr>tbl_contact :=
                     sql_update
                       (\<lambda>r. Contact.UserId r = User.Id user \<and> Contact.Id r \<in> set vs)
                       (\<lambda>r. r\<lparr>Contact.LastStmt := 0, Contact.DeviceId := prefixedDeviceId\<rparr>)
                       (tbl_contact d)\<rparr>))
      else (None, d))"

definition ContactRepository_Delete ::
  "env \<Rightarrow> db \<Rightarrow> User \<Rightarrow> string \<Rightarrow> error option \<times> db" where
  "ContactRepository_Delete e d user idList =
     (if length idList > 0 then
        (case Exec e 0 (json_each e idList) of
           Inl err \<Rightarrow> (Some (Sql err), d)
         | Inr vs \<Rightarrow>
             (None,
              d\<lparr>tbl_contact :=
                  sql_delete
                    (\<lambda>r. Contact.UserId r = User.Id user \<and> Contact.Id r \<in> set vs)
                    (tbl_contact d)\<rparr>))
      else (None, d))"

section \<open>BlobRepository\<close>

text \<open>
  \<^verbatim>\<open>List\<close>: as for contacts, but the query of the live rows has no \<^verbatim>\<open>ORDER BY\<close>; the rows come
  in storage order.
\<close>

definition BlobRepository_List :: "env \<Rightarrow> db \<Rightarrow> User \<Rightarrow> error + BlobList" where
  "BlobRepository_List e d user =
     (case call e 0 of Some err \<Rightarrow> Inl (Sql err) | None \<Rightarrow>
      (case Query e 1
              (sql_select (\<lambda>r. Blob.UserId r = User.Id user \<and> Blob.LastStmt r < 2)
                 (tbl_Blob d)) of
         Inl err \<Rightarrow> Inl (Sql err)
       | Inr blobs \<Rightarrow>
      (case QueryRow e 2 (select_last_history_id (User.Id user) (tbl_BlobHistorySeq d)) of
         Inl err \<Rightarrow> Inl (Sql err)
       | Inr history \<Rightarrow>
      (case call e 3 of Some err \<Rightarrow> Inl (Sql err) | None \<Rightarrow>
         Inr \<lparr>BlobList.History = history, BlobList.Blobs = blobs\<rparr>))))"

text \<open>
  \<^verbatim>\<open>Sync\<close>: the three queries on \<^verbatim>\<open>"Blob"\<close> have the same four conditions, joined by
  \<^verbatim>\<open>AND\<close> in an order that differs from query to query.
\<close>

definition blob_changed :: "User \<Rightarrow> History \<Rightarrow> int \<Rightarrow> Blob \<Rightarrow> bool" where
  "blob_changed user history stmt r =
     (Blob.UserId r = User.Id user \<and>
      other_device (Blob.DeviceId r) (User.DeviceId user) \<and>
      Blob.LastStmt r = stmt \<and>
      Blob.HistoryId r > History.Id history)"

definition blob_deleted_changed :: "User \<Rightarrow> History \<Rightarrow> BlobDeleted \<Rightarrow> bool" where
  "blob_deleted_changed user history r =
     (BlobDeleted.UserId r = User.Id user \<and>
      other_device (BlobDeleted.DeviceId r) (User.DeviceId user) \<and>
      BlobDeleted.HistoryId r > History.Id history)"

definition BlobRepository_Sync :: "env \<Rightarrow> db \<Rightarrow> User \<Rightarrow> History \<Rightarrow> error + BlobSync" where
  "BlobRepository_Sync e d user history =
     (case call e 0 of Some err \<Rightarrow> Inl (Sql err) | None \<Rightarrow>
      (case Query e 1
              (order_by_desc Blob.CreatedAt
                 (sql_select (blob_changed user history 0) (tbl_Blob d))) of
         Inl err \<Rightarrow> Inl (Sql err)
       | Inr inserted \<Rightarrow>
      (case Query e 2
              (order_by_desc Blob.CreatedAt
                 (sql_select (blob_changed user history 1) (tbl_Blob d))) of
         Inl err \<Rightarrow> Inl (Sql err)
       | Inr updated \<Rightarrow>
      (case Query e 3
              (order_by_desc Blob.CreatedAt
                 (sql_select (blob_changed user history 2) (tbl_Blob d))) of
         Inl err \<Rightarrow> Inl (Sql err)
       | Inr trashed \<Rightarrow>
      (case Query e 4 (sql_select (blob_deleted_changed user history) (tbl_BlobDeleted d)) of
         Inl err \<Rightarrow> Inl (Sql err)
       | Inr deleted \<Rightarrow>
      (case QueryRow e 5 (select_last_history_id (User.Id user) (tbl_BlobHistorySeq d)) of
         Inl err \<Rightarrow> Inl (Sql err)
       | Inr h \<Rightarrow>
      (case call e 6 of Some err \<Rightarrow> Inl (Sql err) | None \<Rightarrow>
         Inr \<lparr>BlobSync.History = h,
              BlobSync.BlobsInserted = inserted,
              BlobSync.BlobsUpdated = updated,
              BlobSync.BlobsTrashed = trashed,
              BlobSync.BlobsDeleted = deleted\<rparr>)))))))"

definition BlobRepository_Update ::
  "env \<Rightarrow> db \<Rightarrow> User \<Rightarrow> Blob \<Rightarrow> (error + Blob) \<times> db" where
  "BlobRepository_Update e d user blob =
     (let prefixedDeviceId = getPrefixedDeviceId e (User.DeviceId user);
          wh = (\<lambda>r. Blob.UserId r = User.Id user \<and>
                     Blob.Uri r = Blob.Uri blob \<and>
                     Blob.LastStmt r \<noteq> 2);
          st = (\<lambda>h r. Blob_on_update (now e) h
                         (r\<lparr>Blob.Hash := Blob.Hash blob,
                            Blob.Snippet := Blob.Snippet blob,
                            Blob.Size := Blob.Size blob,
                            Blob.DeviceId := prefixedDeviceId\<rparr>));
          h = last_history_id (User.Id user) (tbl_BlobHistorySeq d)
      in case QueryRow e 0 (update_with_history wh st h (sql_select wh (tbl_Blob d))) of
           Inl err \<Rightarrow>
             (if err = ErrNoRows then (Inl ErrBlobNotFound, d) else (Inl (Sql err), d))
         | Inr r \<Rightarrow>
             (Inr r,
              d\<lparr>tbl_Blob := update_with_history wh st h (tbl_Blob d),
                tbl_BlobHistorySeq :=
                  history_seq_advance (User.Id user) (length (sql_select wh (tbl_Blob d)))
                    (tbl_BlobHistorySeq d)\<rparr>))"

definition BlobRepository_Trash ::
  "env \<Rightarrow> db \<Rightarrow> User \<Rightarrow> string \<Rightarrow> error option \<times> db" where
  "BlobRepository_Trash e d user uris =
     (if length uris > 0 then
        (let prefixedDeviceId = getPrefixedDeviceId e (User.DeviceId user)
         in case Exec e 0 (json_each_path e uris ''$.uris'') of
              Inl err \<Rightarrow> (Some (Sql err), d)
            | Inr vs \<Rightarrow>
                (None,
                 d\<lparr>tbl_Blob :=
                     sql_update
                       (\<lambda>r. Blob.UserId r = User.Id user \<and> Blob.Uri r \<in> set vs)
                       (\<lambda>r. r\<lparr>Blob.LastStmt := 2, Blob.DeviceId := prefixedDeviceId\<rparr>)
                       (tbl_Blob d)\<rparr>))
      else (None, d))"

definition BlobRepository_Untrash ::
  "env \<Rightarrow> db \<Rightarrow> User \<Rightarrow> string \<Rightarrow> error option \<times> db" where
  "BlobRepository_Untrash e d user uris =
     (if length uris > 0 then
        (let prefixedDeviceId = getPrefixedDeviceId e (User.DeviceId user)
         in case Exec e 0 (json_each_path e uris ''$.uris'') of
              Inl err \<Rightarrow> (Some (Sql err), d)
            | Inr vs \<Rightarrow>
                (None,
                 d\<lparr>tbl_Blob :=
                     sql_update
                       (\<lambda>r. Blob.UserId r = User.Id user \<and> Blob.Uri r \<in> set vs)
                       (\<lambda>r. r\<lparr>Blob.LastStmt := 0, Blob.DeviceId := prefixedDeviceId\<rparr>)
                       (tbl_Blob d)\<rparr>))
      else (None, d))"

text \<open>
  \<^verbatim>\<open>Delete\<close>: \<^verbatim>\<open>BeginTx\<close> (call 0), the \<^verbatim>\<open>DELETE\<close> on \<^verbatim>\<open>"Blob"\<close> (1), the \<^verbatim>\<open>UPDATE\<close> on
  \<^verbatim>\<open>"BlobDeleted"\<close> (2), \<^verbatim>\<open>Commit\<close> (3). The statements work on the transaction's copy of
  the store; the deferred \<^verbatim>\<open>tx.Rollback()\<close> drops the copy on every return before a
  successful \<^verbatim>\<open>Commit\<close>, which installs it. The \<^verbatim>\<open>UPDATE\<close> is given \<^verbatim>\<open>user.DeviceId\<close> itself.
\<close>

definition BlobRepository_Delete ::
  "env \<Rightarrow> db \<Rightarrow> User \<Rightarrow> string \<Rightarrow> error option \<times> db" where
  "BlobRepository_Delete e d user uris =
     (if length uris > 0 then
        (case call e 0 of Some err \<Rightarrow> (Some (Sql err), d) | None \<Rightarrow>
         (case Exec e 1 (json_each_path e uris ''$.uris'') of
            Inl err \<Rightarrow> (Some (Sql err), d)
          | Inr vs \<Rightarrow>
         (let tx = d\<lparr>tbl_Blob :=
                       sql_delete
                         (\<lambda>r. Blob.UserId r = User.Id user \<and> Blob.Uri r \<in> set vs)
                         (tbl_Blob d)\<rparr>
          in case Exec e 2 (json_each_path e uris ''$.uris'') of
               Inl err \<Rightarrow> (Some (Sql err), d)
             | Inr ws \<Rightarrow>
         (let tx' = tx\<lparr>tbl_BlobDeleted :=
                         sql_update
                           (\<lambda>r. BlobDeleted.UserId r = User.Id user \<and>
                                BlobDeleted.Uri r \<in> set ws)
                           (\<lambda>r. r\<lparr>BlobDeleted.DeviceId := User.DeviceId user\<rparr>)
                           (tbl_BlobDeleted tx)\<rparr>
          in case call e 3 of
               Some err \<Rightarrow> (Some (Sql err), d)
             | None \<Rightarrow> (None, tx')))))
      else (None, d))"

text \<open>The value of \<^verbatim>\<open>&Blob{}\<close>: every field zero.\<close>

definition zero_Blob :: Blob where
  "zero_Blob =
     \<lparr>Blob.Uri = [], Blob.UserId = 0, Blob.Hash = [], Blob.Name = [], Blob.Snippet = [],
      Blob.Path = [], Blob.Size = 0, Blob.ContentType = [], Blob.CreatedAt = 0,
      Blob.ModifiedAt = None, Blob.TimelineId = 0, Blob.HistoryId = 0, Blob.LastStmt = 0,
      Blob.DeviceId = None\<rparr>"

text \<open>
  \<^verbatim>\<open>GetBlobByUri\<close>: one query (call 0). Both results are returned: the blob is never
  \<^verbatim>\<open>nil\<close>, also beside an error.
\<close>

definition BlobRepository_GetBlobByUri ::
  "env \<Rightarrow> db \<Rightarrow> User \<Rightarrow> string \<Rightarrow> Blob \<times> error option" where
  "BlobRepository_GetBlobByUri e d user uri =
     (case QueryRow e 0
             (sql_select
                (\<lambda>r. Blob.UserId r = User.Id user \<and> Blob.Uri r = uri \<and> Blob.LastStmt r < 2)
                (tbl_Blob d)) of
        Inl err \<Rightarrow>
          (if Error err = ''sql: no rows in result set'' then (zero_Blob, None)
           else (zero_Blob, Some (Sql err)))
      | Inr blob \<Rightarrow> (blob, None))"

section \<open>DraftRepository\<close>

definition DraftRepository_Update ::
  "env \<Rightarrow> db \<Rightarrow> User \<Rightarrow> Draft \<Rightarrow> (error + Draft) \<times> db" where
  "DraftRepository_Update e d user draft =
     (let prefixedDeviceId = getPrefixedDeviceId e (User.DeviceId user);
          wh = (\<lambda>r. Draft.UserId r = User.Id user \<and>
                     Draft.Id r = Draft.Id draft \<and>
                     Draft.LastStmt r \<noteq> 2);
          st = (\<lambda>h r. Draft_on_update (now e) h
                         (r\<lparr>Draft.Payload := Draft.Payload draft,
                            Draft.DeviceId := prefixedDeviceId\<rparr>));
          h = last_history_id (User.Id user) (tbl_DraftHistorySeq d)
      in case QueryRow e 0 (update_with_history wh st h (sql_select wh (tbl_Draft d))) of
           Inl err \<Rightarrow>
             (if err = ErrNoRows then (Inl ErrDraftNotFound, d) else (Inl (Sql err), d))
         | Inr r \<Rightarrow>
             (Inr r,
              d\<lparr>tbl_Draft := update_with_history wh st h (tbl_Draft d),
                tbl_DraftHistorySeq :=
                  history_seq_advance (User.Id user) (length (sql_select wh (tbl_Draft d)))
                    (tbl_DraftHistorySeq d)\<rparr>))"

definition DraftRepository_Trash ::
  "env \<Rightarrow> db \<Rightarrow> User \<Rightarrow> string \<Rightarrow> error option \<times> db" where
  "DraftRepository_Trash e d user idList =
     (if length idList > 0 then
        (let prefixedDeviceId = getPrefixedDeviceId e (User.DeviceId user)
         in case Exec e 0 (json_each e idList) of
              Inl err \<Rightarrow> (Some (Sql err), d)
            | Inr vs \<Rightarrow>
                (None,
                 d\<lparr>tbl_Draft :=
                     sql_update
                       (\<lambda>r. Draft.UserId r = User.Id user \<and> Draft.Id r \<in> set vs)
                       (\<lambda>r. r\<lparr>Draft.LastStmt := 2, Draft.DeviceId := prefixedDeviceId\<rparr>)
                       (tbl_Draft d)\<rparr>))
      else (None, d))"

definition DraftRepository_Untrash ::
  "env \<Rightarrow> db \<Rightarrow> User \<Rightarrow> string \<Rightarrow> error option \<times> db" where
  "DraftRepository_Untrash e d user idList =
     (if length idList > 0 then
        (let prefixedDeviceId = getPrefixedDeviceId e (User.DeviceId user)
         in case Exec e 0 (json_each e idList) of
              Inl err \<Rightarrow> (Some (Sql err), d)
            | Inr vs \<Rightarrow>
                (None,
                 d\<lparr>tbl_Draft :=
                     sql_update
                       (\<lambda>r. Draft.UserId r = User.Id user \<and> Draft.Id r \<in> set vs)
                       (\<lambda>r. r\<lparr>Draft.LastStmt := 0, Draft.DeviceId := prefixedDeviceId\<rparr>)
                       (tbl_Draft d)\<rparr>))
      else (None, d))"

definition DraftRepository_Delete ::
  "env \<Rightarrow> db \<Rightarrow> User \<Rightarrow> string \<Rightarrow> error option \<times> db" where
  "DraftRepository_Delete e d user idList =
     (if length idList > 0 then
        (case Exec e 0 (json_each e idList) of
           Inl err \<Rightarrow> (Some (Sql err), d)
         | Inr vs \<Rightarrow>
             (None,
              d\<lparr>tbl_Draft :=
                  sql_delete
                    (\<lambda>r. Draft.UserId r = User.Id user \<and> Draft.Id r \<in> set vs)
                    (tbl_Draft d)\<rparr>))
      else (None, d))"

section \<open>Example stores\<close>

text \<open>
  A store with two users. User 1 has three contacts, one in each state, and one tombstone;
  user 2 has a contact with the id of one of user 1's. The environment lets every call
  through, reads the JSON texts below, and has a \<open>getPrefixedDeviceId\<close> that puts
  \<^verbatim>\<open>device:\<close> before a device id.
\<close>

definition contact1 :: Contact where
  "contact1 =
     \<lparr>Contact.Id = ''c1'', Contact.UserId = 1, Contact.EmailAddress = Some ''ann@example.org'',
      Contact.FirstName = Some ''Ann'', Contact.LastName = None, Contact.CreatedAt = 10,
      Contact.ModifiedAt = None, Contact.TimelineId = 1, Contact.HistoryId = 1,
      Contact.LastStmt = 0, Contact.DeviceId = Some ''d1''\<rparr>"

definition contact2 :: Contact where
  "contact2 =
     \<lparr>Contact.Id = ''c2'', Contact.UserId = 1, Contact.EmailAddress = Some ''bob@example.org'',
      Contact.FirstName = Some ''Bob'', Contact.LastName = Some ''Ray'', Contact.CreatedAt = 20,
      Contact.ModifiedAt = Some 25, Contact.TimelineId = 4, Contact.HistoryId = 4,
      Contact.LastStmt = 1, Contact.DeviceId = Some ''d2''\<rparr>"

definition contact3 :: Contact where
  "contact3 =
     \<lparr>Contact.Id = ''c3'', Contact.UserId = 1, Contact.EmailAddress = None,
      Contact.FirstName = Some ''Cy'', Contact.LastName = None, Contact.CreatedAt = 30,
      Contact.ModifiedAt = None, Contact.TimelineId = 3, Contact.HistoryId = 3,
      Contact.LastStmt = 2, Contact.DeviceId = None\<rparr>"

definition contact4 :: Contact where
  "contact4 =
     \<lparr>Contact.Id = ''c1'', Contact.UserId = 2, Contact.EmailAddress = Some ''dan@example.org'',
      Contact.FirstName = None, Contact.LastName = None, Contact.CreatedAt = 5,
      Contact.ModifiedAt = None, Contact.TimelineId = 1, Contact.HistoryId = 1,
      Contact.LastStmt = 0, Contact.DeviceId = Some ''d9''\<rparr>"

definition contact_new :: Contact where
  "contact_new =
     \<lparr>Contact.Id = ''c5'', Contact.UserId = 0, Contact.EmailAddress = None,
      Contact.FirstName = None, Contact.LastName = None, Contact.CreatedAt = 40,
      Contact.ModifiedAt = None, Contact.TimelineId = 5, Contact.HistoryId = 5,
      Contact.LastStmt = 0, Contact.DeviceId = None\<rparr>"

definition blob1 :: Blob where
  "blob1 =
     \<lparr>Blob.Uri = ''u1'', Blob.UserId = 1, Blob.Hash = ''h1'', Blob.Name = ''a.txt'',
      Blob.Snippet = [], Blob.Path = ''p1'', Blob.Size = 3, Blob.ContentType = ''text/plain'',
      Blob.CreatedAt = 10, Blob.ModifiedAt = None, Blob.TimelineId = 1, Blob.HistoryId = 1,
      Blob.LastStmt = 0, Blob.DeviceId = Some ''d2''\<rparr>"

definition blob2 :: Blob where
  "blob2 =
     \<lparr>Blob.Uri = ''u2'', Blob.UserId = 1, Blob.Hash = ''h2'', Blob.Name = ''b.txt'',
      Blob.Snippet = [], Blob.Path = ''p2'', Blob.Size = 4, Blob.ContentType = ''text/plain'',
      Blob.CreatedAt = 20, Blob.ModifiedAt = None, Blob.TimelineId = 2, Blob.HistoryId = 2,
      Blob.LastStmt = 2, Blob.DeviceId = Some ''d2''\<rparr>"

definition blob3 :: Blob where
  "blob3 =
     \<lparr>Blob.Uri = ''u1'', Blob.UserId = 2, Blob.Hash = ''h3'', Blob.Name = ''c.txt'',
      Blob.Snippet = [], Blob.Path = ''p3'', Blob.Size = 5, Blob.ContentType = ''text/plain'',
      Blob.CreatedAt = 15, Blob.ModifiedAt = None, Blob.TimelineId = 1, Blob.HistoryId = 1,
      Blob.LastStmt = 0, Blob.DeviceId = None\<rparr>"

definition draft1 :: Draft where
  "draft1 =
     \<lparr>Draft.Id = ''m1'', Draft.UserId = 1, Draft.MessageUid = ''x1'', Draft.ParentUid = None,
      Draft.ThreadUid = ''t1'', Draft.Unread = False, Draft.Starred = False,
      Draft.Payload = None, Draft.LabelIds = None, Draft.CreatedAt = 10,
      Draft.ModifiedAt = None, Draft.TimelineId = 1, Draft.HistoryId = 1,
      Draft.LastStmt = 1, Draft.DeviceId = Some ''d2''\<rparr>"

definition draft2 :: Draft where
  "draft2 =
     \<lparr>Draft.Id = ''m1'', Draft.UserId = 2, Draft.MessageUid = ''x2'', Draft.ParentUid = None,
      Draft.ThreadUid = ''t2'', Draft.Unread = False, Draft.Starred = True,
      Draft.Payload = None, Draft.LabelIds = None, Draft.CreatedAt = 11,
      Draft.ModifiedAt = None, Draft.TimelineId = 1, Draft.HistoryId = 1,
      Draft.LastStmt = 2, Draft.DeviceId = None\<rparr>"

definition db0 :: db where
  "db0 =
     \<lparr>tbl_contact = [contact1, contact2, contact3, contact4],
      tbl_contact_deleted =
        [\<lparr>ContactDeleted.Id = ''c0'', ContactDeleted.UserId = 1,
          ContactDeleted.HistoryId = 2, ContactDeleted.DeviceId = Some ''d2''\<rparr>],
      tbl_contact_history_seq = [(1, 4), (2, 1)],
      tbl_Blob = [blob1, blob2, blob3],
      tbl_BlobDeleted =
        [\<lparr>BlobDeleted.Uri = ''u1'', BlobDeleted.UserId = 1,
          BlobDeleted.HistoryId = 3, BlobDeleted.DeviceId = None\<rparr>,
         \<lparr>BlobDeleted.Uri = ''u0'', BlobDeleted.UserId = 1,
          BlobDeleted.HistoryId = 1, BlobDeleted.DeviceId = Some ''d2''\<rparr>],
      tbl_BlobHistorySeq = [(1, 3), (2, 1)],
      tbl_Draft = [draft1, draft2],
      tbl_DraftHistorySeq = [(1, 1), (2, 1)]\<rparr>"

definition ids_json :: string where
  \<open>ids_json = ''["c1","m1","zz"]''\<close>

definition ids_json2 :: string where
  \<open>ids_json2 = ''["c2","m1"]''\<close>

definition uris_json :: string where
  \<open>uris_json = ''{"uris":["u1","zz"]}''\<close>

definition env0 :: env where
  "env0 =
     \<lparr>fails = (\<lambda>n. None),
      json_each =
        (\<lambda>x. if x = ids_json then Inr [''c1'', ''m1'', ''zz'']
             else if x = ids_json2 then Inr [''c2'', ''m1'']
             else Inl ''malformed JSON''),
      json_each_path =
        (\<lambda>x p. if x = uris_json \<and> p = ''$.uris'' then Inr [''u1'', ''zz'']
               else Inl ''malformed JSON''),
      getPrefixedDeviceId = map_option (\<lambda>deviceId. ''device:'' @ deviceId),
      contact_columns = (\<lambda>d. contact_new),
      now = 50\<rparr>"

definition user1 :: User where
  "user1 = \<lparr>User.Id = 1, User.DeviceId = Some ''d1''\<rparr>"

definition user1_d2 :: User where
  "user1_d2 = \<lparr>User.Id = 1, User.DeviceId = Some ''d2''\<rparr>"

definition user2 :: User where
  "user2 = \<lparr>User.Id = 2, User.DeviceId = Some ''d9''\<rparr>"

definition history0 :: History where
  "history0 = \<lparr>History.Id = 0\<rparr>"

text \<open>
  A store in which no contact of user 1 was ever updated or trashed: one contact written
  by device \<^verbatim>\<open>d1\<close>, one by device \<^verbatim>\<open>d2\<close>.
\<close>

definition contact6 :: Contact where
  "contact6 =
     \<lparr>Contact.Id = ''c6'', Contact.UserId = 1, Contact.EmailAddress = Some ''eve@example.org'',
      Contact.FirstName = Some ''Eve'', Contact.LastName = Some ''Roe'', Contact.CreatedAt = 12,
      Contact.ModifiedAt = None, Contact.TimelineId = 2, Contact.HistoryId = 2,
      Contact.LastStmt = 0, Contact.DeviceId = Some ''d2''\<rparr>"

definition db1 :: db where
  "db1 = db0\<lparr>tbl_contact := [contact1, contact6, contact4]\<rparr>"

text \<open>
  The environment \<open>env0\<close> with the device attribution of the specification in the place
  of the helper \<open>getPrefixedDeviceId\<close>.
\<close>

definition env_attributed :: env where
  "env_attributed = env0\<lparr>getPrefixedDeviceId := attributedDevice\<rparr>"

text \<open>An environment in which \<^verbatim>\<open>Commit\<close> of \<open>BlobRepository_Delete\<close> (call 3) fails.\<close>

definition env_commit_fails :: env where
  "env_commit_fails =
     env0\<lparr>fails := (\<lambda>n. if n = 3 then Some ''database is locked'' else None)\<rparr>"

text \<open>
  An update of contact \<^verbatim>\<open>c1\<close> to the address and names of contact \<^verbatim>\<open>c2\<close>, and an
  environment in which the database rejects the statement for the uniqueness of these
  three columns.
\<close>

definition contact1_as_bob :: Contact where
  "contact1_as_bob =
     contact1\<lparr>Contact.EmailAddress := Some ''bob@example.org'',
              Contact.FirstName := Some ''Bob'', Contact.LastName := Some ''Ray''\<rparr>"

definition env_unique_fails :: env where
  "env_unique_fails = env0\<lparr>fails := (\<lambda>n. Some contact_unique_failed)\<rparr>"

text \<open>
  The store \<open>db0\<close> with one tombstone of a blob that is no longer in the table.
\<close>

definition db2 :: db where
  "db2 =
     db0\<lparr>tbl_BlobDeleted :=
           [\<lparr>BlobDeleted.Uri = ''u0'', BlobDeleted.UserId = 1,
             BlobDeleted.HistoryId = 1, BlobDeleted.DeviceId = Some ''d2''\<rparr>]\<rparr>"

section \<open>The calls, when the database answers\<close>

lemma scan_rows_append: "scan_rows acc rows = acc @ rows"
  by (induction rows arbitrary: acc) simp_all

lemma Query_ok: "fails e n = None \<Longrightarrow> Query e n rows = Inr rows"
  by (simp add: Query_def scan_rows_append)

lemma call_ok: "fails e n = None \<Longrightarrow> call e n = None"
  by (simp add: call_def)

lemma QueryRow_ok: "fails e n = None \<Longrightarrow> QueryRow e n (r # rs) = Inr r"
  by (simp add: QueryRow_def)

lemma other_device_iff:
  "other_device dev caller \<longleftrightarrow> (case caller of None \<Rightarrow> dev = None | Some c \<Rightarrow> dev \<noteq> Some c)"
  by (cases dev; cases caller) (auto simp: other_device_def sql_where_def sql_or_def sql_ne_def sql_is_null_def)

lemma select_last_history_id_ne:
  "uid \<in> fst ` set tbl \<Longrightarrow> select_last_history_id uid tbl \<noteq> []"
  by (induction tbl) (auto simp: select_last_history_id_def sql_select_def)

lemma order_by_desc_mset: "mset (order_by_desc c rows) = mset rows"
  by (simp add: order_by_desc_def)

lemma order_by_desc_set: "set (order_by_desc c rows) = set rows"
  by (simp add: order_by_desc_def)

lemma order_by_desc_sorted: "sorted_wrt (\<lambda>a b. c b \<le> c a) (order_by_desc c rows)"
proof -
  have "sorted (map (\<lambda>r. - c r) (order_by_desc c rows))"
    unfolding order_by_desc_def by (rule sorted_sort_key)
  then show ?thesis
    by (simp add: sorted_map sorted_wrt_iff_nth_less)
qed

lemma distinct_map_mset_subset:
  assumes "mset xs \<subseteq># mset ys" and "distinct (map f ys)"
  shows "distinct (map f xs)"
proof -
  have sub: "mset (map f xs) \<subseteq># mset (map f ys)"
    using assms(1) by (simp add: image_mset_subseteq_mono)
  have le: "count (mset (map f xs)) a \<le> 1" for a
  proof -
    have "count (mset (map f xs)) a \<le> count (mset (map f ys)) a"
      using sub by (rule mset_subset_eq_count)
    also have "\<dots> \<le> 1"
      using assms(2) by (simp add: distinct_count_atmost_1)
    finally show ?thesis .
  qed
  show ?thesis
    unfolding distinct_count_atmost_1
  proof
    fix a
    show "count (mset (map f xs)) a = (if a \<in> set (map f xs) then 1 else 0)"
    proof (cases "a \<in> set (map f xs)")
      case True
      then have "a \<in># mset (map f xs)" by simp
      then have "1 \<le> count (mset (map f xs)) a"
        by (simp only: count_greater_eq_one_iff)
      with le[of a] have "count (mset (map f xs)) a = 1" by linarith
      with True show ?thesis by (simp only: if_True)
    next
      case False
      then have "count (mset (map f xs)) a = 0"
        by (metis count_eq_zero_iff set_mset_mset)
      with False show ?thesis by (simp only: if_False)
    qed
  qed
qed

lemma mset_order_by_desc_select:
  "mset (order_by_desc c (sql_select P tbl)) = filter_mset P (mset tbl)"
  by (simp add: order_by_desc_mset sql_select_def)

section \<open>Sync: the four buckets\<close>

lemma ContactRepository_Sync_ok:
  assumes "\<forall>n<7. fails e n = None" and "User.Id user \<in> fst ` set (tbl_contact_history_seq d)"
  shows "ContactRepository_Sync e d user history =
     Inr \<lparr>ContactSync.History = hd (select_last_history_id (User.Id user) (tbl_contact_history_seq d)),
          ContactSync.ContactsInserted = order_by_desc Contact.CreatedAt
                 (sql_select (contact_changed user history 0) (tbl_contact d)),
          ContactSync.ContactsUpdated = order_by_desc Contact.CreatedAt
                 (sql_select (contact_changed user history 1) (tbl_contact d)),
          ContactSync.ContactsTrashed = order_by_desc Contact.CreatedAt
                 (sql_select (contact_changed user history 2) (tbl_contact d)),
          ContactSync.ContactsDeleted = sql_select (contact_deleted_changed user history) (tbl_contact_deleted d)\<rparr>"
proof -
  from assms(1) have f: "fails e 0 = None" "fails e (Suc 0) = None" "fails e 2 = None" "fails e 3 = None"
    "fails e 4 = None" "fails e 5 = None" "fails e 6 = None" by simp_all
  obtain h hs where hs: "select_last_history_id (User.Id user) (tbl_contact_history_seq d) = h # hs"
    using select_last_history_id_ne[OF assms(2)] by (cases "select_last_history_id (User.Id user) (tbl_contact_history_seq d)") auto
  show ?thesis
    by (simp add: ContactRepository_Sync_def call_ok Query_ok QueryRow_ok f hs)
qed

lemma contact_changed_eq:
  "contact_changed user history k =
     (\<lambda>r. Contact.UserId r = User.Id user \<and> Contact.LastStmt r = k \<and>
          History.Id history < Contact.HistoryId r \<and>
          (case User.DeviceId user of None \<Rightarrow> Contact.DeviceId r = None
           | Some c \<Rightarrow> Contact.DeviceId r \<noteq> Some c))"
  by (rule ext) (auto simp: contact_changed_def other_device_iff)

lemma contact_deleted_changed_eq:
  "contact_deleted_changed user history =
     (\<lambda>t. ContactDeleted.UserId t = User.Id user \<and>
          History.Id history < ContactDeleted.HistoryId t \<and>
          (case User.DeviceId user of None \<Rightarrow> ContactDeleted.DeviceId t = None
           | Some c \<Rightarrow> ContactDeleted.DeviceId t \<noteq> Some c))"
  by (rule ext) (auto simp: contact_deleted_changed_def other_device_iff)

lemma contact_buckets_distinct:
  assumes "distinct (map Contact.Id (filter (\<lambda>r. Contact.UserId r = User.Id user) tbl))"
  shows "distinct (map Contact.Id
           (order_by_desc Contact.CreatedAt (sql_select (contact_changed user history 0) tbl) @
            order_by_desc Contact.CreatedAt (sql_select (contact_changed user history 1) tbl) @
            order_by_desc Contact.CreatedAt (sql_select (contact_changed user history 2) tbl)))"
proof (rule distinct_map_mset_subset[OF _ assms])
  have "filter_mset (contact_changed user history 0) (mset tbl) +
        filter_mset (contact_changed user history 1) (mset tbl) +
        filter_mset (contact_changed user history 2) (mset tbl)
        \<subseteq># filter_mset (\<lambda>r. Contact.UserId r = User.Id user) (mset tbl)"
    by (rule mset_subset_eqI) (auto simp: contact_changed_def)
  then show "mset (order_by_desc Contact.CreatedAt (sql_select (contact_changed user history 0) tbl) @
            order_by_desc Contact.CreatedAt (sql_select (contact_changed user history 1) tbl) @
            order_by_desc Contact.CreatedAt (sql_select (contact_changed user history 2) tbl))
       \<subseteq># mset (filter (\<lambda>r. Contact.UserId r = User.Id user) tbl)"
    by (simp add: order_by_desc_mset sql_select_def add.assoc)
qed

lemma contact_sync_partition:
  assumes "\<forall>n<7. fails e n = None"
    and "User.Id user \<in> fst ` set (tbl_contact_history_seq d)"
  shows "\<exists>cs. ContactRepository_Sync e d user history = Inr cs \<and>
     mset (ContactsInserted cs) =
       {#r \<in># mset (tbl_contact d).
          Contact.UserId r = User.Id user \<and> Contact.LastStmt r = 0 \<and>
          History.Id history < Contact.HistoryId r \<and>
          (case User.DeviceId user of None \<Rightarrow> Contact.DeviceId r = None
           | Some c \<Rightarrow> Contact.DeviceId r \<noteq> Some c)#} \<and>
     mset (ContactsUpdated cs) =
       {#r \<in># mset (tbl_contact d).
          Contact.UserId r = User.Id user \<and> Contact.LastStmt r = 1 \<and>
          History.Id history < Contact.HistoryId r \<and>
          (case User.DeviceId user of None \<Rightarrow> Contact.DeviceId r = None
           | Some c \<Rightarrow> Contact.DeviceId r \<noteq> Some c)#} \<and>
     mset (ContactsTrashed cs) =
       {#r \<in># mset (tbl_contact d).
          Contact.UserId r = User.Id user \<and> Contact.LastStmt r = 2 \<and>
          History.Id history < Contact.HistoryId r \<and>
          (case User.DeviceId user of None \<Rightarrow> Contact.DeviceId r = None
           | Some c \<Rightarrow> Contact.DeviceId r \<noteq> Some c)#} \<and>
     mset (ContactsDeleted cs) =
       {#t \<in># mset (tbl_contact_deleted d).
          ContactDeleted.UserId t = User.Id user \<and>
          History.Id history < ContactDeleted.HistoryId t \<and>
          (case User.DeviceId user of None \<Rightarrow> ContactDeleted.DeviceId t = None
           | Some c \<Rightarrow> ContactDeleted.DeviceId t \<noteq> Some c)#} \<and>
     sorted_wrt (\<lambda>a b. Contact.CreatedAt b \<le> Contact.CreatedAt a) (ContactsInserted cs) \<and>
     sorted_wrt (\<lambda>a b. Contact.CreatedAt b \<le> Contact.CreatedAt a) (ContactsUpdated cs) \<and>
     sorted_wrt (\<lambda>a b. Contact.CreatedAt b \<le> Contact.CreatedAt a) (ContactsTrashed cs) \<and>
     set (ContactsInserted cs) \<inter> set (ContactsUpdated cs) = {} \<and>
     set (ContactsInserted cs) \<inter> set (ContactsTrashed cs) = {} \<and>
     set (ContactsUpdated cs) \<inter> set (ContactsTrashed cs) = {} \<and>
     (distinct (map Contact.Id (filter (\<lambda>r. Contact.UserId r = User.Id user) (tbl_contact d))) \<longrightarrow>
      distinct (map Contact.Id (ContactsInserted cs @ ContactsUpdated cs @ ContactsTrashed cs))) \<and>
     ((\<forall>t\<in>set (tbl_contact_deleted d). \<forall>r\<in>set (tbl_contact d).
         ContactDeleted.UserId t = User.Id user \<and> Contact.UserId r = User.Id user \<longrightarrow>
         ContactDeleted.Id t \<noteq> Contact.Id r) \<longrightarrow>
      set (map ContactDeleted.Id (ContactsDeleted cs)) \<inter>
      set (map Contact.Id (ContactsInserted cs @ ContactsUpdated cs @ ContactsTrashed cs)) = {})"
proof -
  define ins where "ins = order_by_desc Contact.CreatedAt
                 (sql_select (contact_changed user history 0) (tbl_contact d))"
  define upd where "upd = order_by_desc Contact.CreatedAt
                 (sql_select (contact_changed user history 1) (tbl_contact d))"
  define tr where "tr = order_by_desc Contact.CreatedAt
                 (sql_select (contact_changed user history 2) (tbl_contact d))"
  define del where "del = sql_select (contact_deleted_changed user history) (tbl_contact_deleted d)"
  define h where "h = hd (select_last_history_id (User.Id user) (tbl_contact_history_seq d))"
  have ok: "ContactRepository_Sync e d user history =
     Inr \<lparr>ContactSync.History = h, ContactSync.ContactsInserted = ins,
          ContactSync.ContactsUpdated = upd, ContactSync.ContactsTrashed = tr,
          ContactSync.ContactsDeleted = del\<rparr>"
    unfolding ins_def upd_def tr_def del_def h_def
    by (rule ContactRepository_Sync_ok) fact+
  have m: "mset ins = filter_mset (contact_changed user history 0) (mset (tbl_contact d))"
      "mset upd = filter_mset (contact_changed user history 1) (mset (tbl_contact d))"
      "mset tr = filter_mset (contact_changed user history 2) (mset (tbl_contact d))"
      "mset del = filter_mset (contact_deleted_changed user history) (mset (tbl_contact_deleted d))"
    by (simp_all add: ins_def upd_def tr_def del_def order_by_desc_mset sql_select_def)
  have s: "sorted_wrt (\<lambda>a b. Contact.CreatedAt b \<le> Contact.CreatedAt a) ins"
      "sorted_wrt (\<lambda>a b. Contact.CreatedAt b \<le> Contact.CreatedAt a) upd"
      "sorted_wrt (\<lambda>a b. Contact.CreatedAt b \<le> Contact.CreatedAt a) tr"
    by (simp_all only: ins_def upd_def tr_def order_by_desc_sorted)
  have i: "set ins \<inter> set upd = {}" "set ins \<inter> set tr = {}" "set upd \<inter> set tr = {}"
    by (auto simp: ins_def upd_def tr_def order_by_desc_set sql_select_def contact_changed_def)
  have dd: "distinct (map Contact.Id (filter (\<lambda>r. Contact.UserId r = User.Id user) (tbl_contact d))) \<longrightarrow>
      distinct (map Contact.Id (ins @ upd @ tr))"
    unfolding ins_def upd_def tr_def by (rule impI) (rule contact_buckets_distinct)
  have tb: "(\<forall>t\<in>set (tbl_contact_deleted d). \<forall>r\<in>set (tbl_contact d).
         ContactDeleted.UserId t = User.Id user \<and> Contact.UserId r = User.Id user \<longrightarrow>
         ContactDeleted.Id t \<noteq> Contact.Id r) \<longrightarrow>
      set (map ContactDeleted.Id del) \<inter> set (map Contact.Id (ins @ upd @ tr)) = {}"
    by (auto simp: ins_def upd_def tr_def del_def order_by_desc_set sql_select_def
          contact_changed_def contact_deleted_changed_def)
  show ?thesis
    unfolding ok using m s i dd tb
    by (simp add: contact_changed_eq contact_deleted_changed_eq)
qed

lemma BlobRepository_Sync_ok:
  assumes "\<forall>n<7. fails e n = None" and "User.Id user \<in> fst ` set (tbl_BlobHistorySeq d)"
  shows "BlobRepository_Sync e d user history =
     Inr \<lparr>BlobSync.History = hd (select_last_history_id (User.Id user) (tbl_BlobHistorySeq d)),
          BlobSync.BlobsInserted = order_by_desc Blob.CreatedAt
                 (sql_select (blob_changed user history 0) (tbl_Blob d)),
          BlobSync.BlobsUpdated = order_by_desc Blob.CreatedAt
                 (sql_select (blob_changed user history 1) (tbl_Blob d)),
          BlobSync.BlobsTrashed = order_by_desc Blob.CreatedAt
                 (sql_select (blob_changed user history 2) (tbl_Blob d)),
          BlobSync.BlobsDeleted = sql_select (blob_deleted_changed user history) (tbl_BlobDeleted d)\<rparr>"
proof -
  from assms(1) have f: "fails e 0 = None" "fails e (Suc 0) = None" "fails e 2 = None" "fails e 3 = None"
    "fails e 4 = None" "fails e 5 = None" "fails e 6 = None" by simp_all
  obtain h hs where hs: "select_last_history_id (User.Id user) (tbl_BlobHistorySeq d) = h # hs"
    using select_last_history_id_ne[OF assms(2)] by (cases "select_last_history_id (User.Id user) (tbl_BlobHistorySeq d)") auto
  show ?thesis
    by (simp add: BlobRepository_Sync_def call_ok Query_ok QueryRow_ok f hs)
qed

lemma blob_changed_eq:
  "blob_changed user history k =
     (\<lambda>r. Blob.UserId r = User.Id user \<and> Blob.LastStmt r = k \<and>
          History.Id history < Blob.HistoryId r \<and>
          (case User.DeviceId user of None \<Rightarrow> Blob.DeviceId r = None
           | Some c \<Rightarrow> Blob.DeviceId r \<noteq> Some c))"
  by (rule ext) (auto simp: blob_changed_def other_device_iff)

lemma blob_deleted_changed_eq:
  "blob_deleted_changed user history =
     (\<lambda>t. BlobDeleted.UserId t = User.Id user \<and>
          History.Id history < BlobDeleted.HistoryId t \<and>
          (case User.DeviceId user of None \<Rightarrow> BlobDeleted.DeviceId t = None
           | Some c \<Rightarrow> BlobDeleted.DeviceId t \<noteq> Some c))"
  by (rule ext) (auto simp: blob_deleted_changed_def other_device_iff)

lemma blob_buckets_distinct:
  assumes "distinct (map Blob.Uri (filter (\<lambda>r. Blob.UserId r = User.Id user) tbl))"
  shows "distinct (map Blob.Uri
           (order_by_desc Blob.CreatedAt (sql_select (blob_changed user history 0) tbl) @
            order_by_desc Blob.CreatedAt (sql_select (blob_changed user history 1) tbl) @
            order_by_desc Blob.CreatedAt (sql_select (blob_changed user history 2) tbl)))"
proof (rule distinct_map_mset_subset[OF _ assms])
  have "filter_mset (blob_changed user history 0) (mset tbl) +
        filter_mset (blob_changed user history 1) (mset tbl) +
        filter_mset (blob_changed user history 2) (mset tbl)
        \<subseteq># filter_mset (\<lambda>r. Blob.UserId r = User.Id user) (mset tbl)"
    by (rule mset_subset_eqI) (auto simp: blob_changed_def)
  then show "mset (order_by_desc Blob.CreatedAt (sql_select (blob_changed user history 0) tbl) @
            order_by_desc Blob.CreatedAt (sql_select (blob_changed user history 1) tbl) @
            order_by_desc Blob.CreatedAt (sql_select (blob_changed user history 2) tbl))
       \<subseteq># mset (filter (\<lambda>r. Blob.UserId r = User.Id user) tbl)"
    by (simp add: order_by_desc_mset sql_select_def add.assoc)
qed

lemma blob_sync_partition:
  assumes "\<forall>n<7. fails e n = None"
    and "User.Id user \<in> fst ` set (tbl_BlobHistorySeq d)"
  shows "\<exists>bs. BlobRepository_Sync e d user history = Inr bs \<and>
     mset (BlobsInserted bs) =
       {#r \<in># mset (tbl_Blob d).
          Blob.UserId r = User.Id user \<and> Blob.LastStmt r = 0 \<and>
          History.Id history < Blob.HistoryId r \<and>
          (case User.DeviceId user of None \<Rightarrow> Blob.DeviceId r = None
           | Some c \<Rightarrow> Blob.DeviceId r \<noteq> Some c)#} \<and>
     mset (BlobsUpdated bs) =
       {#r \<in># mset (tbl_Blob d).
          Blob.UserId r = User.Id user \<and> Blob.LastStmt r = 1 \<and>
          History.Id history < Blob.HistoryId r \<and>
          (case User.DeviceId user of None \<Rightarrow> Blob.DeviceId r = None
           | Some c \<Rightarrow> Blob.DeviceId r \<noteq> Some c)#} \<and>
     mset (BlobsTrashed bs) =
       {#r \<in># mset (tbl_Blob d).
          Blob.UserId r = User.Id user \<and> Blob.LastStmt r = 2 \<and>
          History.Id history < Blob.HistoryId r \<and>
          (case User.DeviceId user of None \<Rightarrow> Blob.DeviceId r = None
           | Some c \<Rightarrow> Blob.DeviceId r \<noteq> Some c)#} \<and>
     mset (BlobsDeleted bs) =
       {#t \<in># mset (tbl_BlobDeleted d).
          BlobDeleted.UserId t = User.Id user \<and>
          History.Id history < BlobDeleted.HistoryId t \<and>
          (case User.DeviceId user of None \<Rightarrow> BlobDeleted.DeviceId t = None
           | Some c \<Rightarrow> BlobDeleted.DeviceId t \<noteq> Some c)#} \<and>
     sorted_wrt (\<lambda>a b. Blob.CreatedAt b \<le> Blob.CreatedAt a) (BlobsInserted bs) \<and>
     sorted_wrt (\<lambda>a b. Blob.CreatedAt b \<le> Blob.CreatedAt a) (BlobsUpdated bs) \<and>
     sorted_wrt (\<lambda>a b. Blob.CreatedAt b \<le> Blob.CreatedAt a) (BlobsTrashed bs) \<and>
     set (BlobsInserted bs) \<inter> set (BlobsUpdated bs) = {} \<and>
     set (BlobsInserted bs) \<inter> set (BlobsTrashed bs) = {} \<and>
     set (BlobsUpdated bs) \<inter> set (BlobsTrashed bs) = {} \<and>
     (distinct (map Blob.Uri (filter (\<lambda>r. Blob.UserId r = User.Id user) (tbl_Blob d))) \<longrightarrow>
      distinct (map Blob.Uri (BlobsInserted bs @ BlobsUpdated bs @ BlobsTrashed bs))) \<and>
     ((\<forall>t\<in>set (tbl_BlobDeleted d). \<forall>r\<in>set (tbl_Blob d).
         BlobDeleted.UserId t = User.Id user \<and> Blob.UserId r = User.Id user \<longrightarrow>
         BlobDeleted.Uri t \<noteq> Blob.Uri r) \<longrightarrow>
      set (map BlobDeleted.Uri (BlobsDeleted bs)) \<inter>
      set (map Blob.Uri (BlobsInserted bs @ BlobsUpdated bs @ BlobsTrashed bs)) = {})"
proof -
  define ins where "ins = order_by_desc Blob.CreatedAt
                 (sql_select (blob_changed user history 0) (tbl_Blob d))"
  define upd where "upd = order_by_desc Blob.CreatedAt
                 (sql_select (blob_changed user history 1) (tbl_Blob d))"
  define tr where "tr = order_by_desc Blob.CreatedAt
                 (sql_select (blob_changed user history 2) (tbl_Blob d))"
  define del where "del = sql_select (blob_deleted_changed user history) (tbl_BlobDeleted d)"
  define h where "h = hd (select_last_history_id (User.Id user) (tbl_BlobHistorySeq d))"
  have ok: "BlobRepository_Sync e d user history =
     Inr \<lparr>BlobSync.History = h, BlobSync.BlobsInserted = ins,
          BlobSync.BlobsUpdated = upd, BlobSync.BlobsTrashed = tr,
          BlobSync.BlobsDeleted = del\<rparr>"
    unfolding ins_def upd_def tr_def del_def h_def
    by (rule BlobRepository_Sync_ok) fact+
  have m: "mset ins = filter_mset (blob_changed user history 0) (mset (tbl_Blob d))"
      "mset upd = filter_mset (blob_changed user history 1) (mset (tbl_Blob d))"
      "mset tr = filter_mset (blob_changed user history 2) (mset (tbl_Blob d))"
      "mset del = filter_mset (blob_deleted_changed user history) (mset (tbl_BlobDeleted d))"
    by (simp_all add: ins_def upd_def tr_def del_def order_by_desc_mset sql_select_def)
  have s: "sorted_wrt (\<lambda>a b. Blob.CreatedAt b \<le> Blob.CreatedAt a) ins"
      "sorted_wrt (\<lambda>a b. Blob.CreatedAt b \<le> Blob.CreatedAt a) upd"
      "sorted_wrt (\<lambda>a b. Blob.CreatedAt b \<le> Blob.CreatedAt a) tr"
    by (simp_all only: ins_def upd_def tr_def order_by_desc_sorted)
  have i: "set ins \<inter> set upd = {}" "set ins \<inter> set tr = {}" "set upd \<inter> set tr = {}"
    by (auto simp: ins_def upd_def tr_def order_by_desc_set sql_select_def blob_changed_def)
  have dd: "distinct (map Blob.Uri (filter (\<lambda>r. Blob.UserId r = User.Id user) (tbl_Blob d))) \<longrightarrow>
      distinct (map Blob.Uri (ins @ upd @ tr))"
    unfolding ins_def upd_def tr_def by (rule impI) (rule blob_buckets_distinct)
  have tb: "(\<forall>t\<in>set (tbl_BlobDeleted d). \<forall>r\<in>set (tbl_Blob d).
         BlobDeleted.UserId t = User.Id user \<and> Blob.UserId r = User.Id user \<longrightarrow>
         BlobDeleted.Uri t \<noteq> Blob.Uri r) \<longrightarrow>
      set (map BlobDeleted.Uri del) \<inter> set (map Blob.Uri (ins @ upd @ tr)) = {}"
    by (auto simp: ins_def upd_def tr_def del_def order_by_desc_set sql_select_def
          blob_changed_def blob_deleted_changed_def)
  show ?thesis
    unfolding ok using m s i dd tb
    by (simp add: blob_changed_eq blob_deleted_changed_eq)
qed

text \<open>
  C1. When the database answers every call of Sync and the user has a row in the history
  sequence table, Sync returns, and its buckets partition the changed rows by their
  current \<open>LastStmt\<close> and the device filter: inserted, updated and trashed hold exactly
  the user's rows (each as often as the table holds it) with \<open>LastStmt\<close> 0, 1 and 2, with
  a \<open>HistoryId\<close> above the one asked for, and with a \<open>DeviceId\<close> that is null or differs
  from the caller's device (for a caller without a device: that is null); deleted holds
  exactly the user's tombstones under the same two conditions. The three buckets of rows
  come newest first and are pairwise disjoint, so a row trashed after its insertion is in
  trashed only; where ids are unique among the user's rows, no id occurs twice in the
  three buckets, and where no tombstone of the user bears the id of one of the user's
  rows, no id of the deleted bucket occurs in the other three. This holds for contacts
  and for blobs.
\<close>

theorem sync_partitions_changed_rows:
  assumes "\<forall>n<7. fails e n = None"
    and "User.Id user \<in> fst ` set (tbl_contact_history_seq d)"
    and "User.Id user \<in> fst ` set (tbl_BlobHistorySeq d)"
  shows "(\<exists>cs. ContactRepository_Sync e d user history = Inr cs \<and>
     mset (ContactsInserted cs) =
       {#r \<in># mset (tbl_contact d).
          Contact.UserId r = User.Id user \<and> Contact.LastStmt r = 0 \<and>
          History.Id history < Contact.HistoryId r \<and>
          (case User.DeviceId user of None \<Rightarrow> Contact.DeviceId r = None
           | Some c \<Rightarrow> Contact.DeviceId r \<noteq> Some c)#} \<and>
     mset (ContactsUpdated cs) =
       {#r \<in># mset (tbl_contact d).
          Contact.UserId r = User.Id user \<and> Contact.LastStmt r = 1 \<and>
          History.Id history < Contact.HistoryId r \<and>
          (case User.DeviceId user of None \<Rightarrow> Contact.DeviceId r = None
           | Some c \<Rightarrow> Contact.DeviceId r \<noteq> Some c)#} \<and>
     mset (ContactsTrashed cs) =
       {#r \<in># mset (tbl_contact d).
          Contact.UserId r = User.Id user \<and> Contact.LastStmt r = 2 \<and>
          History.Id history < Contact.HistoryId r \<and>
          (case User.DeviceId user of None \<Rightarrow> Contact.DeviceId r = None
           | Some c \<Rightarrow> Contact.DeviceId r \<noteq> Some c)#} \<and>
     mset (ContactsDeleted cs) =
       {#t \<in># mset (tbl_contact_deleted d).
          ContactDeleted.UserId t = User.Id user \<and>
          History.Id history < ContactDeleted.HistoryId t \<and>
          (case User.DeviceId user of None \<Rightarrow> ContactDeleted.DeviceId t = None
           | Some c \<Rightarrow> ContactDeleted.DeviceId t \<noteq> Some c)#} \<and>
     sorted_wrt (\<lambda>a b. Contact.CreatedAt b \<le> Contact.CreatedAt a) (ContactsInserted cs) \<and>
     sorted_wrt (\<lambda>a b. Contact.CreatedAt b \<le> Contact.CreatedAt a) (ContactsUpdated cs) \<and>
     sorted_wrt (\<lambda>a b. Contact.CreatedAt b \<le> Contact.CreatedAt a) (ContactsTrashed cs) \<and>
     set (ContactsInserted cs) \<inter> set (ContactsUpdated cs) = {} \<and>
     set (ContactsInserted cs) \<inter> set (ContactsTrashed cs) = {} \<and>
     set (ContactsUpdated cs) \<inter> set (ContactsTrashed cs) = {} \<and>
     (distinct (map Contact.Id (filter (\<lambda>r. Contact.UserId r = User.Id user) (tbl_contact d))) \<longrightarrow>
      distinct (map Contact.Id (ContactsInserted cs @ ContactsUpdated cs @ ContactsTrashed cs))) \<and>
     ((\<forall>t\<in>set (tbl_contact_deleted d). \<forall>r\<in>set (tbl_contact d).
         ContactDeleted.UserId t = User.Id user \<and> Contact.UserId r = User.Id user \<longrightarrow>
         ContactDeleted.Id t \<noteq> Contact.Id r) \<longrightarrow>
      set (map ContactDeleted.Id (ContactsDeleted cs)) \<inter>
      set (map Contact.Id (ContactsInserted cs @ ContactsUpdated cs @ ContactsTrashed cs)) = {})) \<and>
    (\<exists>bs. BlobRepository_Sync e d user history = Inr bs \<and>
     mset (BlobsInserted bs) =
       {#r \<in># mset (tbl_Blob d).
          Blob.UserId r = User.Id user \<and> Blob.LastStmt r = 0 \<and>
          History.Id history < Blob.HistoryId r \<and>
          (case User.DeviceId user of None \<Rightarrow> Blob.DeviceId r = None
           | Some c \<Rightarrow> Blob.DeviceId r \<noteq> Some c)#} \<and>
     mset (BlobsUpdated bs) =
       {#r \<in># mset (tbl_Blob d).
          Blob.UserId r = User.Id user \<and> Blob.LastStmt r = 1 \<and>
          History.Id history < Blob.HistoryId r \<and>
          (case User.DeviceId user of None \<Rightarrow> Blob.DeviceId r = None
           | Some c \<Rightarrow> Blob.DeviceId r \<noteq> Some c)#} \<and>
     mset (BlobsTrashed bs) =
       {#r \<in># mset (tbl_Blob d).
          Blob.UserId r = User.Id user \<and> Blob.LastStmt r = 2 \<and>
          History.Id history < Blob.HistoryId r \<and>
          (case User.DeviceId user of None \<Rightarrow> Blob.DeviceId r = None
           | Some c \<Rightarrow> Blob.DeviceId r \<noteq> Some c)#} \<and>
     mset (BlobsDeleted bs) =
       {#t \<in># mset (tbl_BlobDeleted d).
          BlobDeleted.UserId t = User.Id user \<and>
          History.Id history < BlobDeleted.HistoryId t \<and>
          (case User.DeviceId user of None \<Rightarrow> BlobDeleted.DeviceId t = None
           | Some c \<Rightarrow> BlobDeleted.DeviceId t \<noteq> Some c)#} \<and>
     sorted_wrt (\<lambda>a b. Blob.CreatedAt b \<le> Blob.CreatedAt a) (BlobsInserted bs) \<and>
     sorted_wrt (\<lambda>a b. Blob.CreatedAt b \<le> Blob.CreatedAt a) (BlobsUpdated bs) \<and>
     sorted_wrt (\<lambda>a b. Blob.CreatedAt b \<le> Blob.CreatedAt a) (BlobsTrashed bs) \<and>
     set (BlobsInserted bs) \<inter> set (BlobsUpdated bs) = {} \<and>
     set (BlobsInserted bs) \<inter> set (BlobsTrashed bs) = {} \<and>
     set (BlobsUpdated bs) \<inter> set (BlobsTrashed bs) = {} \<and>
     (distinct (map Blob.Uri (filter (\<lambda>r. Blob.UserId r = User.Id user) (tbl_Blob d))) \<longrightarrow>
      distinct (map Blob.Uri (BlobsInserted bs @ BlobsUpdated bs @ BlobsTrashed bs))) \<and>
     ((\<forall>t\<in>set (tbl_BlobDeleted d). \<forall>r\<in>set (tbl_Blob d).
         BlobDeleted.UserId t = User.Id user \<and> Blob.UserId r = User.Id user \<longrightarrow>
         BlobDeleted.Uri t \<noteq> Blob.Uri r) \<longrightarrow>
      set (map BlobDeleted.Uri (BlobsDeleted bs)) \<inter>
      set (map Blob.Uri (BlobsInserted bs @ BlobsUpdated bs @ BlobsTrashed bs)) = {}))"
    (is "?contacts \<and> ?blobs")
proof
  from assms(1,2) show ?contacts by (rule contact_sync_partition)
next
  from assms(1,3) show ?blobs by (rule blob_sync_partition)
qed

theorem sync_partitions_changed_rows_witness:
  "\<exists>cs bs. ContactRepository_Sync env0 db2 user1 history0 = Inr cs \<and>
            BlobRepository_Sync env0 db2 user1 history0 = Inr bs \<and>
            mset (ContactsInserted cs) = {#} \<and>
            mset (ContactsUpdated cs) = {#contact2#} \<and>
            mset (ContactsTrashed cs) = {#contact3#} \<and>
            mset (ContactsDeleted cs) = mset (tbl_contact_deleted db2) \<and>
            distinct (map Contact.Id (ContactsInserted cs @ ContactsUpdated cs @ ContactsTrashed cs)) \<and>
            set (map ContactDeleted.Id (ContactsDeleted cs)) \<inter>
              set (map Contact.Id (ContactsInserted cs @ ContactsUpdated cs @ ContactsTrashed cs)) = {} \<and>
            mset (BlobsInserted bs) = {#blob1#} \<and>
            mset (BlobsUpdated bs) = {#} \<and>
            mset (BlobsTrashed bs) = {#blob2#} \<and>
            mset (BlobsDeleted bs) = mset (tbl_BlobDeleted db2) \<and>
            distinct (map Blob.Uri (BlobsInserted bs @ BlobsUpdated bs @ BlobsTrashed bs)) \<and>
            set (map BlobDeleted.Uri (BlobsDeleted bs)) \<inter>
              set (map Blob.Uri (BlobsInserted bs @ BlobsUpdated bs @ BlobsTrashed bs)) = {}"
proof -
  have h1: "\<forall>n<7. fails env0 n = None" by (simp add: env0_def)
  have h2: "User.Id user1 \<in> fst ` set (tbl_contact_history_seq db2)"
    by (simp add: user1_def db2_def db0_def)
  have h3: "User.Id user1 \<in> fst ` set (tbl_BlobHistorySeq db2)"
    by (simp add: user1_def db2_def db0_def)
  note t = sync_partitions_changed_rows[OF h1 h2 h3, of history0]
  from t[THEN conjunct1] obtain cs where
    c: "ContactRepository_Sync env0 db2 user1 history0 = Inr cs"
    and cm: "mset (ContactsInserted cs) =
       {#r \<in># mset (tbl_contact db2).
          Contact.UserId r = User.Id user1 \<and> Contact.LastStmt r = 0 \<and>
          History.Id history0 < Contact.HistoryId r \<and>
          (case User.DeviceId user1 of None \<Rightarrow> Contact.DeviceId r = None
           | Some c \<Rightarrow> Contact.DeviceId r \<noteq> Some c)#}"
     "mset (ContactsUpdated cs) =
       {#r \<in># mset (tbl_contact db2).
          Contact.UserId r = User.Id user1 \<and> Contact.LastStmt r = 1 \<and>
          History.Id history0 < Contact.HistoryId r \<and>
          (case User.DeviceId user1 of None \<Rightarrow> Contact.DeviceId r = None
           | Some c \<Rightarrow> Contact.DeviceId r \<noteq> Some c)#}"
     "mset (ContactsTrashed cs) =
       {#r \<in># mset (tbl_contact db2).
          Contact.UserId r = User.Id user1 \<and> Contact.LastStmt r = 2 \<and>
          History.Id history0 < Contact.HistoryId r \<and>
          (case User.DeviceId user1 of None \<Rightarrow> Contact.DeviceId r = None
           | Some c \<Rightarrow> Contact.DeviceId r \<noteq> Some c)#}"
     "mset (ContactsDeleted cs) =
       {#t \<in># mset (tbl_contact_deleted db2).
          ContactDeleted.UserId t = User.Id user1 \<and>
          History.Id history0 < ContactDeleted.HistoryId t \<and>
          (case User.DeviceId user1 of None \<Rightarrow> ContactDeleted.DeviceId t = None
           | Some c \<Rightarrow> ContactDeleted.DeviceId t \<noteq> Some c)#}"
    and cd: "distinct (map Contact.Id (filter (\<lambda>r. Contact.UserId r = User.Id user1) (tbl_contact db2))) \<longrightarrow>
      distinct (map Contact.Id (ContactsInserted cs @ ContactsUpdated cs @ ContactsTrashed cs))"
    and ct: "(\<forall>t\<in>set (tbl_contact_deleted db2). \<forall>r\<in>set (tbl_contact db2).
         ContactDeleted.UserId t = User.Id user1 \<and> Contact.UserId r = User.Id user1 \<longrightarrow>
         ContactDeleted.Id t \<noteq> Contact.Id r) \<longrightarrow>
      set (map ContactDeleted.Id (ContactsDeleted cs)) \<inter>
      set (map Contact.Id (ContactsInserted cs @ ContactsUpdated cs @ ContactsTrashed cs)) = {}"
    by (elim exE conjE)
  from t[THEN conjunct2] obtain bs where
    b: "BlobRepository_Sync env0 db2 user1 history0 = Inr bs"
    and bm: "mset (BlobsInserted bs) =
       {#r \<in># mset (tbl_Blob db2).
          Blob.UserId r = User.Id user1 \<and> Blob.LastStmt r = 0 \<and>
          History.Id history0 < Blob.HistoryId r \<and>
          (case User.DeviceId user1 of None \<Rightarrow> Blob.DeviceId r = None
           | Some c \<Rightarrow> Blob.DeviceId r \<noteq> Some c)#}"
     "mset (BlobsUpdated bs) =
       {#r \<in># mset (tbl_Blob db2).
          Blob.UserId r = User.Id user1 \<and> Blob.LastStmt r = 1 \<and>
          History.Id history0 < Blob.HistoryId r \<and>
          (case User.DeviceId user1 of None \<Rightarrow> Blob.DeviceId r = None
           | Some c \<Rightarrow> Blob.DeviceId r \<noteq> Some c)#}"
     "mset (BlobsTrashed bs) =
       {#r \<in># mset (tbl_Blob db2).
          Blob.UserId r = User.Id user1 \<and> Blob.LastStmt r = 2 \<and>
          History.Id history0 < Blob.HistoryId r \<and>
          (case User.DeviceId user1 of None \<Rightarrow> Blob.DeviceId r = None
           | Some c \<Rightarrow> Blob.DeviceId r \<noteq> Some c)#}"
     "mset (BlobsDeleted bs) =
       {#t \<in># mset (tbl_BlobDeleted db2).
          BlobDeleted.UserId t = User.Id user1 \<and>
          History.Id history0 < BlobDeleted.HistoryId t \<and>
          (case User.DeviceId user1 of None \<Rightarrow> BlobDeleted.DeviceId t = None
           | Some c \<Rightarrow> BlobDeleted.DeviceId t \<noteq> Some c)#}"
    and bd: "distinct (map Blob.Uri (filter (\<lambda>r. Blob.UserId r = User.Id user1) (tbl_Blob db2))) \<longrightarrow>
      distinct (map Blob.Uri (BlobsInserted bs @ BlobsUpdated bs @ BlobsTrashed bs))"
    and bt: "(\<forall>t\<in>set (tbl_BlobDeleted db2). \<forall>r\<in>set (tbl_Blob db2).
         BlobDeleted.UserId t = User.Id user1 \<and> Blob.UserId r = User.Id user1 \<longrightarrow>
         BlobDeleted.Uri t \<noteq> Blob.Uri r) \<longrightarrow>
      set (map BlobDeleted.Uri (BlobsDeleted bs)) \<inter>
      set (map Blob.Uri (BlobsInserted bs @ BlobsUpdated bs @ BlobsTrashed bs)) = {}"
    by (elim exE conjE)
  note defs = db2_def db0_def user1_def history0_def contact1_def contact2_def contact3_def
    contact4_def blob1_def blob2_def blob3_def
  have cm': "mset (ContactsInserted cs) = {#}" "mset (ContactsUpdated cs) = {#contact2#}"
    "mset (ContactsTrashed cs) = {#contact3#}"
    "mset (ContactsDeleted cs) = mset (tbl_contact_deleted db2)"
    unfolding cm by (simp_all add: defs)
  have bm': "mset (BlobsInserted bs) = {#blob1#}" "mset (BlobsUpdated bs) = {#}"
    "mset (BlobsTrashed bs) = {#blob2#}" "mset (BlobsDeleted bs) = mset (tbl_BlobDeleted db2)"
    unfolding bm by (simp_all add: defs)
  have "distinct (map Contact.Id (filter (\<lambda>r. Contact.UserId r = User.Id user1) (tbl_contact db2)))"
    by (simp add: defs)
  with cd have cd': "distinct (map Contact.Id (ContactsInserted cs @ ContactsUpdated cs @ ContactsTrashed cs))"
    by (rule mp)
  have "\<forall>t\<in>set (tbl_contact_deleted db2). \<forall>r\<in>set (tbl_contact db2).
         ContactDeleted.UserId t = User.Id user1 \<and> Contact.UserId r = User.Id user1 \<longrightarrow>
         ContactDeleted.Id t \<noteq> Contact.Id r"
    by (simp add: defs)
  with ct have ct': "set (map ContactDeleted.Id (ContactsDeleted cs)) \<inter>
      set (map Contact.Id (ContactsInserted cs @ ContactsUpdated cs @ ContactsTrashed cs)) = {}"
    by (rule mp)
  have "distinct (map Blob.Uri (filter (\<lambda>r. Blob.UserId r = User.Id user1) (tbl_Blob db2)))"
    by (simp add: defs)
  with bd have bd': "distinct (map Blob.Uri (BlobsInserted bs @ BlobsUpdated bs @ BlobsTrashed bs))"
    by (rule mp)
  have "\<forall>t\<in>set (tbl_BlobDeleted db2). \<forall>r\<in>set (tbl_Blob db2).
         BlobDeleted.UserId t = User.Id user1 \<and> Blob.UserId r = User.Id user1 \<longrightarrow>
         BlobDeleted.Uri t \<noteq> Blob.Uri r"
    by (simp add: defs)
  with bt have bt': "set (map BlobDeleted.Uri (BlobsDeleted bs)) \<inter>
      set (map Blob.Uri (BlobsInserted bs @ BlobsUpdated bs @ BlobsTrashed bs)) = {}"
    by (rule mp)
  from c b cm' cd' ct' bm' bd' bt' show ?thesis
    by (intro exI[of _ cs] exI[of _ bs] conjI)
qed

section \<open>List: the live rows and the high-water-mark\<close>

lemma select_last_history_id_hd:
  assumes "uid \<in> fst ` set tbl"
  shows "\<exists>rest. select_last_history_id uid tbl = hd (select_last_history_id uid tbl) # rest"
  using select_last_history_id_ne[OF assms]
  by (cases "select_last_history_id uid tbl") simp_all

lemma ContactRepository_List_ok:
  assumes "\<forall>n<4. fails e n = None" and "User.Id user \<in> fst ` set (tbl_contact_history_seq d)"
  shows "ContactRepository_List e d user =
     Inr \<lparr>ContactList.History = hd (select_last_history_id (User.Id user) (tbl_contact_history_seq d)),
          ContactList.Contacts = order_by_desc Contact.CreatedAt
             (sql_select (\<lambda>r. Contact.UserId r = User.Id user \<and> Contact.LastStmt r < 2) (tbl_contact d))\<rparr>"
proof -
  from assms(1) have f: "fails e 0 = None" "fails e (Suc 0) = None" "fails e 2 = None" "fails e 3 = None"
    by simp_all
  obtain h hs where hs: "select_last_history_id (User.Id user) (tbl_contact_history_seq d) = h # hs"
    using select_last_history_id_ne[OF assms(2)]
    by (cases "select_last_history_id (User.Id user) (tbl_contact_history_seq d)") auto
  show ?thesis
    by (simp add: ContactRepository_List_def call_ok Query_ok QueryRow_ok f hs)
qed

lemma BlobRepository_List_ok:
  assumes "\<forall>n<4. fails e n = None" and "User.Id user \<in> fst ` set (tbl_BlobHistorySeq d)"
  shows "BlobRepository_List e d user =
     Inr \<lparr>BlobList.History = hd (select_last_history_id (User.Id user) (tbl_BlobHistorySeq d)),
          BlobList.Blobs =
             sql_select (\<lambda>r. Blob.UserId r = User.Id user \<and> Blob.LastStmt r < 2) (tbl_Blob d)\<rparr>"
proof -
  from assms(1) have f: "fails e 0 = None" "fails e (Suc 0) = None" "fails e 2 = None" "fails e 3 = None"
    by simp_all
  obtain h hs where hs: "select_last_history_id (User.Id user) (tbl_BlobHistorySeq d) = h # hs"
    using select_last_history_id_ne[OF assms(2)]
    by (cases "select_last_history_id (User.Id user) (tbl_BlobHistorySeq d)") auto
  show ?thesis
    by (simp add: BlobRepository_List_def call_ok Query_ok QueryRow_ok f hs)
qed

lemma select_last_history_id_mem:
  "uid \<in> fst ` set tbl \<Longrightarrow> (uid, hd (select_last_history_id uid tbl)) \<in> set tbl"
proof (induction tbl)
  case Nil
  then show ?case by simp
next
  case (Cons s tbl)
  then show ?case
    by (cases "fst s = uid") (auto simp: select_last_history_id_def sql_select_def)
qed

text \<open>
  C4. When the database answers every call of List and the user has a row in the history
  sequence table, List returns. For contacts the list holds exactly the user's rows with
  \<open>LastStmt < 2\<close> (each as often as the table holds it), newest first; for blobs, whose
  query has no \<^verbatim>\<open>ORDER BY\<close>, it holds exactly the user's rows with \<open>LastStmt < 2\<close> in the
  order of the table. Beside it comes the \<open>last_history_id\<close> of the user's row in the
  sequence table, read from the same store.
\<close>

theorem list_returns_live_rows:
  assumes "\<forall>n<4. fails e n = None"
    and "User.Id user \<in> fst ` set (tbl_contact_history_seq d)"
    and "User.Id user \<in> fst ` set (tbl_BlobHistorySeq d)"
  shows "(\<exists>cl. ContactRepository_List e d user = Inr cl \<and>
            mset (Contacts cl) =
              {#r \<in># mset (tbl_contact d).
                 Contact.UserId r = User.Id user \<and> Contact.LastStmt r < 2#} \<and>
            sorted_wrt (\<lambda>a b. Contact.CreatedAt b \<le> Contact.CreatedAt a) (Contacts cl) \<and>
            (User.Id user, ContactList.History cl) \<in> set (tbl_contact_history_seq d) \<and>
            ContactList.History cl =
              hd (select_last_history_id (User.Id user) (tbl_contact_history_seq d))) \<and>
         (\<exists>bl. BlobRepository_List e d user = Inr bl \<and>
            Blobs bl =
              filter (\<lambda>r. Blob.UserId r = User.Id user \<and> Blob.LastStmt r < 2) (tbl_Blob d) \<and>
            (User.Id user, BlobList.History bl) \<in> set (tbl_BlobHistorySeq d) \<and>
            BlobList.History bl =
              hd (select_last_history_id (User.Id user) (tbl_BlobHistorySeq d)))"
proof (rule conjI)
  show "\<exists>cl. ContactRepository_List e d user = Inr cl \<and>
            mset (Contacts cl) =
              {#r \<in># mset (tbl_contact d).
                 Contact.UserId r = User.Id user \<and> Contact.LastStmt r < 2#} \<and>
            sorted_wrt (\<lambda>a b. Contact.CreatedAt b \<le> Contact.CreatedAt a) (Contacts cl) \<and>
            (User.Id user, ContactList.History cl) \<in> set (tbl_contact_history_seq d) \<and>
            ContactList.History cl =
              hd (select_last_history_id (User.Id user) (tbl_contact_history_seq d))"
    unfolding ContactRepository_List_ok[OF assms(1,2)]
    using select_last_history_id_mem[OF assms(2)]
    by (simp add: mset_order_by_desc_select order_by_desc_sorted)
  show "\<exists>bl. BlobRepository_List e d user = Inr bl \<and>
            Blobs bl =
              filter (\<lambda>r. Blob.UserId r = User.Id user \<and> Blob.LastStmt r < 2) (tbl_Blob d) \<and>
            (User.Id user, BlobList.History bl) \<in> set (tbl_BlobHistorySeq d) \<and>
            BlobList.History bl =
              hd (select_last_history_id (User.Id user) (tbl_BlobHistorySeq d))"
    unfolding BlobRepository_List_ok[OF assms(1,3)]
    using select_last_history_id_mem[OF assms(3)]
    by (simp add: sql_select_def)
qed

theorem list_returns_live_rows_witness:
  "\<exists>cl bl. ContactRepository_List env0 db0 user1 = Inr cl \<and>
     mset (Contacts cl) = {#contact1, contact2#} \<and>
     sorted_wrt (\<lambda>a b. Contact.CreatedAt b \<le> Contact.CreatedAt a) (Contacts cl) \<and>
     ContactList.History cl = 4 \<and>
     BlobRepository_List env0 db0 user1 = Inr bl \<and>
     Blobs bl = [blob1] \<and>
     BlobList.History bl = 3"
proof -
  have h1: "\<forall>n<4. fails env0 n = None" by (simp add: env0_def)
  have h2: "User.Id user1 \<in> fst ` set (tbl_contact_history_seq db0)"
    by (simp add: user1_def db0_def)
  have h3: "User.Id user1 \<in> fst ` set (tbl_BlobHistorySeq db0)"
    by (simp add: user1_def db0_def)
  from list_returns_live_rows[OF h1 h2 h3]
  obtain cl bl where
    c: "ContactRepository_List env0 db0 user1 = Inr cl"
    and cm: "mset (Contacts cl) =
              {#r \<in># mset (tbl_contact db0).
                 Contact.UserId r = User.Id user1 \<and> Contact.LastStmt r < 2#}"
    and cs: "sorted_wrt (\<lambda>a b. Contact.CreatedAt b \<le> Contact.CreatedAt a) (Contacts cl)"
    and ch: "ContactList.History cl =
              hd (select_last_history_id (User.Id user1) (tbl_contact_history_seq db0))"
    and b: "BlobRepository_List env0 db0 user1 = Inr bl"
    and bm: "Blobs bl =
              filter (\<lambda>r. Blob.UserId r = User.Id user1 \<and> Blob.LastStmt r < 2) (tbl_Blob db0)"
    and bh: "BlobList.History bl =
              hd (select_last_history_id (User.Id user1) (tbl_BlobHistorySeq db0))"
    by blast
  have c1: "mset (Contacts cl) = {#contact1, contact2#}"
    unfolding cm
    by (simp add: db0_def user1_def contact1_def contact2_def contact3_def contact4_def)
  have c2: "ContactList.History cl = 4"
    unfolding ch by (simp add: select_last_history_id_def sql_select_def db0_def user1_def)
  have b1: "Blobs bl = [blob1]"
    unfolding bm by (simp add: db0_def user1_def blob1_def blob2_def blob3_def)
  have b2: "BlobList.History bl = 3"
    unfolding bh by (simp add: select_last_history_id_def sql_select_def db0_def user1_def)
  from c c1 cs c2 b b1 b2 show ?thesis by blast
qed

section \<open>Sync from 0 against List\<close>

lemma filter_order_by_desc:
  "filter P (order_by_desc c rows) = order_by_desc c (filter P rows)"
  by (simp add: order_by_desc_def filter_sort)

text \<open>
  C3, as the code has it. Let no row of the user be updated or trashed (every one has
  \<open>LastStmt = 0\<close>), let the database answer every call and the user have a row in the
  history sequence table. Then Sync from 0 and List both return, with the same history
  id, and the inserted bucket is the List result without the rows that the Sync query
  leaves out: those whose \<open>DeviceId\<close> is the caller's device (for a caller without a
  device: is not null) and those whose \<open>HistoryId\<close> is not above 0. The two are equal
  exactly when List returns no such row. The updated and trashed buckets are empty.
\<close>

theorem sync_from_zero_is_filtered_list:
  assumes "\<forall>n<7. fails e n = None"
    and "User.Id user \<in> fst ` set (tbl_contact_history_seq d)"
    and "\<forall>r\<in>set (tbl_contact d). Contact.UserId r = User.Id user \<longrightarrow> Contact.LastStmt r = 0"
  shows "\<exists>cs cl. ContactRepository_Sync e d user \<lparr>History.Id = 0\<rparr> = Inr cs \<and>
       ContactRepository_List e d user = Inr cl \<and>
       ContactsInserted cs =
         filter (\<lambda>r. 0 < Contact.HistoryId r \<and>
                      (case User.DeviceId user of None \<Rightarrow> Contact.DeviceId r = None
                       | Some c \<Rightarrow> Contact.DeviceId r \<noteq> Some c))
           (Contacts cl) \<and>
       (ContactsInserted cs = Contacts cl \<longleftrightarrow>
          (\<forall>r\<in>set (Contacts cl). 0 < Contact.HistoryId r \<and>
                      (case User.DeviceId user of None \<Rightarrow> Contact.DeviceId r = None
                       | Some c \<Rightarrow> Contact.DeviceId r \<noteq> Some c))) \<and>
       ContactsUpdated cs = [] \<and>
       ContactsTrashed cs = [] \<and>
       ContactSync.History cs = ContactList.History cl"
proof -
  let ?P = "\<lambda>r. 0 < Contact.HistoryId r \<and>
                      (case User.DeviceId user of None \<Rightarrow> Contact.DeviceId r = None
                       | Some c \<Rightarrow> Contact.DeviceId r \<noteq> Some c)"
  let ?live = "\<lambda>r. Contact.UserId r = User.Id user \<and> Contact.LastStmt r < 2"
  have f4: "\<forall>n<4. fails e n = None" using assms(1) by simp
  define live where "live = order_by_desc Contact.CreatedAt (sql_select ?live (tbl_contact d))"
  define h where "h = hd (select_last_history_id (User.Id user) (tbl_contact_history_seq d))"
  define del where
    "del = sql_select (contact_deleted_changed user \<lparr>History.Id = 0\<rparr>) (tbl_contact_deleted d)"
  have "filter (contact_changed user \<lparr>History.Id = 0\<rparr> 0) (tbl_contact d) =
      filter ?P (filter ?live (tbl_contact d))"
    unfolding filter_filter
    by (rule filter_cong) (use assms(3) in \<open>auto simp: contact_changed_eq\<close>)
  then have ins: "order_by_desc Contact.CreatedAt
      (sql_select (contact_changed user \<lparr>History.Id = 0\<rparr> 0) (tbl_contact d)) = filter ?P live"
    by (simp only: live_def sql_select_def filter_order_by_desc)
  have "filter (contact_changed user \<lparr>History.Id = 0\<rparr> 1) (tbl_contact d) = []"
    using assms(3) by (auto simp: filter_empty_conv contact_changed_def)
  then have upd: "order_by_desc Contact.CreatedAt
      (sql_select (contact_changed user \<lparr>History.Id = 0\<rparr> 1) (tbl_contact d)) = []"
    by (simp add: sql_select_def order_by_desc_def)
  have "filter (contact_changed user \<lparr>History.Id = 0\<rparr> 2) (tbl_contact d) = []"
    using assms(3) by (auto simp: filter_empty_conv contact_changed_def)
  then have tr: "order_by_desc Contact.CreatedAt
      (sql_select (contact_changed user \<lparr>History.Id = 0\<rparr> 2) (tbl_contact d)) = []"
    by (simp add: sql_select_def order_by_desc_def)
  have s: "ContactRepository_Sync e d user \<lparr>History.Id = 0\<rparr> =
      Inr \<lparr>ContactSync.History = h, ContactSync.ContactsInserted = filter ?P live,
           ContactSync.ContactsUpdated = [], ContactSync.ContactsTrashed = [],
           ContactSync.ContactsDeleted = del\<rparr>"
    unfolding ContactRepository_Sync_ok[OF assms(1,2)] ins upd tr h_def del_def ..
  have l: "ContactRepository_List e d user =
      Inr \<lparr>ContactList.History = h, ContactList.Contacts = live\<rparr>"
    unfolding ContactRepository_List_ok[OF f4 assms(2)] h_def live_def ..
  have eq: "filter ?P live = live \<longleftrightarrow> (\<forall>r\<in>set live. ?P r)"
    by (rule filter_id_conv)
  show ?thesis
    unfolding s l using eq by simp
qed

theorem sync_from_zero_is_filtered_list_witness:
  "\<exists>cs cl. ContactRepository_Sync env0 db1 user1 \<lparr>History.Id = 0\<rparr> = Inr cs \<and>
       ContactRepository_List env0 db1 user1 = Inr cl \<and>
       ContactsInserted cs = filter (\<lambda>r. Contact.DeviceId r \<noteq> Some ''d1'') (Contacts cl) \<and>
       ContactSync.History cs = ContactList.History cl"
proof -
  have h1: "\<forall>n<7. fails env0 n = None" and h1': "\<forall>n<4. fails env0 n = None"
    by (simp_all add: env0_def)
  have h2: "User.Id user1 \<in> fst ` set (tbl_contact_history_seq db1)"
    by (simp add: user1_def db1_def db0_def)
  have h3: "\<forall>r\<in>set (tbl_contact db1). Contact.UserId r = User.Id user1 \<longrightarrow> Contact.LastStmt r = 0"
    by (simp add: user1_def db1_def contact1_def contact6_def contact4_def)
  from sync_from_zero_is_filtered_list[OF h1 h2 h3]
  obtain cs cl where
    a: "ContactRepository_Sync env0 db1 user1 \<lparr>History.Id = 0\<rparr> = Inr cs"
    and b: "ContactRepository_List env0 db1 user1 = Inr cl"
    and c: "ContactsInserted cs =
         filter (\<lambda>r. 0 < Contact.HistoryId r \<and>
                      (case User.DeviceId user1 of None \<Rightarrow> Contact.DeviceId r = None
                       | Some c \<Rightarrow> Contact.DeviceId r \<noteq> Some c))
           (Contacts cl)"
    and h: "ContactSync.History cs = ContactList.History cl"
    by blast
  have l: "ContactRepository_List env0 db1 user1 =
      Inr \<lparr>ContactList.History = 4, ContactList.Contacts = [contact6, contact1]\<rparr>"
    unfolding ContactRepository_List_ok[OF h1' h2]
    by (simp add: db1_def db0_def user1_def
          sql_select_def order_by_desc_def select_last_history_id_def
          contact1_def contact6_def contact4_def)
  from b l have "Contacts cl = [contact6, contact1]" by (cases cl) simp
  with c have "ContactsInserted cs = filter (\<lambda>r. Contact.DeviceId r \<noteq> Some ''d1'') (Contacts cl)"
    by (simp add: user1_def contact1_def contact6_def)
  with a b h show ?thesis by blast
qed

theorem sync_from_zero_differs_from_list:
  "filter (\<lambda>r. Contact.UserId r = User.Id user1 \<and> Contact.LastStmt r \<noteq> 0) (tbl_contact db1) = [] \<and>
   ContactRepository_List env0 db1 user1 =
     Inr \<lparr>ContactList.History = 4, ContactList.Contacts = [contact6, contact1]\<rparr> \<and>
   ContactRepository_Sync env0 db1 user1 \<lparr>History.Id = 0\<rparr> =
     Inr \<lparr>ContactSync.History = 4, ContactSync.ContactsInserted = [contact6],
          ContactSync.ContactsUpdated = [], ContactSync.ContactsTrashed = [],
          ContactSync.ContactsDeleted =
            [\<lparr>ContactDeleted.Id = ''c0'', ContactDeleted.UserId = 1,
              ContactDeleted.HistoryId = 2, ContactDeleted.DeviceId = Some ''d2''\<rparr>]\<rparr>"
proof -
  have h1: "\<forall>n<7. fails env0 n = None" and h1': "\<forall>n<4. fails env0 n = None"
    by (simp_all add: env0_def)
  have h2: "User.Id user1 \<in> fst ` set (tbl_contact_history_seq db1)"
    by (simp add: user1_def db1_def db0_def)
  have a: "filter (\<lambda>r. Contact.UserId r = User.Id user1 \<and> Contact.LastStmt r \<noteq> 0) (tbl_contact db1) = []"
    by (simp add: user1_def db1_def contact1_def contact6_def contact4_def)
  have b: "ContactRepository_List env0 db1 user1 =
     Inr \<lparr>ContactList.History = 4, ContactList.Contacts = [contact6, contact1]\<rparr>"
    unfolding ContactRepository_List_ok[OF h1' h2]
    by (simp add: db1_def db0_def user1_def
          sql_select_def order_by_desc_def select_last_history_id_def
          contact1_def contact6_def contact4_def)
  have c: "ContactRepository_Sync env0 db1 user1 \<lparr>History.Id = 0\<rparr> =
     Inr \<lparr>ContactSync.History = 4, ContactSync.ContactsInserted = [contact6],
          ContactSync.ContactsUpdated = [], ContactSync.ContactsTrashed = [],
          ContactSync.ContactsDeleted =
            [\<lparr>ContactDeleted.Id = ''c0'', ContactDeleted.UserId = 1,
              ContactDeleted.HistoryId = 2, ContactDeleted.DeviceId = Some ''d2''\<rparr>]\<rparr>"
    unfolding ContactRepository_Sync_ok[OF h1 h2]
    by (simp add: db1_def db0_def user1_def
          sql_select_def order_by_desc_def select_last_history_id_def
          contact_changed_eq contact_deleted_changed_eq
          contact1_def contact6_def contact4_def)
  from a b c show ?thesis by simp
qed

section \<open>Blob Delete: one transaction\<close>

lemma all_less_4: "(\<forall>n<4. P n) \<longleftrightarrow> P 0 \<and> P (Suc 0) \<and> P 2 \<and> P (3::nat)"
proof
  assume "\<forall>n<4. P n"
  then show "P 0 \<and> P (Suc 0) \<and> P 2 \<and> P 3" by simp
next
  assume a: "P 0 \<and> P (Suc 0) \<and> P 2 \<and> P 3"
  show "\<forall>n<4. P n"
  proof (intro allI impI)
    fix n :: nat assume "n < 4"
    then have "n = 0 \<or> n = Suc 0 \<or> n = 2 \<or> n = 3" by arith
    with a show "P n" by auto
  qed
qed

text \<open>
  C5. For a non-empty \<^verbatim>\<open>uris\<close> argument, Blob Delete either returns no error, and then the
  store differs from the one before in both ways at once: the user's \<open>Blob\<close> rows with a
  listed uri are gone and the user's \<open>BlobDeleted\<close> rows with a listed uri carry the
  caller's device id; or it returns an error, and then the store is the one before. It
  returns no error exactly when \<^verbatim>\<open>BeginTx\<close>, both statements and \<^verbatim>\<open>Commit\<close> go through and the
  JSON text can be read.
\<close>

theorem blob_delete_is_atomic:
  assumes "length uris > 0"
  shows "\<exists>err d'. BlobRepository_Delete e d user uris = (err, d') \<and>
     (err = None \<longleftrightarrow>
        (\<forall>n<4. fails e n = None) \<and> (\<exists>vs. json_each_path e uris ''$.uris'' = Inr vs)) \<and>
     (err \<noteq> None \<longrightarrow> d' = d) \<and>
     (\<forall>vs. err = None \<longrightarrow> json_each_path e uris ''$.uris'' = Inr vs \<longrightarrow>
        d' = d\<lparr>tbl_Blob :=
                 filter (\<lambda>r. \<not> (Blob.UserId r = User.Id user \<and> Blob.Uri r \<in> set vs))
                   (tbl_Blob d),
               tbl_BlobDeleted :=
                 map (\<lambda>t. if BlobDeleted.UserId t = User.Id user \<and> BlobDeleted.Uri t \<in> set vs
                          then t\<lparr>BlobDeleted.DeviceId := User.DeviceId user\<rparr> else t)
                   (tbl_BlobDeleted d)\<rparr>)"
  using assms unfolding all_less_4
  by (cases "json_each_path e uris ''$.uris''")
     (auto simp: BlobRepository_Delete_def Exec_def call_def Let_def sql_delete_def sql_update_def
        split: option.splits)

theorem blob_delete_is_atomic_witness:
  "BlobRepository_Delete env0 db0 user1 uris_json =
     (None,
      db0\<lparr>tbl_Blob := [blob2, blob3],
          tbl_BlobDeleted :=
            [\<lparr>BlobDeleted.Uri = ''u1'', BlobDeleted.UserId = 1,
              BlobDeleted.HistoryId = 3, BlobDeleted.DeviceId = Some ''d1''\<rparr>,
             \<lparr>BlobDeleted.Uri = ''u0'', BlobDeleted.UserId = 1,
              BlobDeleted.HistoryId = 1, BlobDeleted.DeviceId = Some ''d2''\<rparr>]\<rparr>) \<and>
   (\<exists>err. BlobRepository_Delete env_commit_fails db0 user1 uris_json = (Some err, db0))"
proof -
  have l: "length uris_json > 0" by (simp add: uris_json_def)
  have j: "json_each_path env0 uris_json ''$.uris'' = Inr [''u1'', ''zz'']"
    by (simp add: env0_def)
  have f: "\<forall>n<4. fails env0 n = None" by (simp add: env0_def)
  from blob_delete_is_atomic[OF l, of env0 db0 user1] obtain err d' where
    r: "BlobRepository_Delete env0 db0 user1 uris_json = (err, d')"
    and ok: "err = None \<longleftrightarrow>
        (\<forall>n<4. fails env0 n = None) \<and> (\<exists>vs. json_each_path env0 uris_json ''$.uris'' = Inr vs)"
    and eff: "\<forall>vs. err = None \<longrightarrow> json_each_path env0 uris_json ''$.uris'' = Inr vs \<longrightarrow>
        d' = db0\<lparr>tbl_Blob :=
                 filter (\<lambda>r. \<not> (Blob.UserId r = User.Id user1 \<and> Blob.Uri r \<in> set vs))
                   (tbl_Blob db0),
               tbl_BlobDeleted :=
                 map (\<lambda>t. if BlobDeleted.UserId t = User.Id user1 \<and> BlobDeleted.Uri t \<in> set vs
                          then t\<lparr>BlobDeleted.DeviceId := User.DeviceId user1\<rparr> else t)
                   (tbl_BlobDeleted db0)\<rparr>"
    by (elim exE conjE)
  from ok f j have e: "err = None" by simp
  from eff[rule_format, OF e j] have
    "d' = db0\<lparr>tbl_Blob := [blob2, blob3],
          tbl_BlobDeleted :=
            [\<lparr>BlobDeleted.Uri = ''u1'', BlobDeleted.UserId = 1,
              BlobDeleted.HistoryId = 3, BlobDeleted.DeviceId = Some ''d1''\<rparr>,
             \<lparr>BlobDeleted.Uri = ''u0'', BlobDeleted.UserId = 1,
              BlobDeleted.HistoryId = 1, BlobDeleted.DeviceId = Some ''d2''\<rparr>]\<rparr>"
    by (simp add: db0_def user1_def blob1_def blob2_def blob3_def)
  with r e have a: "BlobRepository_Delete env0 db0 user1 uris_json =
     (None,
      db0\<lparr>tbl_Blob := [blob2, blob3],
          tbl_BlobDeleted :=
            [\<lparr>BlobDeleted.Uri = ''u1'', BlobDeleted.UserId = 1,
              BlobDeleted.HistoryId = 3, BlobDeleted.DeviceId = Some ''d1''\<rparr>,
             \<lparr>BlobDeleted.Uri = ''u0'', BlobDeleted.UserId = 1,
              BlobDeleted.HistoryId = 1, BlobDeleted.DeviceId = Some ''d2''\<rparr>]\<rparr>)"
    by simp
  from blob_delete_is_atomic[OF l, of env_commit_fails db0 user1] obtain err2 d2 where
    r2: "BlobRepository_Delete env_commit_fails db0 user1 uris_json = (err2, d2)"
    and ok2: "err2 = None \<longleftrightarrow>
        (\<forall>n<4. fails env_commit_fails n = None) \<and>
        (\<exists>vs. json_each_path env_commit_fails uris_json ''$.uris'' = Inr vs)"
    and un2: "err2 \<noteq> None \<longrightarrow> d2 = db0"
    by (elim exE conjE)
  have "\<not> (\<forall>n<4. fails env_commit_fails n = None)"
    unfolding all_less_4 by (simp add: env_commit_fails_def)
  with ok2 have "err2 \<noteq> None" by simp
  with un2 r2 have b: "\<exists>err. BlobRepository_Delete env_commit_fails db0 user1 uris_json = (Some err, db0)"
    by auto
  from a b show ?thesis by simp
qed

section \<open>GetBlobByUri: not found is not an error\<close>

lemma GetBlobByUri_cases:
  assumes "fails e 0 = None"
  shows "BlobRepository_GetBlobByUri e d user uri =
     (case filter (\<lambda>r. Blob.UserId r = User.Id user \<and> Blob.Uri r = uri \<and> Blob.LastStmt r < 2)
             (tbl_Blob d) of
        [] \<Rightarrow> (zero_Blob, None)
      | r # _ \<Rightarrow> (r, None))"
  by (simp add: BlobRepository_GetBlobByUri_def QueryRow_def sql_select_def assms
        split: list.splits)

text \<open>
  C8. When the database answers the query, GetBlobByUri returns the zero-value Blob and
  no error if no row of the user has this uri and \<open>LastStmt < 2\<close>, and returns such a row
  and no error if there is one. So for a uri that is not empty (the zero-value Blob has
  the empty uri) it returns the zero-value Blob with no error exactly when there is no
  such row. In particular, when every row of the user with this uri is trashed
  (\<open>LastStmt = 2\<close>), the result is the zero-value Blob and no error.
\<close>

theorem get_blob_by_uri_zero_iff_no_live_row:
  assumes "fails e 0 = None"
  shows "((\<forall>r\<in>set (tbl_Blob d).
            \<not> (Blob.UserId r = User.Id user \<and> Blob.Uri r = uri \<and> Blob.LastStmt r < 2)) \<longrightarrow>
          BlobRepository_GetBlobByUri e d user uri = (zero_Blob, None)) \<and>
         ((\<exists>r\<in>set (tbl_Blob d).
            Blob.UserId r = User.Id user \<and> Blob.Uri r = uri \<and> Blob.LastStmt r < 2) \<longrightarrow>
          (\<exists>r\<in>set (tbl_Blob d).
            Blob.UserId r = User.Id user \<and> Blob.Uri r = uri \<and> Blob.LastStmt r < 2 \<and>
            BlobRepository_GetBlobByUri e d user uri = (r, None))) \<and>
         (uri \<noteq> [] \<longrightarrow>
          (BlobRepository_GetBlobByUri e d user uri = (zero_Blob, None) \<longleftrightarrow>
           (\<forall>r\<in>set (tbl_Blob d).
              \<not> (Blob.UserId r = User.Id user \<and> Blob.Uri r = uri \<and> Blob.LastStmt r < 2)))) \<and>
         ((\<forall>r\<in>set (tbl_Blob d).
            Blob.UserId r = User.Id user \<and> Blob.Uri r = uri \<longrightarrow> Blob.LastStmt r = 2) \<longrightarrow>
          BlobRepository_GetBlobByUri e d user uri = (zero_Blob, None))"
proof -
  let ?m = "\<lambda>r. Blob.UserId r = User.Id user \<and> Blob.Uri r = uri \<and> Blob.LastStmt r < 2"
  show ?thesis
  proof (cases "filter ?m (tbl_Blob d)")
    case Nil
    then have none: "\<forall>r\<in>set (tbl_Blob d). \<not> ?m r"
      by (simp add: filter_empty_conv)
    have g: "BlobRepository_GetBlobByUri e d user uri = (zero_Blob, None)"
      unfolding GetBlobByUri_cases[OF assms] Nil by simp
    from none g show ?thesis by auto
  next
    case (Cons r rs)
    then have "r \<in> set (filter ?m (tbl_Blob d))" by simp
    then have rin: "r \<in> set (tbl_Blob d)" and rm: "?m r" by simp_all
    have g: "BlobRepository_GetBlobByUri e d user uri = (r, None)"
      unfolding GetBlobByUri_cases[OF assms] Cons by simp
    have nz: "uri \<noteq> [] \<Longrightarrow> r \<noteq> zero_Blob"
      using rm by (auto simp: zero_Blob_def)
    from rin rm g nz show ?thesis by auto
  qed
qed

theorem get_blob_by_uri_zero_iff_no_live_row_witness:
  "BlobRepository_GetBlobByUri env0 db0 user1 ''u2'' = (zero_Blob, None) \<and>
   blob2 \<in> set (tbl_Blob db0) \<and> Blob.UserId blob2 = 1 \<and> Blob.Uri blob2 = ''u2'' \<and>
   Blob.LastStmt blob2 = 2 \<and>
   BlobRepository_GetBlobByUri env0 db0 user1 ''u1'' = (blob1, None)"
proof -
  have f: "fails env0 0 = None" by (simp add: env0_def)
  note t = get_blob_by_uri_zero_iff_no_live_row[OF f, of db0 user1]
  have "\<forall>r\<in>set (tbl_Blob db0).
            Blob.UserId r = User.Id user1 \<and> Blob.Uri r = ''u2'' \<longrightarrow> Blob.LastStmt r = 2"
    by (simp add: db0_def user1_def blob1_def blob2_def blob3_def)
  with t[of "''u2''"] have a: "BlobRepository_GetBlobByUri env0 db0 user1 ''u2'' = (zero_Blob, None)"
    by (elim conjE) simp
  have "\<exists>r\<in>set (tbl_Blob db0).
            Blob.UserId r = User.Id user1 \<and> Blob.Uri r = ''u1'' \<and> Blob.LastStmt r < 2"
    by (simp add: db0_def user1_def blob1_def blob2_def blob3_def)
  with t[of "''u1''"] have "\<exists>r\<in>set (tbl_Blob db0).
            Blob.UserId r = User.Id user1 \<and> Blob.Uri r = ''u1'' \<and> Blob.LastStmt r < 2 \<and>
            BlobRepository_GetBlobByUri env0 db0 user1 ''u1'' = (r, None)"
    by (elim conjE) simp
  then have b: "BlobRepository_GetBlobByUri env0 db0 user1 ''u1'' = (blob1, None)"
    by (auto simp: db0_def user1_def blob1_def blob2_def blob3_def)
  have c: "blob2 \<in> set (tbl_Blob db0)" "Blob.UserId blob2 = 1" "Blob.Uri blob2 = ''u2''"
    "Blob.LastStmt blob2 = 2"
    by (simp_all add: db0_def blob2_def)
  from a b c show ?thesis by simp
qed

section \<open>Update\<close>

lemma filter_Cons_first:
  "filter P xs = r # rs \<Longrightarrow> r \<in> set xs \<and> P r"
proof -
  assume a: "filter P xs = r # rs"
  have "r \<in> set (filter P xs)" unfolding a by simp
  then show ?thesis by simp
qed

lemma update_with_history_length:
  "length (update_with_history wh st h tbl) = length tbl"
  by (induction tbl arbitrary: h) simp_all

lemma update_with_history_nth:
  "i < length tbl \<Longrightarrow>
   update_with_history wh st h tbl ! i =
     (if wh (tbl ! i) then st (h + 1 + int (length (filter wh (take i tbl)))) (tbl ! i)
      else tbl ! i)"
proof (induction tbl arbitrary: h i)
  case Nil
  then show ?case by simp
next
  case (Cons a tbl)
  show ?case
  proof (cases i)
    case 0
    then show ?thesis by simp
  next
    case (Suc j)
    with Cons.prems have j: "j < length tbl" by simp
    from Cons.IH[OF j] Suc show ?thesis by (simp add: add.assoc)
  qed
qed

lemma update_with_history_selected:
  "update_with_history wh st h (filter wh tbl) =
     map snd (filter (\<lambda>p. wh (fst p)) (zip tbl (update_with_history wh st h tbl)))"
  by (induction tbl arbitrary: h) simp_all

lemma update_with_history_first:
  assumes "filter wh tbl = r # rs"
  shows "update_with_history wh st h (filter wh tbl) =
     st (h + 1) r # update_with_history wh st (h + 1) rs"
proof -
  from filter_Cons_first[OF assms] have "wh r" by simp
  then show ?thesis unfolding assms by simp
qed

lemma select_history_seq_advance:
  "select_last_history_id u (history_seq_advance u n tbl) =
     map (\<lambda>h. h + int n) (select_last_history_id u tbl)"
  by (induction tbl)
     (simp_all add: select_last_history_id_def history_seq_advance_def sql_select_def)

lemma last_history_id_advance:
  assumes "u \<in> fst ` set tbl"
  shows "last_history_id u (history_seq_advance u n tbl) = last_history_id u tbl + int n"
proof -
  from select_last_history_id_ne[OF assms] obtain h hs
    where "select_last_history_id u tbl = h # hs"
    by (cases "select_last_history_id u tbl") simp_all
  then show ?thesis
    by (simp add: last_history_id_def select_history_seq_advance)
qed

lemma list2_eqI:
  "length xs = 2 \<Longrightarrow> xs ! 0 = a \<Longrightarrow> xs ! 1 = b \<Longrightarrow> xs = [a, b]"
  by (cases xs; cases "tl xs"; cases "tl (tl xs)") auto

lemma list4_eqI:
  "length xs = 4 \<Longrightarrow> xs ! 0 = a \<Longrightarrow> xs ! 1 = b \<Longrightarrow> xs ! 2 = c \<Longrightarrow> xs ! 3 = d \<Longrightarrow>
   xs = [a, b, c, d]"
  by (cases xs; cases "tl xs"; cases "tl (tl xs)"; cases "tl (tl (tl xs))";
      cases "tl (tl (tl (tl xs)))") (auto simp: numeral_3_eq_3)

lemma contact_update_result:
  "\<exists>res d'. ContactRepository_Update e d user contact = (res, d') \<and>
      (res = Inl ErrContactNotFound \<longleftrightarrow>
         fails e 0 = None \<and>
         (\<forall>r\<in>set (tbl_contact d). \<not> (Contact.UserId r = User.Id user \<and> Contact.Id r = Contact.Id contact \<and> Contact.LastStmt r \<noteq> 2))) \<and>
      (fails e 0 = None \<longrightarrow>
         (\<forall>r rs.
            filter (\<lambda>x. Contact.UserId x = User.Id user \<and> Contact.Id x = Contact.Id contact \<and> Contact.LastStmt x \<noteq> 2) (tbl_contact d) = r # rs \<longrightarrow>
            res = Inr (r\<lparr>Contact.EmailAddress := Contact.EmailAddress contact,
                     Contact.FirstName := Contact.FirstName contact,
                     Contact.LastName := Contact.LastName contact,
                     Contact.DeviceId := getPrefixedDeviceId e (User.DeviceId user),
                     Contact.ModifiedAt := Some (now e),
                     Contact.HistoryId := last_history_id (User.Id user) (tbl_contact_history_seq d) + 1,
                     Contact.LastStmt := 1\<rparr>) \<and>
            length (tbl_contact d') = length (tbl_contact d) \<and>
            (\<forall>i<length (tbl_contact d).
               tbl_contact d' ! i =
                 (if Contact.UserId (tbl_contact d ! i) = User.Id user \<and> Contact.Id (tbl_contact d ! i) = Contact.Id contact \<and> Contact.LastStmt (tbl_contact d ! i) \<noteq> 2
                  then (tbl_contact d ! i)\<lparr>Contact.EmailAddress := Contact.EmailAddress contact,
                         Contact.FirstName := Contact.FirstName contact,
                         Contact.LastName := Contact.LastName contact,
                         Contact.DeviceId := getPrefixedDeviceId e (User.DeviceId user),
                         Contact.ModifiedAt := Some (now e),
                         Contact.HistoryId := last_history_id (User.Id user) (tbl_contact_history_seq d) + 1 +
                             int (length (filter (\<lambda>x. Contact.UserId x = User.Id user \<and> Contact.Id x = Contact.Id contact \<and> Contact.LastStmt x \<noteq> 2) (take i (tbl_contact d)))),
                         Contact.LastStmt := 1\<rparr>
                  else tbl_contact d ! i)) \<and>
            tbl_contact_history_seq d' =
              map (\<lambda>s. if fst s = User.Id user then (fst s, snd s + 1 + int (length rs)) else s)
                (tbl_contact_history_seq d) \<and>
            (User.Id user \<in> fst ` set (tbl_contact_history_seq d) \<longrightarrow>
              last_history_id (User.Id user) (tbl_contact_history_seq d') =
                last_history_id (User.Id user) (tbl_contact_history_seq d) + 1 + int (length rs)) \<and>
            d' = d\<lparr>tbl_contact := tbl_contact d', tbl_contact_history_seq := tbl_contact_history_seq d'\<rparr>)) \<and>
      (fails e 0 = None \<and> (\<exists>r\<in>set (tbl_contact d). Contact.UserId r = User.Id user \<and> Contact.Id r = Contact.Id contact \<and> Contact.LastStmt r \<noteq> 2) \<longrightarrow>
         (\<exists>r'. res = Inr r')) \<and>
      (fails e 0 = Some contact_unique_failed \<longrightarrow> res = Inl ErrDuplicateContact) \<and>
      (\<forall>msg. fails e 0 = Some msg \<and> msg \<noteq> contact_unique_failed \<longrightarrow>
         res = Inl (Sql (DriverError msg))) \<and>
      ((\<exists>err. res = Inl err) \<longrightarrow> d' = d)"
proof -
  let ?wh = "\<lambda>x. Contact.UserId x = User.Id user \<and> Contact.Id x = Contact.Id contact \<and> Contact.LastStmt x \<noteq> 2"
  show ?thesis
  proof (cases "fails e 0")
    case (Some msg)
    then show ?thesis
      by (simp add: ContactRepository_Update_def QueryRow_def Let_def)
  next
    case None
    show ?thesis
    proof (cases "filter ?wh (tbl_contact d)")
      case Nil
      then have "\<forall>r\<in>set (tbl_contact d). \<not> ?wh r" by (simp add: filter_empty_conv)
      with Nil None show ?thesis
        by (simp add: ContactRepository_Update_def QueryRow_def Let_def sql_select_def)
    next
      case (Cons r rs)
      from filter_Cons_first[OF Cons] have rin: "r \<in> set (tbl_contact d)" and rw: "?wh r"
        by simp_all
      have ne: "\<not> (\<forall>r\<in>set (tbl_contact d). \<not> ?wh r)" using rin rw by blast
      from Cons None rw ne show ?thesis
        by (simp add: ContactRepository_Update_def QueryRow_def Let_def sql_select_def
              Contact_on_update_def update_with_history_length update_with_history_nth
              history_seq_advance_def
              last_history_id_advance[unfolded history_seq_advance_def] add.assoc)
    qed
  qed
qed

lemma draft_update_result:
  "\<exists>res d'. DraftRepository_Update e d user draft = (res, d') \<and>
      (res = Inl ErrDraftNotFound \<longleftrightarrow>
         fails e 0 = None \<and>
         (\<forall>r\<in>set (tbl_Draft d). \<not> (Draft.UserId r = User.Id user \<and> Draft.Id r = Draft.Id draft \<and> Draft.LastStmt r \<noteq> 2))) \<and>
      (fails e 0 = None \<longrightarrow>
         (\<forall>r rs.
            filter (\<lambda>x. Draft.UserId x = User.Id user \<and> Draft.Id x = Draft.Id draft \<and> Draft.LastStmt x \<noteq> 2) (tbl_Draft d) = r # rs \<longrightarrow>
            res = Inr (r\<lparr>Draft.Payload := Draft.Payload draft,
                     Draft.DeviceId := getPrefixedDeviceId e (User.DeviceId user),
                     Draft.ModifiedAt := Some (now e),
                     Draft.HistoryId := last_history_id (User.Id user) (tbl_DraftHistorySeq d) + 1,
                     Draft.LastStmt := 1\<rparr>) \<and>
            length (tbl_Draft d') = length (tbl_Draft d) \<and>
            (\<forall>i<length (tbl_Draft d).
               tbl_Draft d' ! i =
                 (if Draft.UserId (tbl_Draft d ! i) = User.Id user \<and> Draft.Id (tbl_Draft d ! i) = Draft.Id draft \<and> Draft.LastStmt (tbl_Draft d ! i) \<noteq> 2
                  then (tbl_Draft d ! i)\<lparr>Draft.Payload := Draft.Payload draft,
                         Draft.DeviceId := getPrefixedDeviceId e (User.DeviceId user),
                         Draft.ModifiedAt := Some (now e),
                         Draft.HistoryId := last_history_id (User.Id user) (tbl_DraftHistorySeq d) + 1 +
                             int (length (filter (\<lambda>x. Draft.UserId x = User.Id user \<and> Draft.Id x = Draft.Id draft \<and> Draft.LastStmt x \<noteq> 2) (take i (tbl_Draft d)))),
                         Draft.LastStmt := 1\<rparr>
                  else tbl_Draft d ! i)) \<and>
            tbl_DraftHistorySeq d' =
              map (\<lambda>s. if fst s = User.Id user then (fst s, snd s + 1 + int (length rs)) else s)
                (tbl_DraftHistorySeq d) \<and>
            (User.Id user \<in> fst ` set (tbl_DraftHistorySeq d) \<longrightarrow>
              last_history_id (User.Id user) (tbl_DraftHistorySeq d') =
                last_history_id (User.Id user) (tbl_DraftHistorySeq d) + 1 + int (length rs)) \<and>
            d' = d\<lparr>tbl_Draft := tbl_Draft d', tbl_DraftHistorySeq := tbl_DraftHistorySeq d'\<rparr>)) \<and>
      (fails e 0 = None \<and> (\<exists>r\<in>set (tbl_Draft d). Draft.UserId r = User.Id user \<and> Draft.Id r = Draft.Id draft \<and> Draft.LastStmt r \<noteq> 2) \<longrightarrow>
         (\<exists>r'. res = Inr r')) \<and>
      (\<forall>msg. fails e 0 = Some msg \<longrightarrow> res = Inl (Sql (DriverError msg))) \<and>
      ((\<exists>err. res = Inl err) \<longrightarrow> d' = d)"
proof -
  let ?wh = "\<lambda>x. Draft.UserId x = User.Id user \<and> Draft.Id x = Draft.Id draft \<and> Draft.LastStmt x \<noteq> 2"
  show ?thesis
  proof (cases "fails e 0")
    case (Some msg)
    then show ?thesis
      by (simp add: DraftRepository_Update_def QueryRow_def Let_def)
  next
    case None
    show ?thesis
    proof (cases "filter ?wh (tbl_Draft d)")
      case Nil
      then have "\<forall>r\<in>set (tbl_Draft d). \<not> ?wh r" by (simp add: filter_empty_conv)
      with Nil None show ?thesis
        by (simp add: DraftRepository_Update_def QueryRow_def Let_def sql_select_def)
    next
      case (Cons r rs)
      from filter_Cons_first[OF Cons] have rin: "r \<in> set (tbl_Draft d)" and rw: "?wh r"
        by simp_all
      have ne: "\<not> (\<forall>r\<in>set (tbl_Draft d). \<not> ?wh r)" using rin rw by blast
      from Cons None rw ne show ?thesis
        by (simp add: DraftRepository_Update_def QueryRow_def Let_def sql_select_def
              Draft_on_update_def update_with_history_length update_with_history_nth
              history_seq_advance_def
              last_history_id_advance[unfolded history_seq_advance_def] add.assoc)
    qed
  qed
qed

lemma blob_update_result:
  "\<exists>res d'. BlobRepository_Update e d user blob = (res, d') \<and>
      (res = Inl ErrBlobNotFound \<longleftrightarrow>
         fails e 0 = None \<and>
         (\<forall>r\<in>set (tbl_Blob d). \<not> (Blob.UserId r = User.Id user \<and> Blob.Uri r = Blob.Uri blob \<and> Blob.LastStmt r \<noteq> 2))) \<and>
      (fails e 0 = None \<longrightarrow>
         (\<forall>r rs.
            filter (\<lambda>x. Blob.UserId x = User.Id user \<and> Blob.Uri x = Blob.Uri blob \<and> Blob.LastStmt x \<noteq> 2) (tbl_Blob d) = r # rs \<longrightarrow>
            res = Inr (r\<lparr>Blob.Hash := Blob.Hash blob,
                     Blob.Snippet := Blob.Snippet blob,
                     Blob.Size := Blob.Size blob,
                     Blob.DeviceId := getPrefixedDeviceId e (User.DeviceId user),
                     Blob.ModifiedAt := Some (now e),
                     Blob.HistoryId := last_history_id (User.Id user) (tbl_BlobHistorySeq d) + 1,
                     Blob.LastStmt := 1\<rparr>) \<and>
            length (tbl_Blob d') = length (tbl_Blob d) \<and>
            (\<forall>i<length (tbl_Blob d).
               tbl_Blob d' ! i =
                 (if Blob.UserId (tbl_Blob d ! i) = User.Id user \<and> Blob.Uri (tbl_Blob d ! i) = Blob.Uri blob \<and> Blob.LastStmt (tbl_Blob d ! i) \<noteq> 2
                  then (tbl_Blob d ! i)\<lparr>Blob.Hash := Blob.Hash blob,
                         Blob.Snippet := Blob.Snippet blob,
                         Blob.Size := Blob.Size blob,
                         Blob.DeviceId := getPrefixedDeviceId e (User.DeviceId user),
                         Blob.ModifiedAt := Some (now e),
                         Blob.HistoryId := last_history_id (User.Id user) (tbl_BlobHistorySeq d) + 1 +
                             int (length (filter (\<lambda>x. Blob.UserId x = User.Id user \<and> Blob.Uri x = Blob.Uri blob \<and> Blob.LastStmt x \<noteq> 2) (take i (tbl_Blob d)))),
                         Blob.LastStmt := 1\<rparr>
                  else tbl_Blob d ! i)) \<and>
            tbl_BlobHistorySeq d' =
              map (\<lambda>s. if fst s = User.Id user then (fst s, snd s + 1 + int (length rs)) else s)
                (tbl_BlobHistorySeq d) \<and>
            (User.Id user \<in> fst ` set (tbl_BlobHistorySeq d) \<longrightarrow>
              last_history_id (User.Id user) (tbl_BlobHistorySeq d') =
                last_history_id (User.Id user) (tbl_BlobHistorySeq d) + 1 + int (length rs)) \<and>
            d' = d\<lparr>tbl_Blob := tbl_Blob d', tbl_BlobHistorySeq := tbl_BlobHistorySeq d'\<rparr>)) \<and>
      (fails e 0 = None \<and> (\<exists>r\<in>set (tbl_Blob d). Blob.UserId r = User.Id user \<and> Blob.Uri r = Blob.Uri blob \<and> Blob.LastStmt r \<noteq> 2) \<longrightarrow>
         (\<exists>r'. res = Inr r')) \<and>
      (\<forall>msg. fails e 0 = Some msg \<longrightarrow> res = Inl (Sql (DriverError msg))) \<and>
      ((\<exists>err. res = Inl err) \<longrightarrow> d' = d)"
proof -
  let ?wh = "\<lambda>x. Blob.UserId x = User.Id user \<and> Blob.Uri x = Blob.Uri blob \<and> Blob.LastStmt x \<noteq> 2"
  show ?thesis
  proof (cases "fails e 0")
    case (Some msg)
    then show ?thesis
      by (simp add: BlobRepository_Update_def QueryRow_def Let_def)
  next
    case None
    show ?thesis
    proof (cases "filter ?wh (tbl_Blob d)")
      case Nil
      then have "\<forall>r\<in>set (tbl_Blob d). \<not> ?wh r" by (simp add: filter_empty_conv)
      with Nil None show ?thesis
        by (simp add: BlobRepository_Update_def QueryRow_def Let_def sql_select_def)
    next
      case (Cons r rs)
      from filter_Cons_first[OF Cons] have rin: "r \<in> set (tbl_Blob d)" and rw: "?wh r"
        by simp_all
      have ne: "\<not> (\<forall>r\<in>set (tbl_Blob d). \<not> ?wh r)" using rin rw by blast
      from Cons None rw ne show ?thesis
        by (simp add: BlobRepository_Update_def QueryRow_def Let_def sql_select_def
              Blob_on_update_def update_with_history_length update_with_history_nth
              history_seq_advance_def
              last_history_id_advance[unfolded history_seq_advance_def] add.assoc)
    qed
  qed
qed

text \<open>
  C6. Update returns the NotFound error exactly when the statement runs and no row has this
  user id, this id and \<open>LastStmt \<noteq> 2\<close>. When the statement runs and there is such a row,
  Update succeeds. It returns the first such row with the domain fields of the argument,
  with \<open>getPrefixedDeviceId\<close> of the caller's device id as \<open>DeviceId\<close>, with the time of the
  call as \<open>ModifiedAt\<close>, with the next value of the user's history sequencer as
  \<open>HistoryId\<close> and with \<open>LastStmt\<close> 1, every other column as it was stored. The table
  afterwards has the same length; each selected row is changed in its place in this way (the
  \<open>k\<close>-th selected row takes the \<open>k\<close>-th next history id) and every other row is as it was;
  the sequencer of the user has moved on by the number of selected rows; no other table
  is written. When the database rejects the statement, the store is unchanged: for the
  uniqueness violation of a contact's address and names Update returns the
  DuplicateContact error, and every other error of the database is returned as it is.
\<close>

theorem update_not_found_iff_statement_runs_without_row:
  "(\<exists>res d'. ContactRepository_Update e d user contact = (res, d') \<and>
      (res = Inl ErrContactNotFound \<longleftrightarrow>
         fails e 0 = None \<and>
         (\<forall>r\<in>set (tbl_contact d). \<not> (Contact.UserId r = User.Id user \<and> Contact.Id r = Contact.Id contact \<and> Contact.LastStmt r \<noteq> 2))) \<and>
      (fails e 0 = None \<longrightarrow>
         (\<forall>r rs.
            filter (\<lambda>x. Contact.UserId x = User.Id user \<and> Contact.Id x = Contact.Id contact \<and> Contact.LastStmt x \<noteq> 2) (tbl_contact d) = r # rs \<longrightarrow>
            res = Inr (r\<lparr>Contact.EmailAddress := Contact.EmailAddress contact,
                     Contact.FirstName := Contact.FirstName contact,
                     Contact.LastName := Contact.LastName contact,
                     Contact.DeviceId := getPrefixedDeviceId e (User.DeviceId user),
                     Contact.ModifiedAt := Some (now e),
                     Contact.HistoryId := last_history_id (User.Id user) (tbl_contact_history_seq d) + 1,
                     Contact.LastStmt := 1\<rparr>) \<and>
            length (tbl_contact d') = length (tbl_contact d) \<and>
            (\<forall>i<length (tbl_contact d).
               tbl_contact d' ! i =
                 (if Contact.UserId (tbl_contact d ! i) = User.Id user \<and> Contact.Id (tbl_contact d ! i) = Contact.Id contact \<and> Contact.LastStmt (tbl_contact d ! i) \<noteq> 2
                  then (tbl_contact d ! i)\<lparr>Contact.EmailAddress := Contact.EmailAddress contact,
                         Contact.FirstName := Contact.FirstName contact,
                         Contact.LastName := Contact.LastName contact,
                         Contact.DeviceId := getPrefixedDeviceId e (User.DeviceId user),
                         Contact.ModifiedAt := Some (now e),
                         Contact.HistoryId := last_history_id (User.Id user) (tbl_contact_history_seq d) + 1 +
                             int (length (filter (\<lambda>x. Contact.UserId x = User.Id user \<and> Contact.Id x = Contact.Id contact \<and> Contact.LastStmt x \<noteq> 2) (take i (tbl_contact d)))),
                         Contact.LastStmt := 1\<rparr>
                  else tbl_contact d ! i)) \<and>
            tbl_contact_history_seq d' =
              map (\<lambda>s. if fst s = User.Id user then (fst s, snd s + 1 + int (length rs)) else s)
                (tbl_contact_history_seq d) \<and>
            (User.Id user \<in> fst ` set (tbl_contact_history_seq d) \<longrightarrow>
              last_history_id (User.Id user) (tbl_contact_history_seq d') =
                last_history_id (User.Id user) (tbl_contact_history_seq d) + 1 + int (length rs)) \<and>
            d' = d\<lparr>tbl_contact := tbl_contact d', tbl_contact_history_seq := tbl_contact_history_seq d'\<rparr>)) \<and>
      (fails e 0 = None \<and> (\<exists>r\<in>set (tbl_contact d). Contact.UserId r = User.Id user \<and> Contact.Id r = Contact.Id contact \<and> Contact.LastStmt r \<noteq> 2) \<longrightarrow>
         (\<exists>r'. res = Inr r')) \<and>
      (fails e 0 = Some contact_unique_failed \<longrightarrow> res = Inl ErrDuplicateContact) \<and>
      (\<forall>msg. fails e 0 = Some msg \<and> msg \<noteq> contact_unique_failed \<longrightarrow>
         res = Inl (Sql (DriverError msg))) \<and>
      ((\<exists>err. res = Inl err) \<longrightarrow> d' = d)) \<and>
   (\<exists>res d'. DraftRepository_Update e d user draft = (res, d') \<and>
      (res = Inl ErrDraftNotFound \<longleftrightarrow>
         fails e 0 = None \<and>
         (\<forall>r\<in>set (tbl_Draft d). \<not> (Draft.UserId r = User.Id user \<and> Draft.Id r = Draft.Id draft \<and> Draft.LastStmt r \<noteq> 2))) \<and>
      (fails e 0 = None \<longrightarrow>
         (\<forall>r rs.
            filter (\<lambda>x. Draft.UserId x = User.Id user \<and> Draft.Id x = Draft.Id draft \<and> Draft.LastStmt x \<noteq> 2) (tbl_Draft d) = r # rs \<longrightarrow>
            res = Inr (r\<lparr>Draft.Payload := Draft.Payload draft,
                     Draft.DeviceId := getPrefixedDeviceId e (User.DeviceId user),
                     Draft.ModifiedAt := Some (now e),
                     Draft.HistoryId := last_history_id (User.Id user) (tbl_DraftHistorySeq d) + 1,
                     Draft.LastStmt := 1\<rparr>) \<and>
            length (tbl_Draft d') = length (tbl_Draft d) \<and>
            (\<forall>i<length (tbl_Draft d).
               tbl_Draft d' ! i =
                 (if Draft.UserId (tbl_Draft d ! i) = User.Id user \<and> Draft.Id (tbl_Draft d ! i) = Draft.Id draft \<and> Draft.LastStmt (tbl_Draft d ! i) \<noteq> 2
                  then (tbl_Draft d ! i)\<lparr>Draft.Payload := Draft.Payload draft,
                         Draft.DeviceId := getPrefixedDeviceId e (User.DeviceId user),
                         Draft.ModifiedAt := Some (now e),
                         Draft.HistoryId := last_history_id (User.Id user) (tbl_DraftHistorySeq d) + 1 +
                             int (length (filter (\<lambda>x. Draft.UserId x = User.Id user \<and> Draft.Id x = Draft.Id draft \<and> Draft.LastStmt x \<noteq> 2) (take i (tbl_Draft d)))),
                         Draft.LastStmt := 1\<rparr>
                  else tbl_Draft d ! i)) \<and>
            tbl_DraftHistorySeq d' =
              map (\<lambda>s. if fst s = User.Id user then (fst s, snd s + 1 + int (length rs)) else s)
                (tbl_DraftHistorySeq d) \<and>
            (User.Id user \<in> fst ` set (tbl_DraftHistorySeq d) \<longrightarrow>
              last_history_id (User.Id user) (tbl_DraftHistorySeq d') =
                last_history_id (User.Id user) (tbl_DraftHistorySeq d) + 1 + int (length rs)) \<and>
            d' = d\<lparr>tbl_Draft := tbl_Draft d', tbl_DraftHistorySeq := tbl_DraftHistorySeq d'\<rparr>)) \<and>
      (fails e 0 = None \<and> (\<exists>r\<in>set (tbl_Draft d). Draft.UserId r = User.Id user \<and> Draft.Id r = Draft.Id draft \<and> Draft.LastStmt r \<noteq> 2) \<longrightarrow>
         (\<exists>r'. res = Inr r')) \<and>
      (\<forall>msg. fails e 0 = Some msg \<longrightarrow> res = Inl (Sql (DriverError msg))) \<and>
      ((\<exists>err. res = Inl err) \<longrightarrow> d' = d)) \<and>
   (\<exists>res d'. BlobRepository_Update e d user blob = (res, d') \<and>
      (res = Inl ErrBlobNotFound \<longleftrightarrow>
         fails e 0 = None \<and>
         (\<forall>r\<in>set (tbl_Blob d). \<not> (Blob.UserId r = User.Id user \<and> Blob.Uri r = Blob.Uri blob \<and> Blob.LastStmt r \<noteq> 2))) \<and>
      (fails e 0 = None \<longrightarrow>
         (\<forall>r rs.
            filter (\<lambda>x. Blob.UserId x = User.Id user \<and> Blob.Uri x = Blob.Uri blob \<and> Blob.LastStmt x \<noteq> 2) (tbl_Blob d) = r # rs \<longrightarrow>
            res = Inr (r\<lparr>Blob.Hash := Blob.Hash blob,
                     Blob.Snippet := Blob.Snippet blob,
                     Blob.Size := Blob.Size blob,
                     Blob.DeviceId := getPrefixedDeviceId e (User.DeviceId user),
                     Blob.ModifiedAt := Some (now e),
                     Blob.HistoryId := last_history_id (User.Id user) (tbl_BlobHistorySeq d) + 1,
                     Blob.LastStmt := 1\<rparr>) \<and>
            length (tbl_Blob d') = length (tbl_Blob d) \<and>
            (\<forall>i<length (tbl_Blob d).
               tbl_Blob d' ! i =
                 (if Blob.UserId (tbl_Blob d ! i) = User.Id user \<and> Blob.Uri (tbl_Blob d ! i) = Blob.Uri blob \<and> Blob.LastStmt (tbl_Blob d ! i) \<noteq> 2
                  then (tbl_Blob d ! i)\<lparr>Blob.Hash := Blob.Hash blob,
                         Blob.Snippet := Blob.Snippet blob,
                         Blob.Size := Blob.Size blob,
                         Blob.DeviceId := getPrefixedDeviceId e (User.DeviceId user),
                         Blob.ModifiedAt := Some (now e),
                         Blob.HistoryId := last_history_id (User.Id user) (tbl_BlobHistorySeq d) + 1 +
                             int (length (filter (\<lambda>x. Blob.UserId x = User.Id user \<and> Blob.Uri x = Blob.Uri blob \<and> Blob.LastStmt x \<noteq> 2) (take i (tbl_Blob d)))),
                         Blob.LastStmt := 1\<rparr>
                  else tbl_Blob d ! i)) \<and>
            tbl_BlobHistorySeq d' =
              map (\<lambda>s. if fst s = User.Id user then (fst s, snd s + 1 + int (length rs)) else s)
                (tbl_BlobHistorySeq d) \<and>
            (User.Id user \<in> fst ` set (tbl_BlobHistorySeq d) \<longrightarrow>
              last_history_id (User.Id user) (tbl_BlobHistorySeq d') =
                last_history_id (User.Id user) (tbl_BlobHistorySeq d) + 1 + int (length rs)) \<and>
            d' = d\<lparr>tbl_Blob := tbl_Blob d', tbl_BlobHistorySeq := tbl_BlobHistorySeq d'\<rparr>)) \<and>
      (fails e 0 = None \<and> (\<exists>r\<in>set (tbl_Blob d). Blob.UserId r = User.Id user \<and> Blob.Uri r = Blob.Uri blob \<and> Blob.LastStmt r \<noteq> 2) \<longrightarrow>
         (\<exists>r'. res = Inr r')) \<and>
      (\<forall>msg. fails e 0 = Some msg \<longrightarrow> res = Inl (Sql (DriverError msg))) \<and>
      ((\<exists>err. res = Inl err) \<longrightarrow> d' = d))"
    (is "?contact \<and> ?draft \<and> ?blob")
proof (intro conjI)
  show ?contact by (rule contact_update_result)
next
  show ?draft by (rule draft_update_result)
next
  show ?blob by (rule blob_update_result)
qed

theorem update_not_found_iff_statement_runs_without_row_witness:
  "ContactRepository_Update env0 db0 user1_d2 (contact1\<lparr>Contact.FirstName := Some ''Anna''\<rparr>) =
     (Inr (contact1\<lparr>Contact.FirstName := Some ''Anna'', Contact.ModifiedAt := Some 50,
                    Contact.HistoryId := 5, Contact.LastStmt := 1,
                    Contact.DeviceId := Some ''device:d2''\<rparr>),
      db0\<lparr>tbl_contact :=
            [contact1\<lparr>Contact.FirstName := Some ''Anna'', Contact.ModifiedAt := Some 50,
                      Contact.HistoryId := 5, Contact.LastStmt := 1,
                      Contact.DeviceId := Some ''device:d2''\<rparr>,
             contact2, contact3, contact4],
          tbl_contact_history_seq := [(1, 5), (2, 1)]\<rparr>) \<and>
   fst (ContactRepository_Update env0 db0 user1_d2 contact3) = Inl ErrContactNotFound \<and>
   ContactRepository_Update env_unique_fails db0 user1 contact1_as_bob =
     (Inl ErrDuplicateContact, db0) \<and>
   Draft.LastStmt draft2 = 2 \<and>
   fst (DraftRepository_Update env0 db0 user2 draft2) = Inl ErrDraftNotFound \<and>
   DraftRepository_Update env0 db0 user1 (draft1\<lparr>Draft.LabelIds := Some ''x''\<rparr>) =
     (Inr (draft1\<lparr>Draft.ModifiedAt := Some 50, Draft.HistoryId := 2, Draft.LastStmt := 1,
                  Draft.DeviceId := Some ''device:d1''\<rparr>),
      db0\<lparr>tbl_Draft :=
            [draft1\<lparr>Draft.ModifiedAt := Some 50, Draft.HistoryId := 2, Draft.LastStmt := 1,
                    Draft.DeviceId := Some ''device:d1''\<rparr>,
             draft2],
          tbl_DraftHistorySeq := [(1, 2), (2, 1)]\<rparr>)"
proof -
  note t = update_not_found_iff_statement_runs_without_row[THEN conjunct1]
  note u = update_not_found_iff_statement_runs_without_row[THEN conjunct2, THEN conjunct1]
  have f: "fails env0 0 = None" by (simp add: env0_def)
  let ?c = "contact1\<lparr>Contact.FirstName := Some ''Anna''\<rparr>"
  let ?m = "draft1\<lparr>Draft.LabelIds := Some ''x''\<rparr>"
  from t[of env0 db0 user1_d2 ?c] obtain res d' where
    r: "ContactRepository_Update env0 db0 user1_d2 ?c = (res, d')"
    and ok: "fails env0 0 = None \<longrightarrow>
           (\<forall>r rs.
              filter (\<lambda>x. Contact.UserId x = User.Id user1_d2 \<and> Contact.Id x = Contact.Id ?c \<and> Contact.LastStmt x \<noteq> 2) (tbl_contact db0) = r # rs \<longrightarrow>
              res = Inr (r\<lparr>Contact.EmailAddress := Contact.EmailAddress ?c,
                       Contact.FirstName := Contact.FirstName ?c,
                       Contact.LastName := Contact.LastName ?c,
                       Contact.DeviceId := getPrefixedDeviceId env0 (User.DeviceId user1_d2),
                       Contact.ModifiedAt := Some (now env0),
                       Contact.HistoryId := last_history_id (User.Id user1_d2) (tbl_contact_history_seq db0) + 1,
                       Contact.LastStmt := 1\<rparr>) \<and>
              length (tbl_contact d') = length (tbl_contact db0) \<and>
              (\<forall>i<length (tbl_contact db0).
                 tbl_contact d' ! i =
                   (if Contact.UserId (tbl_contact db0 ! i) = User.Id user1_d2 \<and> Contact.Id (tbl_contact db0 ! i) = Contact.Id ?c \<and> Contact.LastStmt (tbl_contact db0 ! i) \<noteq> 2
                    then (tbl_contact db0 ! i)\<lparr>Contact.EmailAddress := Contact.EmailAddress ?c,
                           Contact.FirstName := Contact.FirstName ?c,
                           Contact.LastName := Contact.LastName ?c,
                           Contact.DeviceId := getPrefixedDeviceId env0 (User.DeviceId user1_d2),
                           Contact.ModifiedAt := Some (now env0),
                           Contact.HistoryId := last_history_id (User.Id user1_d2) (tbl_contact_history_seq db0) + 1 +
                               int (length (filter (\<lambda>x. Contact.UserId x = User.Id user1_d2 \<and> Contact.Id x = Contact.Id ?c \<and> Contact.LastStmt x \<noteq> 2) (take i (tbl_contact db0)))),
                           Contact.LastStmt := 1\<rparr>
                    else tbl_contact db0 ! i)) \<and>
              tbl_contact_history_seq d' =
                map (\<lambda>s. if fst s = User.Id user1_d2 then (fst s, snd s + 1 + int (length rs)) else s)
                  (tbl_contact_history_seq db0) \<and>
              (User.Id user1_d2 \<in> fst ` set (tbl_contact_history_seq db0) \<longrightarrow>
                last_history_id (User.Id user1_d2) (tbl_contact_history_seq d') =
                  last_history_id (User.Id user1_d2) (tbl_contact_history_seq db0) + 1 + int (length rs)) \<and>
              d' = db0\<lparr>tbl_contact := tbl_contact d', tbl_contact_history_seq := tbl_contact_history_seq d'\<rparr>)"
    by (elim exE conjE)
  have fl: "filter (\<lambda>x. Contact.UserId x = User.Id user1_d2 \<and> Contact.Id x = Contact.Id ?c \<and> Contact.LastStmt x \<noteq> 2)
              (tbl_contact db0) = contact1 # []"
    by (simp add: db0_def user1_d2_def contact1_def contact2_def contact3_def contact4_def)
  note s = ok[rule_format, OF f fl]
  have h0: "last_history_id (User.Id user1_d2) (tbl_contact_history_seq db0) = 4"
    by (simp add: last_history_id_def select_last_history_id_def sql_select_def db0_def
          user1_d2_def)
  have res: "res = Inr (contact1\<lparr>Contact.FirstName := Some ''Anna'', Contact.ModifiedAt := Some 50,
                    Contact.HistoryId := 5, Contact.LastStmt := 1,
                    Contact.DeviceId := Some ''device:d2''\<rparr>)"
    unfolding s[THEN conjunct1] h0
    by (simp add: env0_def user1_d2_def contact1_def)
  have len: "length (tbl_contact d') = 4"
    unfolding s[THEN conjunct2, THEN conjunct1] by (simp add: db0_def)
  note nth = s[THEN conjunct2, THEN conjunct2, THEN conjunct1, rule_format]
  have l4: "(0::nat) < length (tbl_contact db0)" "(1::nat) < length (tbl_contact db0)"
    "(2::nat) < length (tbl_contact db0)" "(3::nat) < length (tbl_contact db0)"
    by (simp_all add: db0_def)
  have n0: "tbl_contact d' ! 0 = contact1\<lparr>Contact.FirstName := Some ''Anna'', Contact.ModifiedAt := Some 50,
                    Contact.HistoryId := 5, Contact.LastStmt := 1,
                    Contact.DeviceId := Some ''device:d2''\<rparr>"
    unfolding nth[OF l4(1)] h0
    by (simp add: db0_def env0_def user1_d2_def contact1_def)
  have n1: "tbl_contact d' ! 1 = contact2"
    unfolding nth[OF l4(2)]
    by (simp add: db0_def env0_def user1_d2_def contact1_def contact2_def)
  have n2: "tbl_contact d' ! 2 = contact3"
    unfolding nth[OF l4(3)]
    by (simp add: db0_def env0_def user1_d2_def contact1_def contact3_def)
  have n3: "tbl_contact d' ! 3 = contact4"
    unfolding nth[OF l4(4)]
    by (simp add: db0_def env0_def user1_d2_def contact1_def contact4_def)
  have tb: "tbl_contact d' =
            [contact1\<lparr>Contact.FirstName := Some ''Anna'', Contact.ModifiedAt := Some 50,
                      Contact.HistoryId := 5, Contact.LastStmt := 1,
                      Contact.DeviceId := Some ''device:d2''\<rparr>,
             contact2, contact3, contact4]"
    using len n0 n1 n2 n3 by (rule list4_eqI)
  have sq: "tbl_contact_history_seq d' = [(1, 5), (2, 1)]"
    unfolding s[THEN conjunct2, THEN conjunct2, THEN conjunct2, THEN conjunct1]
    by (simp add: db0_def user1_d2_def)
  have dd: "d' = db0\<lparr>tbl_contact := tbl_contact d', tbl_contact_history_seq := tbl_contact_history_seq d'\<rparr>"
    by (rule s[THEN conjunct2, THEN conjunct2, THEN conjunct2, THEN conjunct2, THEN conjunct2])
  have a: "ContactRepository_Update env0 db0 user1_d2 ?c =
     (Inr (contact1\<lparr>Contact.FirstName := Some ''Anna'', Contact.ModifiedAt := Some 50,
                    Contact.HistoryId := 5, Contact.LastStmt := 1,
                    Contact.DeviceId := Some ''device:d2''\<rparr>),
      db0\<lparr>tbl_contact :=
            [contact1\<lparr>Contact.FirstName := Some ''Anna'', Contact.ModifiedAt := Some 50,
                      Contact.HistoryId := 5, Contact.LastStmt := 1,
                      Contact.DeviceId := Some ''device:d2''\<rparr>,
             contact2, contact3, contact4],
          tbl_contact_history_seq := [(1, 5), (2, 1)]\<rparr>)"
    unfolding r res by (subst dd, simp only: tb sq)
  from t[of env0 db0 user1_d2 contact3] obtain res3 d3 where
    r3: "ContactRepository_Update env0 db0 user1_d2 contact3 = (res3, d3)"
    and nf: "res3 = Inl ErrContactNotFound \<longleftrightarrow>
           fails env0 0 = None \<and>
           (\<forall>r\<in>set (tbl_contact db0). \<not> (Contact.UserId r = User.Id user1_d2 \<and> Contact.Id r = Contact.Id contact3 \<and> Contact.LastStmt r \<noteq> 2))"
    by (elim exE conjE)
  have "\<forall>r\<in>set (tbl_contact db0).
            \<not> (Contact.UserId r = User.Id user1_d2 \<and> Contact.Id r = Contact.Id contact3 \<and>
               Contact.LastStmt r \<noteq> 2)"
    by (simp add: db0_def user1_d2_def contact1_def contact2_def contact3_def contact4_def)
  with nf f have "res3 = Inl ErrContactNotFound" by simp
  with r3 have b: "fst (ContactRepository_Update env0 db0 user1_d2 contact3) = Inl ErrContactNotFound"
    by simp
  from t[of env_unique_fails db0 user1 contact1_as_bob] obtain res4 d4 where
    r4: "ContactRepository_Update env_unique_fails db0 user1 contact1_as_bob = (res4, d4)"
    and du: "fails env_unique_fails 0 = Some contact_unique_failed \<longrightarrow> res4 = Inl ErrDuplicateContact"
    and un: "(\<exists>err. res4 = Inl err) \<longrightarrow> d4 = db0"
    by (elim exE conjE)
  have "fails env_unique_fails 0 = Some contact_unique_failed"
    by (simp add: env_unique_fails_def)
  with du have "res4 = Inl ErrDuplicateContact" by (rule mp)
  moreover from this un have "d4 = db0" by simp
  ultimately have c: "ContactRepository_Update env_unique_fails db0 user1 contact1_as_bob =
     (Inl ErrDuplicateContact, db0)"
    using r4 by simp
  from u[of env0 db0 user2 draft2]
  obtain res5 d5 where
    r5: "DraftRepository_Update env0 db0 user2 draft2 = (res5, d5)"
    and nf5: "res5 = Inl ErrDraftNotFound \<longleftrightarrow>
           fails env0 0 = None \<and>
           (\<forall>r\<in>set (tbl_Draft db0). \<not> (Draft.UserId r = User.Id user2 \<and> Draft.Id r = Draft.Id draft2 \<and> Draft.LastStmt r \<noteq> 2))"
    by (elim exE conjE)
  have "\<forall>r\<in>set (tbl_Draft db0).
            \<not> (Draft.UserId r = User.Id user2 \<and> Draft.Id r = Draft.Id draft2 \<and>
               Draft.LastStmt r \<noteq> 2)"
    by (simp add: db0_def user2_def draft1_def draft2_def)
  with nf5 f have "res5 = Inl ErrDraftNotFound" by simp
  with r5 have d: "fst (DraftRepository_Update env0 db0 user2 draft2) = Inl ErrDraftNotFound"
    by simp
  have e: "Draft.LastStmt draft2 = 2" by (simp add: draft2_def)
  from u[of env0 db0 user1 ?m] obtain res6 d6 where
    r6: "DraftRepository_Update env0 db0 user1 ?m = (res6, d6)"
    and ok6: "fails env0 0 = None \<longrightarrow>
           (\<forall>r rs.
              filter (\<lambda>x. Draft.UserId x = User.Id user1 \<and> Draft.Id x = Draft.Id ?m \<and> Draft.LastStmt x \<noteq> 2) (tbl_Draft db0) = r # rs \<longrightarrow>
              res6 = Inr (r\<lparr>Draft.Payload := Draft.Payload ?m,
                       Draft.DeviceId := getPrefixedDeviceId env0 (User.DeviceId user1),
                       Draft.ModifiedAt := Some (now env0),
                       Draft.HistoryId := last_history_id (User.Id user1) (tbl_DraftHistorySeq db0) + 1,
                       Draft.LastStmt := 1\<rparr>) \<and>
              length (tbl_Draft d6) = length (tbl_Draft db0) \<and>
              (\<forall>i<length (tbl_Draft db0).
                 tbl_Draft d6 ! i =
                   (if Draft.UserId (tbl_Draft db0 ! i) = User.Id user1 \<and> Draft.Id (tbl_Draft db0 ! i) = Draft.Id ?m \<and> Draft.LastStmt (tbl_Draft db0 ! i) \<noteq> 2
                    then (tbl_Draft db0 ! i)\<lparr>Draft.Payload := Draft.Payload ?m,
                           Draft.DeviceId := getPrefixedDeviceId env0 (User.DeviceId user1),
                           Draft.ModifiedAt := Some (now env0),
                           Draft.HistoryId := last_history_id (User.Id user1) (tbl_DraftHistorySeq db0) + 1 +
                               int (length (filter (\<lambda>x. Draft.UserId x = User.Id user1 \<and> Draft.Id x = Draft.Id ?m \<and> Draft.LastStmt x \<noteq> 2) (take i (tbl_Draft db0)))),
                           Draft.LastStmt := 1\<rparr>
                    else tbl_Draft db0 ! i)) \<and>
              tbl_DraftHistorySeq d6 =
                map (\<lambda>s. if fst s = User.Id user1 then (fst s, snd s + 1 + int (length rs)) else s)
                  (tbl_DraftHistorySeq db0) \<and>
              (User.Id user1 \<in> fst ` set (tbl_DraftHistorySeq db0) \<longrightarrow>
                last_history_id (User.Id user1) (tbl_DraftHistorySeq d6) =
                  last_history_id (User.Id user1) (tbl_DraftHistorySeq db0) + 1 + int (length rs)) \<and>
              d6 = db0\<lparr>tbl_Draft := tbl_Draft d6, tbl_DraftHistorySeq := tbl_DraftHistorySeq d6\<rparr>)"
    by (elim exE conjE)
  have fl6: "filter (\<lambda>x. Draft.UserId x = User.Id user1 \<and> Draft.Id x = Draft.Id ?m \<and> Draft.LastStmt x \<noteq> 2)
              (tbl_Draft db0) = draft1 # []"
    by (simp add: db0_def user1_def draft1_def draft2_def)
  note s6 = ok6[rule_format, OF f fl6]
  have h6: "last_history_id (User.Id user1) (tbl_DraftHistorySeq db0) = 1"
    by (simp add: last_history_id_def select_last_history_id_def sql_select_def db0_def
          user1_def)
  have res6: "res6 = Inr (draft1\<lparr>Draft.ModifiedAt := Some 50, Draft.HistoryId := 2, Draft.LastStmt := 1,
                  Draft.DeviceId := Some ''device:d1''\<rparr>)"
    unfolding s6[THEN conjunct1] h6
    by (simp add: env0_def user1_def draft1_def)
  have len6: "length (tbl_Draft d6) = 2"
    unfolding s6[THEN conjunct2, THEN conjunct1] by (simp add: db0_def)
  note nth6 = s6[THEN conjunct2, THEN conjunct2, THEN conjunct1, rule_format]
  have l6: "(0::nat) < length (tbl_Draft db0)" "(1::nat) < length (tbl_Draft db0)"
    by (simp_all add: db0_def)
  have m0: "tbl_Draft d6 ! 0 = draft1\<lparr>Draft.ModifiedAt := Some 50, Draft.HistoryId := 2, Draft.LastStmt := 1,
                  Draft.DeviceId := Some ''device:d1''\<rparr>"
    unfolding nth6[OF l6(1)] h6
    by (simp add: db0_def env0_def user1_def draft1_def)
  have m1: "tbl_Draft d6 ! 1 = draft2"
    unfolding nth6[OF l6(2)]
    by (simp add: db0_def env0_def user1_def draft1_def draft2_def)
  have tb6: "tbl_Draft d6 =
            [draft1\<lparr>Draft.ModifiedAt := Some 50, Draft.HistoryId := 2, Draft.LastStmt := 1,
                    Draft.DeviceId := Some ''device:d1''\<rparr>,
             draft2]"
    using len6 m0 m1 by (rule list2_eqI)
  have sq6: "tbl_DraftHistorySeq d6 = [(1, 2), (2, 1)]"
    unfolding s6[THEN conjunct2, THEN conjunct2, THEN conjunct2, THEN conjunct1]
    by (simp add: db0_def user1_def)
  have dd6: "d6 = db0\<lparr>tbl_Draft := tbl_Draft d6, tbl_DraftHistorySeq := tbl_DraftHistorySeq d6\<rparr>"
    by (rule s6[THEN conjunct2, THEN conjunct2, THEN conjunct2, THEN conjunct2, THEN conjunct2])
  have g: "DraftRepository_Update env0 db0 user1 ?m =
     (Inr (draft1\<lparr>Draft.ModifiedAt := Some 50, Draft.HistoryId := 2, Draft.LastStmt := 1,
                  Draft.DeviceId := Some ''device:d1''\<rparr>),
      db0\<lparr>tbl_Draft :=
            [draft1\<lparr>Draft.ModifiedAt := Some 50, Draft.HistoryId := 2, Draft.LastStmt := 1,
                    Draft.DeviceId := Some ''device:d1''\<rparr>,
             draft2],
          tbl_DraftHistorySeq := [(1, 2), (2, 1)]\<rparr>)"
    unfolding r6 res6 by (subst dd6, simp only: tb6 sq6)
  from a b c d e g show ?thesis by simp
qed

theorem update_of_existing_contact_fails_as_duplicate:
  "filter (\<lambda>r. Contact.UserId r = User.Id user1 \<and> Contact.Id r = Contact.Id contact1_as_bob \<and>
               Contact.LastStmt r \<noteq> 2) (tbl_contact db0) = [contact1] \<and>
   ContactRepository_Update env_unique_fails db0 user1 contact1_as_bob =
     (Inl ErrDuplicateContact, db0)"
  by (simp add: ContactRepository_Update_def QueryRow_def Let_def env_unique_fails_def
        db0_def user1_def contact1_as_bob_def contact1_def contact2_def contact3_def contact4_def)

section \<open>Bulk operations: the rows of other users\<close>

lemma filter_sql_update_other:
  assumes "\<forall>r. wh r \<longrightarrow> \<not> P r \<and> \<not> P (st r)"
  shows "filter P (sql_update wh st tbl) = filter P tbl"
  unfolding sql_update_def using assms by (induction tbl) auto

lemma filter_sql_delete_other:
  assumes "\<forall>r. wh r \<longrightarrow> \<not> P r"
  shows "filter P (sql_delete wh tbl) = filter P tbl"
  unfolding sql_delete_def using assms by (induction tbl) auto

lemma ContactRepository_Trash_frame:
  assumes "User.Id user \<noteq> v"
  shows "filter (\<lambda>r. Contact.UserId r = v) (tbl_contact (snd (ContactRepository_Trash e d user ids))) =
           filter (\<lambda>r. Contact.UserId r = v) (tbl_contact d) \<and>
         filter (\<lambda>r. ContactDeleted.UserId r = v) (tbl_contact_deleted (snd (ContactRepository_Trash e d user ids))) =
           filter (\<lambda>r. ContactDeleted.UserId r = v) (tbl_contact_deleted d) \<and>
         filter (\<lambda>r. Blob.UserId r = v) (tbl_Blob (snd (ContactRepository_Trash e d user ids))) =
           filter (\<lambda>r. Blob.UserId r = v) (tbl_Blob d) \<and>
         filter (\<lambda>r. BlobDeleted.UserId r = v) (tbl_BlobDeleted (snd (ContactRepository_Trash e d user ids))) =
           filter (\<lambda>r. BlobDeleted.UserId r = v) (tbl_BlobDeleted d) \<and>
         filter (\<lambda>r. Draft.UserId r = v) (tbl_Draft (snd (ContactRepository_Trash e d user ids))) =
           filter (\<lambda>r. Draft.UserId r = v) (tbl_Draft d) \<and>
         tbl_contact_history_seq (snd (ContactRepository_Trash e d user ids)) = tbl_contact_history_seq d \<and>
         tbl_BlobHistorySeq (snd (ContactRepository_Trash e d user ids)) = tbl_BlobHistorySeq d"
  using assms
  by (cases "Exec e 0 (json_each e ids)")
     (simp_all add: ContactRepository_Trash_def Let_def filter_sql_update_other filter_sql_delete_other)

lemma ContactRepository_Untrash_frame:
  assumes "User.Id user \<noteq> v"
  shows "filter (\<lambda>r. Contact.UserId r = v) (tbl_contact (snd (ContactRepository_Untrash e d user ids))) =
           filter (\<lambda>r. Contact.UserId r = v) (tbl_contact d) \<and>
         filter (\<lambda>r. ContactDeleted.UserId r = v) (tbl_contact_deleted (snd (ContactRepository_Untrash e d user ids))) =
           filter (\<lambda>r. ContactDeleted.UserId r = v) (tbl_contact_deleted d) \<and>
         filter (\<lambda>r. Blob.UserId r = v) (tbl_Blob (snd (ContactRepository_Untrash e d user ids))) =
           filter (\<lambda>r. Blob.UserId r = v) (tbl_Blob d) \<and>
         filter (\<lambda>r. BlobDeleted.UserId r = v) (tbl_BlobDeleted (snd (ContactRepository_Untrash e d user ids))) =
           filter (\<lambda>r. BlobDeleted.UserId r = v) (tbl_BlobDeleted d) \<and>
         filter (\<lambda>r. Draft.UserId r = v) (tbl_Draft (snd (ContactRepository_Untrash e d user ids))) =
           filter (\<lambda>r. Draft.UserId r = v) (tbl_Draft d) \<and>
         tbl_contact_history_seq (snd (ContactRepository_Untrash e d user ids)) = tbl_contact_history_seq d \<and>
         tbl_BlobHistorySeq (snd (ContactRepository_Untrash e d user ids)) = tbl_BlobHistorySeq d"
  using assms
  by (cases "Exec e 0 (json_each e ids)")
     (simp_all add: ContactRepository_Untrash_def Let_def filter_sql_update_other filter_sql_delete_other)

lemma ContactRepository_Delete_frame:
  assumes "User.Id user \<noteq> v"
  shows "filter (\<lambda>r. Contact.UserId r = v) (tbl_contact (snd (ContactRepository_Delete e d user ids))) =
           filter (\<lambda>r. Contact.UserId r = v) (tbl_contact d) \<and>
         filter (\<lambda>r. ContactDeleted.UserId r = v) (tbl_contact_deleted (snd (ContactRepository_Delete e d user ids))) =
           filter (\<lambda>r. ContactDeleted.UserId r = v) (tbl_contact_deleted d) \<and>
         filter (\<lambda>r. Blob.UserId r = v) (tbl_Blob (snd (ContactRepository_Delete e d user ids))) =
           filter (\<lambda>r. Blob.UserId r = v) (tbl_Blob d) \<and>
         filter (\<lambda>r. BlobDeleted.UserId r = v) (tbl_BlobDeleted (snd (ContactRepository_Delete e d user ids))) =
           filter (\<lambda>r. BlobDeleted.UserId r = v) (tbl_BlobDeleted d) \<and>
         filter (\<lambda>r. Draft.UserId r = v) (tbl_Draft (snd (ContactRepository_Delete e d user ids))) =
           filter (\<lambda>r. Draft.UserId r = v) (tbl_Draft d) \<and>
         tbl_contact_history_seq (snd (ContactRepository_Delete e d user ids)) = tbl_contact_history_seq d \<and>
         tbl_BlobHistorySeq (snd (ContactRepository_Delete e d user ids)) = tbl_BlobHistorySeq d"
  using assms
  by (cases "Exec e 0 (json_each e ids)")
     (simp_all add: ContactRepository_Delete_def Let_def filter_sql_update_other filter_sql_delete_other)

lemma BlobRepository_Trash_frame:
  assumes "User.Id user \<noteq> v"
  shows "filter (\<lambda>r. Contact.UserId r = v) (tbl_contact (snd (BlobRepository_Trash e d user ids))) =
           filter (\<lambda>r. Contact.UserId r = v) (tbl_contact d) \<and>
         filter (\<lambda>r. ContactDeleted.UserId r = v) (tbl_contact_deleted (snd (BlobRepository_Trash e d user ids))) =
           filter (\<lambda>r. ContactDeleted.UserId r = v) (tbl_contact_deleted d) \<and>
         filter (\<lambda>r. Blob.UserId r = v) (tbl_Blob (snd (BlobRepository_Trash e d user ids))) =
           filter (\<lambda>r. Blob.UserId r = v) (tbl_Blob d) \<and>
         filter (\<lambda>r. BlobDeleted.UserId r = v) (tbl_BlobDeleted (snd (BlobRepository_Trash e d user ids))) =
           filter (\<lambda>r. BlobDeleted.UserId r = v) (tbl_BlobDeleted d) \<and>
         filter (\<lambda>r. Draft.UserId r = v) (tbl_Draft (snd (BlobRepository_Trash e d user ids))) =
           filter (\<lambda>r. Draft.UserId r = v) (tbl_Draft d) \<and>
         tbl_contact_history_seq (snd (BlobRepository_Trash e d user ids)) = tbl_contact_history_seq d \<and>
         tbl_BlobHistorySeq (snd (BlobRepository_Trash e d user ids)) = tbl_BlobHistorySeq d"
  using assms
  by (cases "Exec e 0 (json_each_path e ids ''$.uris'')")
     (simp_all add: BlobRepository_Trash_def Let_def filter_sql_update_other filter_sql_delete_other)

lemma BlobRepository_Untrash_frame:
  assumes "User.Id user \<noteq> v"
  shows "filter (\<lambda>r. Contact.UserId r = v) (tbl_contact (snd (BlobRepository_Untrash e d user ids))) =
           filter (\<lambda>r. Contact.UserId r = v) (tbl_contact d) \<and>
         filter (\<lambda>r. ContactDeleted.UserId r = v) (tbl_contact_deleted (snd (BlobRepository_Untrash e d user ids))) =
           filter (\<lambda>r. ContactDeleted.UserId r = v) (tbl_contact_deleted d) \<and>
         filter (\<lambda>r. Blob.UserId r = v) (tbl_Blob (snd (BlobRepository_Untrash e d user ids))) =
           filter (\<lambda>r. Blob.UserId r = v) (tbl_Blob d) \<and>
         filter (\<lambda>r. BlobDeleted.UserId r = v) (tbl_BlobDeleted (snd (BlobRepository_Untrash e d user ids))) =
           filter (\<lambda>r. BlobDeleted.UserId r = v) (tbl_BlobDeleted d) \<and>
         filter (\<lambda>r. Draft.UserId r = v) (tbl_Draft (snd (BlobRepository_Untrash e d user ids))) =
           filter (\<lambda>r. Draft.UserId r = v) (tbl_Draft d) \<and>
         tbl_contact_history_seq (snd (BlobRepository_Untrash e d user ids)) = tbl_contact_history_seq d \<and>
         tbl_BlobHistorySeq (snd (BlobRepository_Untrash e d user ids)) = tbl_BlobHistorySeq d"
  using assms
  by (cases "Exec e 0 (json_each_path e ids ''$.uris'')")
     (simp_all add: BlobRepository_Untrash_def Let_def filter_sql_update_other filter_sql_delete_other)

lemma BlobRepository_Delete_frame:
  assumes "User.Id user \<noteq> v"
  shows "filter (\<lambda>r. Contact.UserId r = v) (tbl_contact (snd (BlobRepository_Delete e d user ids))) =
           filter (\<lambda>r. Contact.UserId r = v) (tbl_contact d) \<and>
         filter (\<lambda>r. ContactDeleted.UserId r = v) (tbl_contact_deleted (snd (BlobRepository_Delete e d user ids))) =
           filter (\<lambda>r. ContactDeleted.UserId r = v) (tbl_contact_deleted d) \<and>
         filter (\<lambda>r. Blob.UserId r = v) (tbl_Blob (snd (BlobRepository_Delete e d user ids))) =
           filter (\<lambda>r. Blob.UserId r = v) (tbl_Blob d) \<and>
         filter (\<lambda>r. BlobDeleted.UserId r = v) (tbl_BlobDeleted (snd (BlobRepository_Delete e d user ids))) =
           filter (\<lambda>r. BlobDeleted.UserId r = v) (tbl_BlobDeleted d) \<and>
         filter (\<lambda>r. Draft.UserId r = v) (tbl_Draft (snd (BlobRepository_Delete e d user ids))) =
           filter (\<lambda>r. Draft.UserId r = v) (tbl_Draft d) \<and>
         tbl_contact_history_seq (snd (BlobRepository_Delete e d user ids)) = tbl_contact_history_seq d \<and>
         tbl_BlobHistorySeq (snd (BlobRepository_Delete e d user ids)) = tbl_BlobHistorySeq d"
  using assms
  by (simp add: BlobRepository_Delete_def Let_def filter_sql_update_other filter_sql_delete_other
        split: option.splits sum.splits)

lemma DraftRepository_Trash_frame:
  assumes "User.Id user \<noteq> v"
  shows "filter (\<lambda>r. Contact.UserId r = v) (tbl_contact (snd (DraftRepository_Trash e d user ids))) =
           filter (\<lambda>r. Contact.UserId r = v) (tbl_contact d) \<and>
         filter (\<lambda>r. ContactDeleted.UserId r = v) (tbl_contact_deleted (snd (DraftRepository_Trash e d user ids))) =
           filter (\<lambda>r. ContactDeleted.UserId r = v) (tbl_contact_deleted d) \<and>
         filter (\<lambda>r. Blob.UserId r = v) (tbl_Blob (snd (DraftRepository_Trash e d user ids))) =
           filter (\<lambda>r. Blob.UserId r = v) (tbl_Blob d) \<and>
         filter (\<lambda>r. BlobDeleted.UserId r = v) (tbl_BlobDeleted (snd (DraftRepository_Trash e d user ids))) =
           filter (\<lambda>r. BlobDeleted.UserId r = v) (tbl_BlobDeleted d) \<and>
         filter (\<lambda>r. Draft.UserId r = v) (tbl_Draft (snd (DraftRepository_Trash e d user ids))) =
           filter (\<lambda>r. Draft.UserId r = v) (tbl_Draft d) \<and>
         tbl_contact_history_seq (snd (DraftRepository_Trash e d user ids)) = tbl_contact_history_seq d \<and>
         tbl_BlobHistorySeq (snd (DraftRepository_Trash e d user ids)) = tbl_BlobHistorySeq d"
  using assms
  by (cases "Exec e 0 (json_each e ids)")
     (simp_all add: DraftRepository_Trash_def Let_def filter_sql_update_other filter_sql_delete_other)

lemma DraftRepository_Untrash_frame:
  assumes "User.Id user \<noteq> v"
  shows "filter (\<lambda>r. Contact.UserId r = v) (tbl_contact (snd (DraftRepository_Untrash e d user ids))) =
           filter (\<lambda>r. Contact.UserId r = v) (tbl_contact d) \<and>
         filter (\<lambda>r. ContactDeleted.UserId r = v) (tbl_contact_deleted (snd (DraftRepository_Untrash e d user ids))) =
           filter (\<lambda>r. ContactDeleted.UserId r = v) (tbl_contact_deleted d) \<and>
         filter (\<lambda>r. Blob.UserId r = v) (tbl_Blob (snd (DraftRepository_Untrash e d user ids))) =
           filter (\<lambda>r. Blob.UserId r = v) (tbl_Blob d) \<and>
         filter (\<lambda>r. BlobDeleted.UserId r = v) (tbl_BlobDeleted (snd (DraftRepository_Untrash e d user ids))) =
           filter (\<lambda>r. BlobDeleted.UserId r = v) (tbl_BlobDeleted d) \<and>
         filter (\<lambda>r. Draft.UserId r = v) (tbl_Draft (snd (DraftRepository_Untrash e d user ids))) =
           filter (\<lambda>r. Draft.UserId r = v) (tbl_Draft d) \<and>
         tbl_contact_history_seq (snd (DraftRepository_Untrash e d user ids)) = tbl_contact_history_seq d \<and>
         tbl_BlobHistorySeq (snd (DraftRepository_Untrash e d user ids)) = tbl_BlobHistorySeq d"
  using assms
  by (cases "Exec e 0 (json_each e ids)")
     (simp_all add: DraftRepository_Untrash_def Let_def filter_sql_update_other filter_sql_delete_other)

lemma DraftRepository_Delete_frame:
  assumes "User.Id user \<noteq> v"
  shows "filter (\<lambda>r. Contact.UserId r = v) (tbl_contact (snd (DraftRepository_Delete e d user ids))) =
           filter (\<lambda>r. Contact.UserId r = v) (tbl_contact d) \<and>
         filter (\<lambda>r. ContactDeleted.UserId r = v) (tbl_contact_deleted (snd (DraftRepository_Delete e d user ids))) =
           filter (\<lambda>r. ContactDeleted.UserId r = v) (tbl_contact_deleted d) \<and>
         filter (\<lambda>r. Blob.UserId r = v) (tbl_Blob (snd (DraftRepository_Delete e d user ids))) =
           filter (\<lambda>r. Blob.UserId r = v) (tbl_Blob d) \<and>
         filter (\<lambda>r. BlobDeleted.UserId r = v) (tbl_BlobDeleted (snd (DraftRepository_Delete e d user ids))) =
           filter (\<lambda>r. BlobDeleted.UserId r = v) (tbl_BlobDeleted d) \<and>
         filter (\<lambda>r. Draft.UserId r = v) (tbl_Draft (snd (DraftRepository_Delete e d user ids))) =
           filter (\<lambda>r. Draft.UserId r = v) (tbl_Draft d) \<and>
         tbl_contact_history_seq (snd (DraftRepository_Delete e d user ids)) = tbl_contact_history_seq d \<and>
         tbl_BlobHistorySeq (snd (DraftRepository_Delete e d user ids)) = tbl_BlobHistorySeq d"
  using assms
  by (cases "Exec e 0 (json_each e ids)")
     (simp_all add: DraftRepository_Delete_def Let_def filter_sql_update_other filter_sql_delete_other)

text \<open>
  C9. A bulk operation (Trash, Untrash, Delete, of contacts, blobs or drafts) called by a
  user leaves every row of every other user as it was: for a user id \<open>v\<close> that is not the
  caller's, each table holds the same rows of \<open>v\<close>, with the same fields and in the same
  order, before and after the call, whatever the id list and whether or not the call
  fails; this includes rows of \<open>v\<close> that share an id with a row of the caller. The history
  sequence tables are not written by these statements.
\<close>

theorem bulk_operations_keep_rows_of_other_users:
  assumes "User.Id user \<noteq> v"
  shows "\<forall>op\<in>set [ContactRepository_Trash,
            ContactRepository_Untrash,
            ContactRepository_Delete,
            BlobRepository_Trash,
            BlobRepository_Untrash,
            BlobRepository_Delete,
            DraftRepository_Trash,
            DraftRepository_Untrash,
            DraftRepository_Delete].
     filter (\<lambda>r. Contact.UserId r = v) (tbl_contact (snd (op e d user ids))) =
       filter (\<lambda>r. Contact.UserId r = v) (tbl_contact d) \<and>
     filter (\<lambda>r. ContactDeleted.UserId r = v) (tbl_contact_deleted (snd (op e d user ids))) =
       filter (\<lambda>r. ContactDeleted.UserId r = v) (tbl_contact_deleted d) \<and>
     filter (\<lambda>r. Blob.UserId r = v) (tbl_Blob (snd (op e d user ids))) =
       filter (\<lambda>r. Blob.UserId r = v) (tbl_Blob d) \<and>
     filter (\<lambda>r. BlobDeleted.UserId r = v) (tbl_BlobDeleted (snd (op e d user ids))) =
       filter (\<lambda>r. BlobDeleted.UserId r = v) (tbl_BlobDeleted d) \<and>
     filter (\<lambda>r. Draft.UserId r = v) (tbl_Draft (snd (op e d user ids))) =
       filter (\<lambda>r. Draft.UserId r = v) (tbl_Draft d) \<and>
     tbl_contact_history_seq (snd (op e d user ids)) = tbl_contact_history_seq d \<and>
     tbl_BlobHistorySeq (snd (op e d user ids)) = tbl_BlobHistorySeq d"
  using assms
  by (simp add: ContactRepository_Trash_frame ContactRepository_Untrash_frame ContactRepository_Delete_frame BlobRepository_Trash_frame BlobRepository_Untrash_frame BlobRepository_Delete_frame DraftRepository_Trash_frame DraftRepository_Untrash_frame DraftRepository_Delete_frame)

theorem bulk_operations_keep_rows_of_other_users_witness:
  "filter (\<lambda>r. Contact.UserId r = 2)
     (tbl_contact (snd (ContactRepository_Trash env0 db0 user1 ids_json))) = [contact4] \<and>
   Contact.Id contact4 = ''c1'' \<and>
   tbl_contact (snd (ContactRepository_Trash env0 db0 user1 ids_json)) \<noteq> tbl_contact db0 \<and>
   filter (\<lambda>r. Draft.UserId r = 2)
     (tbl_Draft (snd (DraftRepository_Untrash env0 db0 user1 ids_json))) = [draft2]"
proof -
  have ne: "User.Id user1 \<noteq> 2" by (simp add: user1_def)
  note t = bulk_operations_keep_rows_of_other_users[OF ne, of env0 db0 ids_json]
  have "ContactRepository_Trash \<in> set [ContactRepository_Trash,
            ContactRepository_Untrash,
            ContactRepository_Delete,
            BlobRepository_Trash,
            BlobRepository_Untrash,
            BlobRepository_Delete,
            DraftRepository_Trash,
            DraftRepository_Untrash,
            DraftRepository_Delete]" by simp
  from bspec[OF t this] have
    "filter (\<lambda>r. Contact.UserId r = 2)
       (tbl_contact (snd (ContactRepository_Trash env0 db0 user1 ids_json))) =
     filter (\<lambda>r. Contact.UserId r = 2) (tbl_contact db0)"
    by (elim conjE)
  then have a: "filter (\<lambda>r. Contact.UserId r = 2)
       (tbl_contact (snd (ContactRepository_Trash env0 db0 user1 ids_json))) = [contact4]"
    by (simp add: db0_def contact1_def contact2_def contact3_def contact4_def)
  have "DraftRepository_Untrash \<in> set [ContactRepository_Trash,
            ContactRepository_Untrash,
            ContactRepository_Delete,
            BlobRepository_Trash,
            BlobRepository_Untrash,
            BlobRepository_Delete,
            DraftRepository_Trash,
            DraftRepository_Untrash,
            DraftRepository_Delete]" by simp
  from bspec[OF t this] have
    "filter (\<lambda>r. Draft.UserId r = 2)
       (tbl_Draft (snd (DraftRepository_Untrash env0 db0 user1 ids_json))) =
     filter (\<lambda>r. Draft.UserId r = 2) (tbl_Draft db0)"
    by (elim conjE)
  then have b: "filter (\<lambda>r. Draft.UserId r = 2)
       (tbl_Draft (snd (DraftRepository_Untrash env0 db0 user1 ids_json))) = [draft2]"
    by (simp add: db0_def draft1_def draft2_def)
  have c: "tbl_contact (snd (ContactRepository_Trash env0 db0 user1 ids_json)) \<noteq> tbl_contact db0"
    by (simp add: ContactRepository_Trash_def Exec_def env0_def ids_json_def sql_update_def
          db0_def user1_def contact1_def contact2_def contact3_def contact4_def)
  have d: "Contact.Id contact4 = ''c1''" by (simp add: contact4_def)
  from a b c d show ?thesis by simp
qed

section \<open>Bulk operations: best effort\<close>

lemma sql_update_length: "length (sql_update wh st tbl) = length tbl"
  by (simp add: sql_update_def)

lemma sql_update_nth_other:
  "i < length tbl \<Longrightarrow> \<not> wh (tbl ! i) \<Longrightarrow> sql_update wh st tbl ! i = tbl ! i"
  by (simp add: sql_update_def)

lemma sql_update_none: "\<forall>r\<in>set tbl. \<not> wh r \<Longrightarrow> sql_update wh st tbl = tbl"
  unfolding sql_update_def by (induction tbl) auto

lemma sql_delete_none: "\<forall>r\<in>set tbl. \<not> wh r \<Longrightarrow> sql_delete wh tbl = tbl"
  unfolding sql_delete_def by (induction tbl) auto

lemma Exec_ok: "fails e n = None \<Longrightarrow> arr = Inr vs \<Longrightarrow> Exec e n arr = Inr vs"
  by (simp add: Exec_def)

lemma update_none_map:
  "\<forall>r\<in>set tbl. \<not> wh r \<Longrightarrow> map (\<lambda>r. if wh r then st r else r) tbl = tbl"
  by (induction tbl) auto

lemma ContactRepository_Trash_best_effort:
  assumes "fails e 0 = None" and "json_each e idList = Inr vs" and "idList \<noteq> []"
  shows "ContactRepository_Trash e d user idList =
             (None,
              d\<lparr>tbl_contact :=
                  map (\<lambda>r. if Contact.UserId r = User.Id user \<and> Contact.Id r \<in> set vs
                           then r\<lparr>Contact.LastStmt := 2, Contact.DeviceId := getPrefixedDeviceId e (User.DeviceId user)\<rparr>
                           else r)
                    (tbl_contact d)\<rparr>) \<and>
         length (tbl_contact (snd (ContactRepository_Trash e d user idList))) = length (tbl_contact d) \<and>
         (\<forall>i<length (tbl_contact d).
             Contact.UserId (tbl_contact d ! i) = User.Id user \<and> Contact.Id (tbl_contact d ! i) \<in> set vs \<longrightarrow>
             tbl_contact (snd (ContactRepository_Trash e d user idList)) ! i =
               (tbl_contact d ! i)\<lparr>Contact.LastStmt := 2, Contact.DeviceId := getPrefixedDeviceId e (User.DeviceId user)\<rparr>) \<and>
         (\<forall>i<length (tbl_contact d).
             \<not> (Contact.UserId (tbl_contact d ! i) = User.Id user \<and> Contact.Id (tbl_contact d ! i) \<in> set vs) \<longrightarrow>
             tbl_contact (snd (ContactRepository_Trash e d user idList)) ! i = tbl_contact d ! i) \<and>
         ((\<forall>r\<in>set (tbl_contact d). \<not> (Contact.UserId r = User.Id user \<and> Contact.Id r \<in> set vs)) \<longrightarrow>
             snd (ContactRepository_Trash e d user idList) = d)"
  by (simp add: ContactRepository_Trash_def Let_def Exec_ok assms sql_update_def sql_delete_def update_none_map)

lemma ContactRepository_Untrash_best_effort:
  assumes "fails e 0 = None" and "json_each e idList = Inr vs" and "idList \<noteq> []"
  shows "ContactRepository_Untrash e d user idList =
             (None,
              d\<lparr>tbl_contact :=
                  map (\<lambda>r. if Contact.UserId r = User.Id user \<and> Contact.Id r \<in> set vs
                           then r\<lparr>Contact.LastStmt := 0, Contact.DeviceId := getPrefixedDeviceId e (User.DeviceId user)\<rparr>
                           else r)
                    (tbl_contact d)\<rparr>) \<and>
         length (tbl_contact (snd (ContactRepository_Untrash e d user idList))) = length (tbl_contact d) \<and>
         (\<forall>i<length (tbl_contact d).
             Contact.UserId (tbl_contact d ! i) = User.Id user \<and> Contact.Id (tbl_contact d ! i) \<in> set vs \<longrightarrow>
             tbl_contact (snd (ContactRepository_Untrash e d user idList)) ! i =
               (tbl_contact d ! i)\<lparr>Contact.LastStmt := 0, Contact.DeviceId := getPrefixedDeviceId e (User.DeviceId user)\<rparr>) \<and>
         (\<forall>i<length (tbl_contact d).
             \<not> (Contact.UserId (tbl_contact d ! i) = User.Id user \<and> Contact.Id (tbl_contact d ! i) \<in> set vs) \<longrightarrow>
             tbl_contact (snd (ContactRepository_Untrash e d user idList)) ! i = tbl_contact d ! i) \<and>
         ((\<forall>r\<in>set (tbl_contact d). \<not> (Contact.UserId r = User.Id user \<and> Contact.Id r \<in> set vs)) \<longrightarrow>
             snd (ContactRepository_Untrash e d user idList) = d)"
  by (simp add: ContactRepository_Untrash_def Let_def Exec_ok assms sql_update_def sql_delete_def update_none_map)

lemma ContactRepository_Delete_best_effort:
  assumes "fails e 0 = None" and "json_each e idList = Inr vs" and "idList \<noteq> []"
  shows "ContactRepository_Delete e d user idList =
             (None,
              d\<lparr>tbl_contact :=
                  filter (\<lambda>r. \<not> (Contact.UserId r = User.Id user \<and> Contact.Id r \<in> set vs)) (tbl_contact d)\<rparr>) \<and>
         ((\<forall>r\<in>set (tbl_contact d). \<not> (Contact.UserId r = User.Id user \<and> Contact.Id r \<in> set vs)) \<longrightarrow>
             snd (ContactRepository_Delete e d user idList) = d)"
  by (simp add: ContactRepository_Delete_def Let_def Exec_ok assms sql_update_def sql_delete_def update_none_map)

lemma DraftRepository_Trash_best_effort:
  assumes "fails e 0 = None" and "json_each e idList = Inr vs" and "idList \<noteq> []"
  shows "DraftRepository_Trash e d user idList =
             (None,
              d\<lparr>tbl_Draft :=
                  map (\<lambda>r. if Draft.UserId r = User.Id user \<and> Draft.Id r \<in> set vs
                           then r\<lparr>Draft.LastStmt := 2, Draft.DeviceId := getPrefixedDeviceId e (User.DeviceId user)\<rparr>
                           else r)
                    (tbl_Draft d)\<rparr>) \<and>
         length (tbl_Draft (snd (DraftRepository_Trash e d user idList))) = length (tbl_Draft d) \<and>
         (\<forall>i<length (tbl_Draft d).
             Draft.UserId (tbl_Draft d ! i) = User.Id user \<and> Draft.Id (tbl_Draft d ! i) \<in> set vs \<longrightarrow>
             tbl_Draft (snd (DraftRepository_Trash e d user idList)) ! i =
               (tbl_Draft d ! i)\<lparr>Draft.LastStmt := 2, Draft.DeviceId := getPrefixedDeviceId e (User.DeviceId user)\<rparr>) \<and>
         (\<forall>i<length (tbl_Draft d).
             \<not> (Draft.UserId (tbl_Draft d ! i) = User.Id user \<and> Draft.Id (tbl_Draft d ! i) \<in> set vs) \<longrightarrow>
             tbl_Draft (snd (DraftRepository_Trash e d user idList)) ! i = tbl_Draft d ! i) \<and>
         ((\<forall>r\<in>set (tbl_Draft d). \<not> (Draft.UserId r = User.Id user \<and> Draft.Id r \<in> set vs)) \<longrightarrow>
             snd (DraftRepository_Trash e d user idList) = d)"
  by (simp add: DraftRepository_Trash_def Let_def Exec_ok assms sql_update_def sql_delete_def update_none_map)

lemma DraftRepository_Untrash_best_effort:
  assumes "fails e 0 = None" and "json_each e idList = Inr vs" and "idList \<noteq> []"
  shows "DraftRepository_Untrash e d user idList =
             (None,
              d\<lparr>tbl_Draft :=
                  map (\<lambda>r. if Draft.UserId r = User.Id user \<and> Draft.Id r \<in> set vs
                           then r\<lparr>Draft.LastStmt := 0, Draft.DeviceId := getPrefixedDeviceId e (User.DeviceId user)\<rparr>
                           else r)
                    (tbl_Draft d)\<rparr>) \<and>
         length (tbl_Draft (snd (DraftRepository_Untrash e d user idList))) = length (tbl_Draft d) \<and>
         (\<forall>i<length (tbl_Draft d).
             Draft.UserId (tbl_Draft d ! i) = User.Id user \<and> Draft.Id (tbl_Draft d ! i) \<in> set vs \<longrightarrow>
             tbl_Draft (snd (DraftRepository_Untrash e d user idList)) ! i =
               (tbl_Draft d ! i)\<lparr>Draft.LastStmt := 0, Draft.DeviceId := getPrefixedDeviceId e (User.DeviceId user)\<rparr>) \<and>
         (\<forall>i<length (tbl_Draft d).
             \<not> (Draft.UserId (tbl_Draft d ! i) = User.Id user \<and> Draft.Id (tbl_Draft d ! i) \<in> set vs) \<longrightarrow>
             tbl_Draft (snd (DraftRepository_Untrash e d user idList)) ! i = tbl_Draft d ! i) \<and>
         ((\<forall>r\<in>set (tbl_Draft d). \<not> (Draft.UserId r = User.Id user \<and> Draft.Id r \<in> set vs)) \<longrightarrow>
             snd (DraftRepository_Untrash e d user idList) = d)"
  by (simp add: DraftRepository_Untrash_def Let_def Exec_ok assms sql_update_def sql_delete_def update_none_map)

lemma DraftRepository_Delete_best_effort:
  assumes "fails e 0 = None" and "json_each e idList = Inr vs" and "idList \<noteq> []"
  shows "DraftRepository_Delete e d user idList =
             (None,
              d\<lparr>tbl_Draft :=
                  filter (\<lambda>r. \<not> (Draft.UserId r = User.Id user \<and> Draft.Id r \<in> set vs)) (tbl_Draft d)\<rparr>) \<and>
         ((\<forall>r\<in>set (tbl_Draft d). \<not> (Draft.UserId r = User.Id user \<and> Draft.Id r \<in> set vs)) \<longrightarrow>
             snd (DraftRepository_Delete e d user idList) = d)"
  by (simp add: DraftRepository_Delete_def Let_def Exec_ok assms sql_update_def sql_delete_def update_none_map)

lemma BlobRepository_Trash_best_effort:
  assumes "fails e 0 = None" and "json_each_path e uris ''$.uris'' = Inr ws" and "uris \<noteq> []"
  shows "BlobRepository_Trash e d user uris =
             (None,
              d\<lparr>tbl_Blob :=
                  map (\<lambda>r. if Blob.UserId r = User.Id user \<and> Blob.Uri r \<in> set ws
                           then r\<lparr>Blob.LastStmt := 2, Blob.DeviceId := getPrefixedDeviceId e (User.DeviceId user)\<rparr>
                           else r)
                    (tbl_Blob d)\<rparr>) \<and>
         length (tbl_Blob (snd (BlobRepository_Trash e d user uris))) = length (tbl_Blob d) \<and>
         (\<forall>i<length (tbl_Blob d).
             Blob.UserId (tbl_Blob d ! i) = User.Id user \<and> Blob.Uri (tbl_Blob d ! i) \<in> set ws \<longrightarrow>
             tbl_Blob (snd (BlobRepository_Trash e d user uris)) ! i =
               (tbl_Blob d ! i)\<lparr>Blob.LastStmt := 2, Blob.DeviceId := getPrefixedDeviceId e (User.DeviceId user)\<rparr>) \<and>
         (\<forall>i<length (tbl_Blob d).
             \<not> (Blob.UserId (tbl_Blob d ! i) = User.Id user \<and> Blob.Uri (tbl_Blob d ! i) \<in> set ws) \<longrightarrow>
             tbl_Blob (snd (BlobRepository_Trash e d user uris)) ! i = tbl_Blob d ! i) \<and>
         ((\<forall>r\<in>set (tbl_Blob d). \<not> (Blob.UserId r = User.Id user \<and> Blob.Uri r \<in> set ws)) \<longrightarrow>
             snd (BlobRepository_Trash e d user uris) = d)"
  by (simp add: BlobRepository_Trash_def Let_def Exec_ok assms sql_update_def sql_delete_def update_none_map)

lemma BlobRepository_Untrash_best_effort:
  assumes "fails e 0 = None" and "json_each_path e uris ''$.uris'' = Inr ws" and "uris \<noteq> []"
  shows "BlobRepository_Untrash e d user uris =
             (None,
              d\<lparr>tbl_Blob :=
                  map (\<lambda>r. if Blob.UserId r = User.Id user \<and> Blob.Uri r \<in> set ws
                           then r\<lparr>Blob.LastStmt := 0, Blob.DeviceId := getPrefixedDeviceId e (User.DeviceId user)\<rparr>
                           else r)
                    (tbl_Blob d)\<rparr>) \<and>
         length (tbl_Blob (snd (BlobRepository_Untrash e d user uris))) = length (tbl_Blob d) \<and>
         (\<forall>i<length (tbl_Blob d).
             Blob.UserId (tbl_Blob d ! i) = User.Id user \<and> Blob.Uri (tbl_Blob d ! i) \<in> set ws \<longrightarrow>
             tbl_Blob (snd (BlobRepository_Untrash e d user uris)) ! i =
               (tbl_Blob d ! i)\<lparr>Blob.LastStmt := 0, Blob.DeviceId := getPrefixedDeviceId e (User.DeviceId user)\<rparr>) \<and>
         (\<forall>i<length (tbl_Blob d).
             \<not> (Blob.UserId (tbl_Blob d ! i) = User.Id user \<and> Blob.Uri (tbl_Blob d ! i) \<in> set ws) \<longrightarrow>
             tbl_Blob (snd (BlobRepository_Untrash e d user uris)) ! i = tbl_Blob d ! i) \<and>
         ((\<forall>r\<in>set (tbl_Blob d). \<not> (Blob.UserId r = User.Id user \<and> Blob.Uri r \<in> set ws)) \<longrightarrow>
             snd (BlobRepository_Untrash e d user uris) = d)"
  by (simp add: BlobRepository_Untrash_def Let_def Exec_ok assms sql_update_def sql_delete_def update_none_map)

lemma BlobRepository_Delete_best_effort:
  assumes "\<forall>n<4. fails e n = None" and "json_each_path e uris ''$.uris'' = Inr ws" and "uris \<noteq> []"
  shows "BlobRepository_Delete e d user uris =
             (None,
              d\<lparr>tbl_Blob :=
                  filter (\<lambda>r. \<not> (Blob.UserId r = User.Id user \<and> Blob.Uri r \<in> set ws)) (tbl_Blob d),
                tbl_BlobDeleted :=
                  map (\<lambda>r. if BlobDeleted.UserId r = User.Id user \<and> BlobDeleted.Uri r \<in> set ws
                           then r\<lparr>BlobDeleted.DeviceId := User.DeviceId user\<rparr>
                           else r)
                    (tbl_BlobDeleted d)\<rparr>) \<and>
         length (tbl_BlobDeleted (snd (BlobRepository_Delete e d user uris))) = length (tbl_BlobDeleted d) \<and>
         (\<forall>i<length (tbl_BlobDeleted d).
             \<not> (BlobDeleted.UserId (tbl_BlobDeleted d ! i) = User.Id user \<and> BlobDeleted.Uri (tbl_BlobDeleted d ! i) \<in> set ws) \<longrightarrow>
             tbl_BlobDeleted (snd (BlobRepository_Delete e d user uris)) ! i = tbl_BlobDeleted d ! i) \<and>
         ((\<forall>r\<in>set (tbl_Blob d). \<not> (Blob.UserId r = User.Id user \<and> Blob.Uri r \<in> set ws)) \<and>
           (\<forall>r\<in>set (tbl_BlobDeleted d). \<not> (BlobDeleted.UserId r = User.Id user \<and> BlobDeleted.Uri r \<in> set ws)) \<longrightarrow>
             snd (BlobRepository_Delete e d user uris) = d)"
proof -
  from assms(1) have f: "fails e 0 = None" "fails e (Suc 0) = None" "fails e 2 = None" "fails e 3 = None"
    by simp_all
  show ?thesis
    by (simp add: BlobRepository_Delete_def Let_def call_ok Exec_ok f assms(2,3) sql_update_def
          sql_delete_def update_none_map)
qed

lemma bulk_empty_list:
  "\<forall>op\<in>set [ContactRepository_Trash,
            ContactRepository_Untrash,
            ContactRepository_Delete,
            DraftRepository_Trash,
            DraftRepository_Untrash,
            DraftRepository_Delete,
            BlobRepository_Trash,
            BlobRepository_Untrash,
            BlobRepository_Delete].
     op e d user [] = (None, d)"
  by (simp add: ContactRepository_Trash_def ContactRepository_Untrash_def ContactRepository_Delete_def DraftRepository_Trash_def DraftRepository_Untrash_def DraftRepository_Delete_def BlobRepository_Trash_def BlobRepository_Untrash_def BlobRepository_Delete_def)

text \<open>
  C7. Trash, Untrash and Delete (of contacts, drafts and blobs) called with the empty id
  list return no error and the store as it was, without a call on the database. Called
  with an id list that the database reads, on a database that answers, they return no
  error whether or not the listed ids exist for the user, and the store after the call is
  the store before it with exactly the rows changed that exist for the user with a listed
  id: Trash gives each of them \<open>LastStmt\<close> 2 and Untrash \<open>LastStmt\<close> 0, both with the
  device id that \<open>getPrefixedDeviceId\<close> returns for the caller, and Delete removes them
  (Blob Delete also writes the device id of the caller to the user's \<open>BlobDeleted\<close> rows
  with a listed uri). Every other row stays as it is and in its place, no other table is
  written, and when no row of the user has a listed id the store is unchanged.
\<close>

theorem bulk_operations_are_best_effort:
  assumes "\<forall>n<4. fails e n = None"
    and "json_each e idList = Inr vs"
    and "json_each_path e uris ''$.uris'' = Inr ws"
    and "idList \<noteq> []" and "uris \<noteq> []"
  shows "(\<forall>op\<in>set [ContactRepository_Trash,
            ContactRepository_Untrash,
            ContactRepository_Delete,
            DraftRepository_Trash,
            DraftRepository_Untrash,
            DraftRepository_Delete,
            BlobRepository_Trash,
            BlobRepository_Untrash,
            BlobRepository_Delete].
            op e d user [] = (None, d)) \<and>
         (ContactRepository_Trash e d user idList =
              (None,
               d\<lparr>tbl_contact :=
                   map (\<lambda>r. if Contact.UserId r = User.Id user \<and> Contact.Id r \<in> set vs
                            then r\<lparr>Contact.LastStmt := 2, Contact.DeviceId := getPrefixedDeviceId e (User.DeviceId user)\<rparr>
                            else r)
                     (tbl_contact d)\<rparr>) \<and>
          length (tbl_contact (snd (ContactRepository_Trash e d user idList))) = length (tbl_contact d) \<and>
          (\<forall>i<length (tbl_contact d).
              Contact.UserId (tbl_contact d ! i) = User.Id user \<and> Contact.Id (tbl_contact d ! i) \<in> set vs \<longrightarrow>
              tbl_contact (snd (ContactRepository_Trash e d user idList)) ! i =
                (tbl_contact d ! i)\<lparr>Contact.LastStmt := 2, Contact.DeviceId := getPrefixedDeviceId e (User.DeviceId user)\<rparr>) \<and>
          (\<forall>i<length (tbl_contact d).
              \<not> (Contact.UserId (tbl_contact d ! i) = User.Id user \<and> Contact.Id (tbl_contact d ! i) \<in> set vs) \<longrightarrow>
              tbl_contact (snd (ContactRepository_Trash e d user idList)) ! i = tbl_contact d ! i) \<and>
          ((\<forall>r\<in>set (tbl_contact d). \<not> (Contact.UserId r = User.Id user \<and> Contact.Id r \<in> set vs)) \<longrightarrow>
              snd (ContactRepository_Trash e d user idList) = d)) \<and>
         (ContactRepository_Untrash e d user idList =
              (None,
               d\<lparr>tbl_contact :=
                   map (\<lambda>r. if Contact.UserId r = User.Id user \<and> Contact.Id r \<in> set vs
                            then r\<lparr>Contact.LastStmt := 0, Contact.DeviceId := getPrefixedDeviceId e (User.DeviceId user)\<rparr>
                            else r)
                     (tbl_contact d)\<rparr>) \<and>
          length (tbl_contact (snd (ContactRepository_Untrash e d user idList))) = length (tbl_contact d) \<and>
          (\<forall>i<length (tbl_contact d).
              Contact.UserId (tbl_contact d ! i) = User.Id user \<and> Contact.Id (tbl_contact d ! i) \<in> set vs \<longrightarrow>
              tbl_contact (snd (ContactRepository_Untrash e d user idList)) ! i =
                (tbl_contact d ! i)\<lparr>Contact.LastStmt := 0, Contact.DeviceId := getPrefixedDeviceId e (User.DeviceId user)\<rparr>) \<and>
          (\<forall>i<length (tbl_contact d).
              \<not> (Contact.UserId (tbl_contact d ! i) = User.Id user \<and> Contact.Id (tbl_contact d ! i) \<in> set vs) \<longrightarrow>
              tbl_contact (snd (ContactRepository_Untrash e d user idList)) ! i = tbl_contact d ! i) \<and>
          ((\<forall>r\<in>set (tbl_contact d). \<not> (Contact.UserId r = User.Id user \<and> Contact.Id r \<in> set vs)) \<longrightarrow>
              snd (ContactRepository_Untrash e d user idList) = d)) \<and>
         (ContactRepository_Delete e d user idList =
              (None,
               d\<lparr>tbl_contact :=
                   filter (\<lambda>r. \<not> (Contact.UserId r = User.Id user \<and> Contact.Id r \<in> set vs)) (tbl_contact d)\<rparr>) \<and>
          ((\<forall>r\<in>set (tbl_contact d). \<not> (Contact.UserId r = User.Id user \<and> Contact.Id r \<in> set vs)) \<longrightarrow>
              snd (ContactRepository_Delete e d user idList) = d)) \<and>
         (DraftRepository_Trash e d user idList =
              (None,
               d\<lparr>tbl_Draft :=
                   map (\<lambda>r. if Draft.UserId r = User.Id user \<and> Draft.Id r \<in> set vs
                            then r\<lparr>Draft.LastStmt := 2, Draft.DeviceId := getPrefixedDeviceId e (User.DeviceId user)\<rparr>
                            else r)
                     (tbl_Draft d)\<rparr>) \<and>
          length (tbl_Draft (snd (DraftRepository_Trash e d user idList))) = length (tbl_Draft d) \<and>
          (\<forall>i<length (tbl_Draft d).
              Draft.UserId (tbl_Draft d ! i) = User.Id user \<and> Draft.Id (tbl_Draft d ! i) \<in> set vs \<longrightarrow>
              tbl_Draft (snd (DraftRepository_Trash e d user idList)) ! i =
                (tbl_Draft d ! i)\<lparr>Draft.LastStmt := 2, Draft.DeviceId := getPrefixedDeviceId e (User.DeviceId user)\<rparr>) \<and>
          (\<forall>i<length (tbl_Draft d).
              \<not> (Draft.UserId (tbl_Draft d ! i) = User.Id user \<and> Draft.Id (tbl_Draft d ! i) \<in> set vs) \<longrightarrow>
              tbl_Draft (snd (DraftRepository_Trash e d user idList)) ! i = tbl_Draft d ! i) \<and>
          ((\<forall>r\<in>set (tbl_Draft d). \<not> (Draft.UserId r = User.Id user \<and> Draft.Id r \<in> set vs)) \<longrightarrow>
              snd (DraftRepository_Trash e d user idList) = d)) \<and>
         (DraftRepository_Untrash e d user idList =
              (None,
               d\<lparr>tbl_Draft :=
                   map (\<lambda>r. if Draft.UserId r = User.Id user \<and> Draft.Id r \<in> set vs
                            then r\<lparr>Draft.LastStmt := 0, Draft.DeviceId := getPrefixedDeviceId e (User.DeviceId user)\<rparr>
                            else r)
                     (tbl_Draft d)\<rparr>) \<and>
          length (tbl_Draft (snd (DraftRepository_Untrash e d user idList))) = length (tbl_Draft d) \<and>
          (\<forall>i<length (tbl_Draft d).
              Draft.UserId (tbl_Draft d ! i) = User.Id user \<and> Draft.Id (tbl_Draft d ! i) \<in> set vs \<longrightarrow>
              tbl_Draft (snd (DraftRepository_Untrash e d user idList)) ! i =
                (tbl_Draft d ! i)\<lparr>Draft.LastStmt := 0, Draft.DeviceId := getPrefixedDeviceId e (User.DeviceId user)\<rparr>) \<and>
          (\<forall>i<length (tbl_Draft d).
              \<not> (Draft.UserId (tbl_Draft d ! i) = User.Id user \<and> Draft.Id (tbl_Draft d ! i) \<in> set vs) \<longrightarrow>
              tbl_Draft (snd (DraftRepository_Untrash e d user idList)) ! i = tbl_Draft d ! i) \<and>
          ((\<forall>r\<in>set (tbl_Draft d). \<not> (Draft.UserId r = User.Id user \<and> Draft.Id r \<in> set vs)) \<longrightarrow>
              snd (DraftRepository_Untrash e d user idList) = d)) \<and>
         (DraftRepository_Delete e d user idList =
              (None,
               d\<lparr>tbl_Draft :=
                   filter (\<lambda>r. \<not> (Draft.UserId r = User.Id user \<and> Draft.Id r \<in> set vs)) (tbl_Draft d)\<rparr>) \<and>
          ((\<forall>r\<in>set (tbl_Draft d). \<not> (Draft.UserId r = User.Id user \<and> Draft.Id r \<in> set vs)) \<longrightarrow>
              snd (DraftRepository_Delete e d user idList) = d)) \<and>
         (BlobRepository_Trash e d user uris =
              (None,
               d\<lparr>tbl_Blob :=
                   map (\<lambda>r. if Blob.UserId r = User.Id user \<and> Blob.Uri r \<in> set ws
                            then r\<lparr>Blob.LastStmt := 2, Blob.DeviceId := getPrefixedDeviceId e (User.DeviceId user)\<rparr>
                            else r)
                     (tbl_Blob d)\<rparr>) \<and>
          length (tbl_Blob (snd (BlobRepository_Trash e d user uris))) = length (tbl_Blob d) \<and>
          (\<forall>i<length (tbl_Blob d).
              Blob.UserId (tbl_Blob d ! i) = User.Id user \<and> Blob.Uri (tbl_Blob d ! i) \<in> set ws \<longrightarrow>
              tbl_Blob (snd (BlobRepository_Trash e d user uris)) ! i =
                (tbl_Blob d ! i)\<lparr>Blob.LastStmt := 2, Blob.DeviceId := getPrefixedDeviceId e (User.DeviceId user)\<rparr>) \<and>
          (\<forall>i<length (tbl_Blob d).
              \<not> (Blob.UserId (tbl_Blob d ! i) = User.Id user \<and> Blob.Uri (tbl_Blob d ! i) \<in> set ws) \<longrightarrow>
              tbl_Blob (snd (BlobRepository_Trash e d user uris)) ! i = tbl_Blob d ! i) \<and>
          ((\<forall>r\<in>set (tbl_Blob d). \<not> (Blob.UserId r = User.Id user \<and> Blob.Uri r \<in> set ws)) \<longrightarrow>
              snd (BlobRepository_Trash e d user uris) = d)) \<and>
         (BlobRepository_Untrash e d user uris =
              (None,
               d\<lparr>tbl_Blob :=
                   map (\<lambda>r. if Blob.UserId r = User.Id user \<and> Blob.Uri r \<in> set ws
                            then r\<lparr>Blob.LastStmt := 0, Blob.DeviceId := getPrefixedDeviceId e (User.DeviceId user)\<rparr>
                            else r)
                     (tbl_Blob d)\<rparr>) \<and>
          length (tbl_Blob (snd (BlobRepository_Untrash e d user uris))) = length (tbl_Blob d) \<and>
          (\<forall>i<length (tbl_Blob d).
              Blob.UserId (tbl_Blob d ! i) = User.Id user \<and> Blob.Uri (tbl_Blob d ! i) \<in> set ws \<longrightarrow>
              tbl_Blob (snd (BlobRepository_Untrash e d user uris)) ! i =
                (tbl_Blob d ! i)\<lparr>Blob.LastStmt := 0, Blob.DeviceId := getPrefixedDeviceId e (User.DeviceId user)\<rparr>) \<and>
          (\<forall>i<length (tbl_Blob d).
              \<not> (Blob.UserId (tbl_Blob d ! i) = User.Id user \<and> Blob.Uri (tbl_Blob d ! i) \<in> set ws) \<longrightarrow>
              tbl_Blob (snd (BlobRepository_Untrash e d user uris)) ! i = tbl_Blob d ! i) \<and>
          ((\<forall>r\<in>set (tbl_Blob d). \<not> (Blob.UserId r = User.Id user \<and> Blob.Uri r \<in> set ws)) \<longrightarrow>
              snd (BlobRepository_Untrash e d user uris) = d)) \<and>
         (BlobRepository_Delete e d user uris =
              (None,
               d\<lparr>tbl_Blob :=
                   filter (\<lambda>r. \<not> (Blob.UserId r = User.Id user \<and> Blob.Uri r \<in> set ws)) (tbl_Blob d),
                 tbl_BlobDeleted :=
                   map (\<lambda>r. if BlobDeleted.UserId r = User.Id user \<and> BlobDeleted.Uri r \<in> set ws
                            then r\<lparr>BlobDeleted.DeviceId := User.DeviceId user\<rparr>
                            else r)
                     (tbl_BlobDeleted d)\<rparr>) \<and>
          length (tbl_BlobDeleted (snd (BlobRepository_Delete e d user uris))) = length (tbl_BlobDeleted d) \<and>
          (\<forall>i<length (tbl_BlobDeleted d).
              \<not> (BlobDeleted.UserId (tbl_BlobDeleted d ! i) = User.Id user \<and> BlobDeleted.Uri (tbl_BlobDeleted d ! i) \<in> set ws) \<longrightarrow>
              tbl_BlobDeleted (snd (BlobRepository_Delete e d user uris)) ! i = tbl_BlobDeleted d ! i) \<and>
          ((\<forall>r\<in>set (tbl_Blob d). \<not> (Blob.UserId r = User.Id user \<and> Blob.Uri r \<in> set ws)) \<and>
            (\<forall>r\<in>set (tbl_BlobDeleted d). \<not> (BlobDeleted.UserId r = User.Id user \<and> BlobDeleted.Uri r \<in> set ws)) \<longrightarrow>
              snd (BlobRepository_Delete e d user uris) = d))"
proof -
  from assms(1) have f0: "fails e 0 = None" by simp
  show ?thesis
    apply (rule conjI)
     apply (rule bulk_empty_list)
    apply (rule conjI)
     apply (rule ContactRepository_Trash_best_effort[OF f0 assms(2) assms(4)])
    apply (rule conjI)
     apply (rule ContactRepository_Untrash_best_effort[OF f0 assms(2) assms(4)])
    apply (rule conjI)
     apply (rule ContactRepository_Delete_best_effort[OF f0 assms(2) assms(4)])
    apply (rule conjI)
     apply (rule DraftRepository_Trash_best_effort[OF f0 assms(2) assms(4)])
    apply (rule conjI)
     apply (rule DraftRepository_Untrash_best_effort[OF f0 assms(2) assms(4)])
    apply (rule conjI)
     apply (rule DraftRepository_Delete_best_effort[OF f0 assms(2) assms(4)])
    apply (rule conjI)
     apply (rule BlobRepository_Trash_best_effort[OF f0 assms(3) assms(5)])
    apply (rule conjI)
     apply (rule BlobRepository_Untrash_best_effort[OF f0 assms(3) assms(5)])
    apply (rule BlobRepository_Delete_best_effort[OF assms(1) assms(3) assms(5)])
    done
qed

theorem bulk_operations_are_best_effort_witness:
  "ContactRepository_Trash env0 db0 user1 [] = (None, db0) \<and>
   ContactRepository_Trash env0 db0 user1 ids_json =
     (None,
      db0\<lparr>tbl_contact :=
            [contact1\<lparr>Contact.LastStmt := 2, Contact.DeviceId := Some ''device:d1''\<rparr>,
             contact2, contact3, contact4]\<rparr>) \<and>
   tbl_contact (snd (ContactRepository_Trash env0 db0 user1 ids_json)) ! 1 = contact2 \<and>
   ContactRepository_Untrash env0 db0 user1 ids_json2 =
     (None,
      db0\<lparr>tbl_contact :=
            [contact1,
             contact2\<lparr>Contact.LastStmt := 0, Contact.DeviceId := Some ''device:d1''\<rparr>,
             contact3, contact4]\<rparr>) \<and>
   ContactRepository_Delete env0 db0 user1 ids_json =
     (None, db0\<lparr>tbl_contact := [contact2, contact3, contact4]\<rparr>) \<and>
   BlobRepository_Trash env0 db0 user1 uris_json =
     (None,
      db0\<lparr>tbl_Blob :=
            [blob1\<lparr>Blob.LastStmt := 2, Blob.DeviceId := Some ''device:d1''\<rparr>,
             blob2, blob3]\<rparr>)"
proof -
  have h: "\<forall>n<4. fails env0 n = None" "json_each env0 ids_json = Inr [''c1'', ''m1'', ''zz'']"
    "json_each_path env0 uris_json ''$.uris'' = Inr [''u1'', ''zz'']"
    "ids_json \<noteq> []" "uris_json \<noteq> []"
    by (simp_all add: env0_def ids_json_def uris_json_def)
  have h2: "json_each env0 ids_json2 = Inr [''c2'', ''m1'']" "ids_json2 \<noteq> []"
    by (simp_all add: env0_def ids_json_def ids_json2_def)
  have p: "getPrefixedDeviceId env0 (User.DeviceId user1) = Some ''device:d1''"
    by (simp add: env0_def user1_def)
  note t = bulk_operations_are_best_effort[OF h, of db0 user1]
  note u = bulk_operations_are_best_effort[OF h(1) h2(1) h(3) h2(2) h(5), of db0 user1]
  from t have e: "\<forall>op\<in>set [ContactRepository_Trash,
            ContactRepository_Untrash,
            ContactRepository_Delete,
            DraftRepository_Trash,
            DraftRepository_Untrash,
            DraftRepository_Delete,
            BlobRepository_Trash,
            BlobRepository_Untrash,
            BlobRepository_Delete].
            op env0 db0 user1 [] = (None, db0)"
    by (rule conjunct1)
  then have a: "ContactRepository_Trash env0 db0 user1 [] = (None, db0)" by simp
  note bt = t[THEN conjunct2, THEN conjunct1]
  note bu = u[THEN conjunct2, THEN conjunct2, THEN conjunct1]
  note bd = t[THEN conjunct2, THEN conjunct2, THEN conjunct2, THEN conjunct1]
  note bb = t[THEN conjunct2, THEN conjunct2, THEN conjunct2, THEN conjunct2,
              THEN conjunct2, THEN conjunct2, THEN conjunct2, THEN conjunct1]
  have tr: "ContactRepository_Trash env0 db0 user1 ids_json =
     (None,
      db0\<lparr>tbl_contact :=
            [contact1\<lparr>Contact.LastStmt := 2, Contact.DeviceId := Some ''device:d1''\<rparr>,
             contact2, contact3, contact4]\<rparr>)"
    unfolding bt[THEN conjunct1] p
    by (simp add: db0_def user1_def contact1_def contact2_def contact3_def contact4_def)
  have nth: "\<forall>i<length (tbl_contact db0).
          \<not> (Contact.UserId (tbl_contact db0 ! i) = User.Id user1 \<and>
             Contact.Id (tbl_contact db0 ! i) \<in> set [''c1'', ''m1'', ''zz'']) \<longrightarrow>
          tbl_contact (snd (ContactRepository_Trash env0 db0 user1 ids_json)) ! i =
          tbl_contact db0 ! i"
    by (rule bt[THEN conjunct2, THEN conjunct2, THEN conjunct2, THEN conjunct1])
  have "(1::nat) < length (tbl_contact db0)" by (simp add: db0_def)
  moreover have "\<not> (Contact.UserId (tbl_contact db0 ! 1) = User.Id user1 \<and>
             Contact.Id (tbl_contact db0 ! 1) \<in> set [''c1'', ''m1'', ''zz''])"
    by (simp add: db0_def contact2_def)
  ultimately have "tbl_contact (snd (ContactRepository_Trash env0 db0 user1 ids_json)) ! 1 =
          tbl_contact db0 ! 1"
    using nth by blast
  then have b: "tbl_contact (snd (ContactRepository_Trash env0 db0 user1 ids_json)) ! 1 = contact2"
    by (simp add: db0_def)
  have un: "ContactRepository_Untrash env0 db0 user1 ids_json2 =
     (None,
      db0\<lparr>tbl_contact :=
            [contact1,
             contact2\<lparr>Contact.LastStmt := 0, Contact.DeviceId := Some ''device:d1''\<rparr>,
             contact3, contact4]\<rparr>)"
    unfolding bu[THEN conjunct1] p
    by (simp add: db0_def user1_def contact1_def contact2_def contact3_def contact4_def)
  have dl: "ContactRepository_Delete env0 db0 user1 ids_json =
     (None, db0\<lparr>tbl_contact := [contact2, contact3, contact4]\<rparr>)"
    unfolding bd[THEN conjunct1]
    by (simp add: db0_def user1_def contact1_def contact2_def contact3_def contact4_def)
  have bl: "BlobRepository_Trash env0 db0 user1 uris_json =
     (None,
      db0\<lparr>tbl_Blob :=
            [blob1\<lparr>Blob.LastStmt := 2, Blob.DeviceId := Some ''device:d1''\<rparr>,
             blob2, blob3]\<rparr>)"
    unfolding bb[THEN conjunct1] p
    by (simp add: db0_def user1_def blob1_def blob2_def blob3_def)
  from a tr b un dl bl show ?thesis by simp
qed

section \<open>Untrash\<close>

lemma ContactRepository_Untrash_ok:
  assumes "fails e 0 = None" and "json_each e idList = Inr vs" and "idList \<noteq> []"
  shows "ContactRepository_Untrash e d user idList =
     (None,
      d\<lparr>tbl_contact :=
          map (\<lambda>r. if Contact.UserId r = User.Id user \<and> Contact.Id r \<in> set vs
                   then r\<lparr>Contact.LastStmt := 0,
                          Contact.DeviceId := getPrefixedDeviceId e (User.DeviceId user)\<rparr>
                   else r)
            (tbl_contact d)\<rparr>)"
  by (simp add: ContactRepository_Untrash_def Let_def Exec_ok assms sql_update_def)

lemma DraftRepository_Untrash_ok:
  assumes "fails e 0 = None" and "json_each e idList = Inr vs" and "idList \<noteq> []"
  shows "DraftRepository_Untrash e d user idList =
     (None,
      d\<lparr>tbl_Draft :=
          map (\<lambda>r. if Draft.UserId r = User.Id user \<and> Draft.Id r \<in> set vs
                   then r\<lparr>Draft.LastStmt := 0,
                          Draft.DeviceId := getPrefixedDeviceId e (User.DeviceId user)\<rparr>
                   else r)
            (tbl_Draft d)\<rparr>)"
  by (simp add: DraftRepository_Untrash_def Let_def Exec_ok assms sql_update_def)

lemma untrashed_contact_is_inserted:
  assumes f: "\<forall>n<7. fails e n = None"
    and j: "json_each e idList = Inr vs" and ne: "idList \<noteq> []"
    and seq: "User.Id user \<in> fst ` set (tbl_contact_history_seq d)"
    and rin: "r \<in> set (tbl_contact d)"
    and r: "Contact.UserId r = User.Id user" "Contact.Id r \<in> set vs"
    and c: "User.Id caller = User.Id user" "History.Id history < Contact.HistoryId r"
      "(case User.DeviceId caller of
          None \<Rightarrow> getPrefixedDeviceId e (User.DeviceId user) = None
        | Some c \<Rightarrow> getPrefixedDeviceId e (User.DeviceId user) \<noteq> Some c)"
  shows "\<exists>cs. ContactRepository_Sync e (snd (ContactRepository_Untrash e d user idList))
              caller history = Inr cs \<and>
           r\<lparr>Contact.LastStmt := 0,
             Contact.DeviceId := getPrefixedDeviceId e (User.DeviceId user)\<rparr>
             \<in> set (ContactsInserted cs) \<and>
           r\<lparr>Contact.LastStmt := 0,
             Contact.DeviceId := getPrefixedDeviceId e (User.DeviceId user)\<rparr>
             \<notin> set (ContactsUpdated cs) \<and>
           r\<lparr>Contact.LastStmt := 0,
             Contact.DeviceId := getPrefixedDeviceId e (User.DeviceId user)\<rparr>
             \<notin> set (ContactsTrashed cs)"
proof -
  let ?f = "\<lambda>r. if Contact.UserId r = User.Id user \<and> Contact.Id r \<in> set vs
                   then r\<lparr>Contact.LastStmt := 0,
                          Contact.DeviceId := getPrefixedDeviceId e (User.DeviceId user)\<rparr>
                   else r"
  let ?r' = "r\<lparr>Contact.LastStmt := 0,
             Contact.DeviceId := getPrefixedDeviceId e (User.DeviceId user)\<rparr>"
  define d' where "d' = d\<lparr>tbl_contact := map ?f (tbl_contact d)\<rparr>"
  from f have f0: "fails e 0 = None" by simp
  have u: "snd (ContactRepository_Untrash e d user idList) = d'"
    unfolding ContactRepository_Untrash_ok[OF f0 j ne] d'_def by simp
  have seq': "User.Id caller \<in> fst ` set (tbl_contact_history_seq d')"
    using seq c(1) by (simp add: d'_def)
  have "?f r = ?r'" using r by simp
  moreover from rin have "?f r \<in> ?f ` set (tbl_contact d)" by (rule imageI)
  ultimately have "?r' \<in> ?f ` set (tbl_contact d)" by (simp only:)
  moreover have "tbl_contact d' = map ?f (tbl_contact d)" by (simp add: d'_def)
  ultimately have rin': "?r' \<in> set (tbl_contact d')"
    by (simp only: set_map)
  have ch: "contact_changed caller history 0 ?r'"
    using r c by (simp add: contact_changed_def other_device_iff)
  have n1: "\<not> contact_changed caller history 1 ?r'" and n2: "\<not> contact_changed caller history 2 ?r'"
    by (simp_all add: contact_changed_def)
  show ?thesis
    unfolding u ContactRepository_Sync_ok[OF f seq']
    using rin' ch n1 n2 by (simp add: order_by_desc_set sql_select_def)
qed

text \<open>
  C10. Called with a non-empty id list that the database reads, on a database that
  answers, Untrash returns no error and sets \<open>LastStmt\<close> to 0 and \<open>DeviceId\<close> to
  \<open>getPrefixedDeviceId\<close> of the caller's device id on every row of the user with a listed
  id, whatever the row's \<open>LastStmt\<close> was, and changes nothing else (contacts and drafts).
  So a listed contact that was never trashed, with \<open>LastStmt = 1\<close>, is reset to 0 as well:
  a later Sync of the same user from a device that the new \<open>DeviceId\<close> does not exclude,
  asking from below the row's \<open>HistoryId\<close>, returns the row in the inserted bucket and
  not in the updated or trashed one, and the row is attributed to the untrashing device.
\<close>

theorem untrash_resets_every_listed_row:
  assumes "\<forall>n<7. fails e n = None"
    and "json_each e idList = Inr vs"
    and "idList \<noteq> []"
    and "User.Id user \<in> fst ` set (tbl_contact_history_seq d)"
  shows "ContactRepository_Untrash e d user idList =
           (None,
            d\<lparr>tbl_contact :=
                map (\<lambda>r. if Contact.UserId r = User.Id user \<and> Contact.Id r \<in> set vs
                         then r\<lparr>Contact.LastStmt := 0,
                                Contact.DeviceId := getPrefixedDeviceId e (User.DeviceId user)\<rparr>
                         else r)
                  (tbl_contact d)\<rparr>) \<and>
         DraftRepository_Untrash e d user idList =
           (None,
            d\<lparr>tbl_Draft :=
                map (\<lambda>r. if Draft.UserId r = User.Id user \<and> Draft.Id r \<in> set vs
                         then r\<lparr>Draft.LastStmt := 0,
                                Draft.DeviceId := getPrefixedDeviceId e (User.DeviceId user)\<rparr>
                         else r)
                  (tbl_Draft d)\<rparr>) \<and>
         (\<forall>r\<in>set (tbl_contact d). \<forall>caller history.
            Contact.UserId r = User.Id user \<and> Contact.Id r \<in> set vs \<and>
            Contact.LastStmt r = 1 \<and>
            User.Id caller = User.Id user \<and> History.Id history < Contact.HistoryId r \<and>
            (case User.DeviceId caller of
               None \<Rightarrow> getPrefixedDeviceId e (User.DeviceId user) = None
             | Some c \<Rightarrow> getPrefixedDeviceId e (User.DeviceId user) \<noteq> Some c) \<longrightarrow>
            (\<exists>cs. ContactRepository_Sync e (snd (ContactRepository_Untrash e d user idList))
                    caller history = Inr cs \<and>
               r\<lparr>Contact.LastStmt := 0,
                 Contact.DeviceId := getPrefixedDeviceId e (User.DeviceId user)\<rparr>
                 \<in> set (ContactsInserted cs) \<and>
               r\<lparr>Contact.LastStmt := 0,
                 Contact.DeviceId := getPrefixedDeviceId e (User.DeviceId user)\<rparr>
                 \<notin> set (ContactsUpdated cs) \<and>
               r\<lparr>Contact.LastStmt := 0,
                 Contact.DeviceId := getPrefixedDeviceId e (User.DeviceId user)\<rparr>
                 \<notin> set (ContactsTrashed cs)))"
proof -
  from assms(1) have f0: "fails e 0 = None" by simp
  show ?thesis
    apply (rule conjI)
     apply (rule ContactRepository_Untrash_ok[OF f0 assms(2,3)])
    apply (rule conjI)
     apply (rule DraftRepository_Untrash_ok[OF f0 assms(2,3)])
    apply (intro ballI allI impI)
    apply (elim conjE)
    apply (rule untrashed_contact_is_inserted[OF assms]; assumption)
    done
qed

theorem untrash_resets_every_listed_row_witness:
  "Contact.LastStmt contact2 = 1 \<and> Contact.DeviceId contact2 = Some ''d2'' \<and>
   (\<exists>cs. ContactRepository_Sync env0 (snd (ContactRepository_Untrash env0 db0 user1 ids_json2))
            user1_d2 history0 = Inr cs \<and>
      contact2\<lparr>Contact.LastStmt := 0, Contact.DeviceId := Some ''device:d1''\<rparr>
        \<in> set (ContactsInserted cs) \<and>
      contact2\<lparr>Contact.LastStmt := 0, Contact.DeviceId := Some ''device:d1''\<rparr>
        \<notin> set (ContactsUpdated cs))"
proof -
  have h: "\<forall>n<7. fails env0 n = None" "json_each env0 ids_json2 = Inr [''c2'', ''m1'']"
    "ids_json2 \<noteq> []" "User.Id user1 \<in> fst ` set (tbl_contact_history_seq db0)"
    by (simp_all add: env0_def ids_json_def ids_json2_def user1_def db0_def)
  note t = untrash_resets_every_listed_row[OF h, THEN conjunct2, THEN conjunct2, rule_format,
      of contact2 user1_d2 history0]
  have p: "getPrefixedDeviceId env0 (User.DeviceId user1) = Some ''device:d1''"
    by (simp add: env0_def user1_def)
  have "\<exists>cs. ContactRepository_Sync env0 (snd (ContactRepository_Untrash env0 db0 user1 ids_json2))
                    user1_d2 history0 = Inr cs \<and>
               contact2\<lparr>Contact.LastStmt := 0,
                 Contact.DeviceId := getPrefixedDeviceId env0 (User.DeviceId user1)\<rparr>
                 \<in> set (ContactsInserted cs) \<and>
               contact2\<lparr>Contact.LastStmt := 0,
                 Contact.DeviceId := getPrefixedDeviceId env0 (User.DeviceId user1)\<rparr>
                 \<notin> set (ContactsUpdated cs) \<and>
               contact2\<lparr>Contact.LastStmt := 0,
                 Contact.DeviceId := getPrefixedDeviceId env0 (User.DeviceId user1)\<rparr>
                 \<notin> set (ContactsTrashed cs)"
    by (rule t) (simp_all add: env0_def db0_def user1_def user1_d2_def history0_def contact2_def)
  then obtain cs where
    a: "ContactRepository_Sync env0 (snd (ContactRepository_Untrash env0 db0 user1 ids_json2))
                    user1_d2 history0 = Inr cs"
    and b: "contact2\<lparr>Contact.LastStmt := 0,
                 Contact.DeviceId := getPrefixedDeviceId env0 (User.DeviceId user1)\<rparr>
                 \<in> set (ContactsInserted cs)"
    and c: "contact2\<lparr>Contact.LastStmt := 0,
                 Contact.DeviceId := getPrefixedDeviceId env0 (User.DeviceId user1)\<rparr>
                 \<notin> set (ContactsUpdated cs)"
    by (elim exE conjE)
  have d: "Contact.LastStmt contact2 = 1" "Contact.DeviceId contact2 = Some ''d2''"
    by (simp_all add: contact2_def)
  from a b c d show ?thesis unfolding p by (intro conjI exI[of _ cs])
qed

section \<open>Sync after a write: the writer's own device and the other devices\<close>

lemma history_seq_advance_users:
  "fst ` set (history_seq_advance u n tbl) = fst ` set tbl"
proof -
  have "map fst (history_seq_advance u n tbl) = map fst tbl"
    by (simp add: history_seq_advance_def)
  then have "set (map fst (history_seq_advance u n tbl)) = set (map fst tbl)"
    by simp
  then show ?thesis by simp
qed

lemma ContactRepository_Create_ok:
  assumes "fails e 0 = None"
  shows "ContactRepository_Create e d user contact =
     (Inr ((contact_columns e d)
              \<lparr>Contact.UserId := User.Id user,
               Contact.DeviceId := getPrefixedDeviceId e (User.DeviceId user),
               Contact.EmailAddress := Contact.EmailAddress contact,
               Contact.FirstName := Contact.FirstName contact,
               Contact.LastName := Contact.LastName contact\<rparr>),
      d\<lparr>tbl_contact := tbl_contact d @
          [(contact_columns e d)
              \<lparr>Contact.UserId := User.Id user,
               Contact.DeviceId := getPrefixedDeviceId e (User.DeviceId user),
               Contact.EmailAddress := Contact.EmailAddress contact,
               Contact.FirstName := Contact.FirstName contact,
               Contact.LastName := Contact.LastName contact\<rparr>]\<rparr>)"
  by (simp add: ContactRepository_Create_def Let_def QueryRow_ok assms)

lemma ContactRepository_Update_ok:
  assumes "fails e 0 = None" and "i < length (tbl_contact d)"
    and "Contact.UserId (tbl_contact d ! i) = User.Id user \<and>
         Contact.Id (tbl_contact d ! i) = Contact.Id contact \<and>
         Contact.LastStmt (tbl_contact d ! i) \<noteq> 2"
  shows "\<exists>r0. ContactRepository_Update e d user contact =
     (Inr r0,
      d\<lparr>tbl_contact :=
          update_with_history
            (\<lambda>r. Contact.UserId r = User.Id user \<and> Contact.Id r = Contact.Id contact \<and>
                 Contact.LastStmt r \<noteq> 2)
            (\<lambda>h r. Contact_on_update (now e) h
                     (r\<lparr>Contact.EmailAddress := Contact.EmailAddress contact,
                        Contact.FirstName := Contact.FirstName contact,
                        Contact.LastName := Contact.LastName contact,
                        Contact.DeviceId := getPrefixedDeviceId e (User.DeviceId user)\<rparr>))
            (last_history_id (User.Id user) (tbl_contact_history_seq d))
            (tbl_contact d),
        tbl_contact_history_seq :=
          history_seq_advance (User.Id user)
            (length (filter (\<lambda>r. Contact.UserId r = User.Id user \<and>
                                 Contact.Id r = Contact.Id contact \<and>
                                 Contact.LastStmt r \<noteq> 2) (tbl_contact d)))
            (tbl_contact_history_seq d)\<rparr>)"
proof -
  let ?wh = "\<lambda>r. Contact.UserId r = User.Id user \<and> Contact.Id r = Contact.Id contact \<and>
                 Contact.LastStmt r \<noteq> 2"
  from assms(2) have "tbl_contact d ! i \<in> set (tbl_contact d)" by (rule nth_mem)
  with assms(3) have "tbl_contact d ! i \<in> set (filter ?wh (tbl_contact d))" by simp
  then obtain r rs where c: "filter ?wh (tbl_contact d) = r # rs"
    by (cases "filter ?wh (tbl_contact d)") auto
  from filter_Cons_first[OF c] have rw: "?wh r" by simp
  from c rw assms(1) show ?thesis
    by (simp add: ContactRepository_Update_def QueryRow_def Let_def sql_select_def)
qed

lemma contact_sync_after_write:
  assumes ok: "\<forall>n<7. fails e n = None"
    and seq: "User.Id writer \<in> fst ` set (tbl_contact_history_seq d')"
    and rin: "r \<in> set (tbl_contact d')"
    and ru: "Contact.UserId r = User.Id writer"
    and rd: "Contact.DeviceId r = Some D1"
    and u1: "User.DeviceId writer = Some D1"
    and u2: "User.Id reader = User.Id writer" "User.DeviceId reader = Some D2" "D2 \<noteq> D1"
  shows "(\<exists>cs. ContactRepository_Sync e d' writer history = Inr cs \<and>
            r \<notin> set (ContactsInserted cs) \<and> r \<notin> set (ContactsUpdated cs) \<and>
            r \<notin> set (ContactsTrashed cs)) \<and>
         (\<exists>cs. ContactRepository_Sync e d' reader history = Inr cs \<and>
            (r \<in> set (ContactsInserted cs) \<longleftrightarrow>
               History.Id history < Contact.HistoryId r \<and> Contact.LastStmt r = 0) \<and>
            (r \<in> set (ContactsUpdated cs) \<longleftrightarrow>
               History.Id history < Contact.HistoryId r \<and> Contact.LastStmt r = 1) \<and>
            (r \<in> set (ContactsTrashed cs) \<longleftrightarrow>
               History.Id history < Contact.HistoryId r \<and> Contact.LastStmt r = 2))"
proof -
  from seq u2(1) have seq2: "User.Id reader \<in> fst ` set (tbl_contact_history_seq d')" by simp
  have own: "\<not> other_device (Contact.DeviceId r) (User.DeviceId writer)"
    by (simp add: other_device_iff rd u1)
  have other: "other_device (Contact.DeviceId r) (User.DeviceId reader)"
    using u2(3) by (simp add: other_device_iff rd u2(2))
  have a: "\<exists>cs. ContactRepository_Sync e d' writer history = Inr cs \<and>
            r \<notin> set (ContactsInserted cs) \<and> r \<notin> set (ContactsUpdated cs) \<and>
            r \<notin> set (ContactsTrashed cs)"
    unfolding ContactRepository_Sync_ok[OF ok seq]
    using own by (simp add: order_by_desc_set sql_select_def contact_changed_def)
  have b: "\<exists>cs. ContactRepository_Sync e d' reader history = Inr cs \<and>
            (r \<in> set (ContactsInserted cs) \<longleftrightarrow>
               History.Id history < Contact.HistoryId r \<and> Contact.LastStmt r = 0) \<and>
            (r \<in> set (ContactsUpdated cs) \<longleftrightarrow>
               History.Id history < Contact.HistoryId r \<and> Contact.LastStmt r = 1) \<and>
            (r \<in> set (ContactsTrashed cs) \<longleftrightarrow>
               History.Id history < Contact.HistoryId r \<and> Contact.LastStmt r = 2)"
    unfolding ContactRepository_Sync_ok[OF ok seq2]
    using other rin ru u2(1)
    by (auto simp: order_by_desc_set sql_select_def contact_changed_def)
  from a b show ?thesis by (rule conjI)
qed

lemma created_contact_sync:
  assumes ok: "\<forall>n<7. fails e n = None"
    and helper: "getPrefixedDeviceId e = attributedDevice"
    and u1: "User.DeviceId writer = Some D1"
    and u2: "User.Id reader = User.Id writer" "User.DeviceId reader = Some D2" "D2 \<noteq> D1"
    and seq: "User.Id writer \<in> fst ` set (tbl_contact_history_seq d)"
  shows "\<exists>r d'. ContactRepository_Create e d writer contact = (Inr r, d') \<and>
            r \<in> set (tbl_contact d') \<and>
            Contact.DeviceId r = Some D1 \<and>
            (\<exists>cs. ContactRepository_Sync e d' writer history = Inr cs \<and>
               r \<notin> set (ContactsInserted cs) \<and> r \<notin> set (ContactsUpdated cs) \<and>
               r \<notin> set (ContactsTrashed cs)) \<and>
            (\<exists>cs. ContactRepository_Sync e d' reader history = Inr cs \<and>
               (r \<in> set (ContactsInserted cs) \<longleftrightarrow>
                  History.Id history < Contact.HistoryId r \<and> Contact.LastStmt r = 0) \<and>
               (r \<in> set (ContactsUpdated cs) \<longleftrightarrow>
                  History.Id history < Contact.HistoryId r \<and> Contact.LastStmt r = 1) \<and>
               (r \<in> set (ContactsTrashed cs) \<longleftrightarrow>
                  History.Id history < Contact.HistoryId r \<and> Contact.LastStmt r = 2))"
proof -
  define r where "r = (contact_columns e d)
              \<lparr>Contact.UserId := User.Id writer,
               Contact.DeviceId := getPrefixedDeviceId e (User.DeviceId writer),
               Contact.EmailAddress := Contact.EmailAddress contact,
               Contact.FirstName := Contact.FirstName contact,
               Contact.LastName := Contact.LastName contact\<rparr>"
  define d' where "d' = d\<lparr>tbl_contact := tbl_contact d @ [r]\<rparr>"
  have f0: "fails e 0 = None" using ok by simp
  have cr: "ContactRepository_Create e d writer contact = (Inr r, d')"
    unfolding r_def d'_def by (rule ContactRepository_Create_ok[OF f0])
  have rin: "r \<in> set (tbl_contact d')" by (simp add: d'_def)
  have ru: "Contact.UserId r = User.Id writer" by (simp add: r_def)
  have rd: "Contact.DeviceId r = Some D1"
    by (simp add: r_def helper attributedDevice_def u1)
  have seq': "User.Id writer \<in> fst ` set (tbl_contact_history_seq d')"
    using seq by (simp add: d'_def)
  note s = contact_sync_after_write[OF ok seq' rin ru rd u1 u2, of history]
  from cr rin rd s show ?thesis by blast
qed

lemma updated_contact_sync:
  assumes ok: "\<forall>n<7. fails e n = None"
    and helper: "getPrefixedDeviceId e = attributedDevice"
    and u1: "User.DeviceId writer = Some D1"
    and u2: "User.Id reader = User.Id writer" "User.DeviceId reader = Some D2" "D2 \<noteq> D1"
    and seq: "User.Id writer \<in> fst ` set (tbl_contact_history_seq d)"
    and i: "i < length (tbl_contact d)"
    and wh: "Contact.UserId (tbl_contact d ! i) = User.Id writer \<and>
         Contact.Id (tbl_contact d ! i) = Contact.Id contact \<and>
         Contact.LastStmt (tbl_contact d ! i) \<noteq> 2"
  shows "\<exists>r0 d'. ContactRepository_Update e d writer contact = (Inr r0, d') \<and>
            i < length (tbl_contact d') \<and>
            Contact.DeviceId (tbl_contact d' ! i) = Some D1 \<and>
            (\<exists>cs. ContactRepository_Sync e d' writer history = Inr cs \<and>
               tbl_contact d' ! i \<notin> set (ContactsInserted cs) \<and>
               tbl_contact d' ! i \<notin> set (ContactsUpdated cs) \<and>
               tbl_contact d' ! i \<notin> set (ContactsTrashed cs)) \<and>
            (\<exists>cs. ContactRepository_Sync e d' reader history = Inr cs \<and>
               (tbl_contact d' ! i \<in> set (ContactsUpdated cs) \<longleftrightarrow>
                  History.Id history < Contact.HistoryId (tbl_contact d' ! i)))"
proof -
  have f0: "fails e 0 = None" using ok by simp
  from ContactRepository_Update_ok[OF f0 i wh] obtain r0 d' where
    up: "ContactRepository_Update e d writer contact = (Inr r0, d')"
    and d': "d' = d\<lparr>tbl_contact :=
          update_with_history
            (\<lambda>r. Contact.UserId r = User.Id writer \<and> Contact.Id r = Contact.Id contact \<and>
                 Contact.LastStmt r \<noteq> 2)
            (\<lambda>h r. Contact_on_update (now e) h
                     (r\<lparr>Contact.EmailAddress := Contact.EmailAddress contact,
                        Contact.FirstName := Contact.FirstName contact,
                        Contact.LastName := Contact.LastName contact,
                        Contact.DeviceId := getPrefixedDeviceId e (User.DeviceId writer)\<rparr>))
            (last_history_id (User.Id writer) (tbl_contact_history_seq d))
            (tbl_contact d),
        tbl_contact_history_seq :=
          history_seq_advance (User.Id writer)
            (length (filter (\<lambda>r. Contact.UserId r = User.Id writer \<and>
                                 Contact.Id r = Contact.Id contact \<and>
                                 Contact.LastStmt r \<noteq> 2) (tbl_contact d)))
            (tbl_contact_history_seq d)\<rparr>"
    by auto
  have len: "i < length (tbl_contact d')"
    using i by (simp add: d' update_with_history_length)
  then have rin: "tbl_contact d' ! i \<in> set (tbl_contact d')" by (rule nth_mem)
  have ru: "Contact.UserId (tbl_contact d' ! i) = User.Id writer"
    using i wh by (simp add: d' update_with_history_nth Contact_on_update_def)
  have rd: "Contact.DeviceId (tbl_contact d' ! i) = Some D1"
    using i wh
    by (simp add: d' update_with_history_nth Contact_on_update_def helper
          attributedDevice_def u1)
  have rl: "Contact.LastStmt (tbl_contact d' ! i) = 1"
    using i wh by (simp add: d' update_with_history_nth Contact_on_update_def)
  have seq': "User.Id writer \<in> fst ` set (tbl_contact_history_seq d')"
    using seq by (simp add: d' history_seq_advance_users)
  note s = contact_sync_after_write[OF ok seq' rin ru rd u1 u2, of history]
  have own: "\<exists>cs. ContactRepository_Sync e d' writer history = Inr cs \<and>
               tbl_contact d' ! i \<notin> set (ContactsInserted cs) \<and>
               tbl_contact d' ! i \<notin> set (ContactsUpdated cs) \<and>
               tbl_contact d' ! i \<notin> set (ContactsTrashed cs)"
    by (rule s[THEN conjunct1])
  from s[THEN conjunct2] rl
  have other: "\<exists>cs. ContactRepository_Sync e d' reader history = Inr cs \<and>
               (tbl_contact d' ! i \<in> set (ContactsUpdated cs) \<longleftrightarrow>
                  History.Id history < Contact.HistoryId (tbl_contact d' ! i))"
    by (elim exE conjE) simp
  from up len rd own other show ?thesis by blast
qed

lemma trashed_contact_sync:
  assumes ok: "\<forall>n<7. fails e n = None"
    and helper: "getPrefixedDeviceId e = attributedDevice"
    and u1: "User.DeviceId writer = Some D1"
    and u2: "User.Id reader = User.Id writer" "User.DeviceId reader = Some D2" "D2 \<noteq> D1"
    and seq: "User.Id writer \<in> fst ` set (tbl_contact_history_seq d)"
    and js: "json_each e idList = Inr vs" "idList \<noteq> []"
    and i: "i < length (tbl_contact d)"
    and wh: "Contact.UserId (tbl_contact d ! i) = User.Id writer \<and>
         Contact.Id (tbl_contact d ! i) \<in> set vs"
  shows "\<exists>d'. ContactRepository_Trash e d writer idList = (None, d') \<and>
            i < length (tbl_contact d') \<and>
            Contact.DeviceId (tbl_contact d' ! i) = Some D1 \<and>
            (\<exists>cs. ContactRepository_Sync e d' writer history = Inr cs \<and>
               tbl_contact d' ! i \<notin> set (ContactsInserted cs) \<and>
               tbl_contact d' ! i \<notin> set (ContactsUpdated cs) \<and>
               tbl_contact d' ! i \<notin> set (ContactsTrashed cs)) \<and>
            (\<exists>cs. ContactRepository_Sync e d' reader history = Inr cs \<and>
               (tbl_contact d' ! i \<in> set (ContactsTrashed cs) \<longleftrightarrow>
                  History.Id history < Contact.HistoryId (tbl_contact d' ! i)))"
proof -
  have f0: "fails e 0 = None" using ok by simp
  define d' where "d' = d\<lparr>tbl_contact :=
      sql_update (\<lambda>r. Contact.UserId r = User.Id writer \<and> Contact.Id r \<in> set vs)
        (\<lambda>r. r\<lparr>Contact.LastStmt := 2,
                Contact.DeviceId := getPrefixedDeviceId e (User.DeviceId writer)\<rparr>)
        (tbl_contact d)\<rparr>"
  have up: "ContactRepository_Trash e d writer idList = (None, d')"
    by (simp add: ContactRepository_Trash_def Let_def Exec_ok f0 js d'_def)
  have len: "i < length (tbl_contact d')"
    using i by (simp add: d'_def sql_update_def)
  then have rin: "tbl_contact d' ! i \<in> set (tbl_contact d')" by (rule nth_mem)
  have ru: "Contact.UserId (tbl_contact d' ! i) = User.Id writer"
    using i wh by (simp add: d'_def sql_update_def)
  have rd: "Contact.DeviceId (tbl_contact d' ! i) = Some D1"
    using i wh by (simp add: d'_def sql_update_def helper attributedDevice_def u1)
  have rl: "Contact.LastStmt (tbl_contact d' ! i) = 2"
    using i wh by (simp add: d'_def sql_update_def)
  have seq': "User.Id writer \<in> fst ` set (tbl_contact_history_seq d')"
    using seq by (simp add: d'_def)
  note s = contact_sync_after_write[OF ok seq' rin ru rd u1 u2, of history]
  have own: "\<exists>cs. ContactRepository_Sync e d' writer history = Inr cs \<and>
               tbl_contact d' ! i \<notin> set (ContactsInserted cs) \<and>
               tbl_contact d' ! i \<notin> set (ContactsUpdated cs) \<and>
               tbl_contact d' ! i \<notin> set (ContactsTrashed cs)"
    by (rule s[THEN conjunct1])
  from s[THEN conjunct2] rl
  have other: "\<exists>cs. ContactRepository_Sync e d' reader history = Inr cs \<and>
               (tbl_contact d' ! i \<in> set (ContactsTrashed cs) \<longleftrightarrow>
                  History.Id history < Contact.HistoryId (tbl_contact d' ! i))"
    by (elim exE conjE) simp
  from up len rd own other show ?thesis by blast
qed

lemma untrashed_contact_sync:
  assumes ok: "\<forall>n<7. fails e n = None"
    and helper: "getPrefixedDeviceId e = attributedDevice"
    and u1: "User.DeviceId writer = Some D1"
    and u2: "User.Id reader = User.Id writer" "User.DeviceId reader = Some D2" "D2 \<noteq> D1"
    and seq: "User.Id writer \<in> fst ` set (tbl_contact_history_seq d)"
    and js: "json_each e idList = Inr vs" "idList \<noteq> []"
    and i: "i < length (tbl_contact d)"
    and wh: "Contact.UserId (tbl_contact d ! i) = User.Id writer \<and>
         Contact.Id (tbl_contact d ! i) \<in> set vs"
  shows "\<exists>d'. ContactRepository_Untrash e d writer idList = (None, d') \<and>
            i < length (tbl_contact d') \<and>
            Contact.DeviceId (tbl_contact d' ! i) = Some D1 \<and>
            (\<exists>cs. ContactRepository_Sync e d' writer history = Inr cs \<and>
               tbl_contact d' ! i \<notin> set (ContactsInserted cs) \<and>
               tbl_contact d' ! i \<notin> set (ContactsUpdated cs) \<and>
               tbl_contact d' ! i \<notin> set (ContactsTrashed cs)) \<and>
            (\<exists>cs. ContactRepository_Sync e d' reader history = Inr cs \<and>
               (tbl_contact d' ! i \<in> set (ContactsInserted cs) \<longleftrightarrow>
                  History.Id history < Contact.HistoryId (tbl_contact d' ! i)))"
proof -
  have f0: "fails e 0 = None" using ok by simp
  define d' where "d' = d\<lparr>tbl_contact :=
      sql_update (\<lambda>r. Contact.UserId r = User.Id writer \<and> Contact.Id r \<in> set vs)
        (\<lambda>r. r\<lparr>Contact.LastStmt := 0,
                Contact.DeviceId := getPrefixedDeviceId e (User.DeviceId writer)\<rparr>)
        (tbl_contact d)\<rparr>"
  have up: "ContactRepository_Untrash e d writer idList = (None, d')"
    by (simp add: ContactRepository_Untrash_def Let_def Exec_ok f0 js d'_def)
  have len: "i < length (tbl_contact d')"
    using i by (simp add: d'_def sql_update_def)
  then have rin: "tbl_contact d' ! i \<in> set (tbl_contact d')" by (rule nth_mem)
  have ru: "Contact.UserId (tbl_contact d' ! i) = User.Id writer"
    using i wh by (simp add: d'_def sql_update_def)
  have rd: "Contact.DeviceId (tbl_contact d' ! i) = Some D1"
    using i wh by (simp add: d'_def sql_update_def helper attributedDevice_def u1)
  have rl: "Contact.LastStmt (tbl_contact d' ! i) = 0"
    using i wh by (simp add: d'_def sql_update_def)
  have seq': "User.Id writer \<in> fst ` set (tbl_contact_history_seq d')"
    using seq by (simp add: d'_def)
  note s = contact_sync_after_write[OF ok seq' rin ru rd u1 u2, of history]
  have own: "\<exists>cs. ContactRepository_Sync e d' writer history = Inr cs \<and>
               tbl_contact d' ! i \<notin> set (ContactsInserted cs) \<and>
               tbl_contact d' ! i \<notin> set (ContactsUpdated cs) \<and>
               tbl_contact d' ! i \<notin> set (ContactsTrashed cs)"
    by (rule s[THEN conjunct1])
  from s[THEN conjunct2] rl
  have other: "\<exists>cs. ContactRepository_Sync e d' reader history = Inr cs \<and>
               (tbl_contact d' ! i \<in> set (ContactsInserted cs) \<longleftrightarrow>
                  History.Id history < Contact.HistoryId (tbl_contact d' ! i))"
    by (elim exE conjE) simp
  from up len rd own other show ?thesis by blast
qed

text \<open>
  C2, with the device attribution of the specification (\<open>attributedDevice\<close>) for the helper
  \<open>getPrefixedDeviceId\<close>. Let \<open>writer\<close> and \<open>reader\<close> be the same user on two different devices
  \<open>D1\<close> and \<open>D2\<close>, and let the database answer every call. After each write of a contact by
  \<open>writer\<close> (Create of a row; Update, Trash or Untrash of the row at a place \<open>i\<close> of the table
  that the statement selects) the written row carries \<open>D1\<close> as its device, the Sync call
  of \<open>writer\<close> on the store after the write returns it in none of the buckets inserted,
  updated and trashed, and the Sync call of \<open>reader\<close> returns it exactly when the history
  id asked for is below the row's: in updated after Update, in trashed after Trash, in
  inserted after Untrash, and after Create in the bucket of the \<open>LastStmt\<close> that the
  schema gives a new row. The fourth bucket holds tombstones, which no write of a contact
  produces.
\<close>

theorem sync_leaves_out_own_write_and_returns_it_to_other_device:
  assumes "\<forall>n<7. fails e n = None"
    and "getPrefixedDeviceId e = attributedDevice"
    and "User.DeviceId writer = Some D1"
    and "User.Id reader = User.Id writer" and "User.DeviceId reader = Some D2" and "D2 \<noteq> D1"
    and "User.Id writer \<in> fst ` set (tbl_contact_history_seq d)"
    and "json_each e idList = Inr vs" and "idList \<noteq> []"
  shows "(\<exists>r d'. ContactRepository_Create e d writer contact = (Inr r, d') \<and>
            r \<in> set (tbl_contact d') \<and>
            Contact.DeviceId r = Some D1 \<and>
            (\<exists>cs. ContactRepository_Sync e d' writer history = Inr cs \<and>
               r \<notin> set (ContactsInserted cs) \<and> r \<notin> set (ContactsUpdated cs) \<and>
               r \<notin> set (ContactsTrashed cs)) \<and>
            (\<exists>cs. ContactRepository_Sync e d' reader history = Inr cs \<and>
               (r \<in> set (ContactsInserted cs) \<longleftrightarrow>
                  History.Id history < Contact.HistoryId r \<and> Contact.LastStmt r = 0) \<and>
               (r \<in> set (ContactsUpdated cs) \<longleftrightarrow>
                  History.Id history < Contact.HistoryId r \<and> Contact.LastStmt r = 1) \<and>
               (r \<in> set (ContactsTrashed cs) \<longleftrightarrow>
                  History.Id history < Contact.HistoryId r \<and> Contact.LastStmt r = 2))) \<and>
         (\<forall>i<length (tbl_contact d).
            Contact.UserId (tbl_contact d ! i) = User.Id writer \<and>
            Contact.Id (tbl_contact d ! i) = Contact.Id contact \<and>
            Contact.LastStmt (tbl_contact d ! i) \<noteq> 2 \<longrightarrow>
            (\<exists>r0 d'. ContactRepository_Update e d writer contact = (Inr r0, d') \<and>
               i < length (tbl_contact d') \<and>
               Contact.DeviceId (tbl_contact d' ! i) = Some D1 \<and>
               (\<exists>cs. ContactRepository_Sync e d' writer history = Inr cs \<and>
                  tbl_contact d' ! i \<notin> set (ContactsInserted cs) \<and>
                  tbl_contact d' ! i \<notin> set (ContactsUpdated cs) \<and>
                  tbl_contact d' ! i \<notin> set (ContactsTrashed cs)) \<and>
               (\<exists>cs. ContactRepository_Sync e d' reader history = Inr cs \<and>
                  (tbl_contact d' ! i \<in> set (ContactsUpdated cs) \<longleftrightarrow>
                     History.Id history < Contact.HistoryId (tbl_contact d' ! i))))) \<and>
         (\<forall>i<length (tbl_contact d).
            Contact.UserId (tbl_contact d ! i) = User.Id writer \<and>
            Contact.Id (tbl_contact d ! i) \<in> set vs \<longrightarrow>
            (\<exists>d'. ContactRepository_Trash e d writer idList = (None, d') \<and>
               i < length (tbl_contact d') \<and>
               Contact.DeviceId (tbl_contact d' ! i) = Some D1 \<and>
               (\<exists>cs. ContactRepository_Sync e d' writer history = Inr cs \<and>
                  tbl_contact d' ! i \<notin> set (ContactsInserted cs) \<and>
                  tbl_contact d' ! i \<notin> set (ContactsUpdated cs) \<and>
                  tbl_contact d' ! i \<notin> set (ContactsTrashed cs)) \<and>
               (\<exists>cs. ContactRepository_Sync e d' reader history = Inr cs \<and>
                  (tbl_contact d' ! i \<in> set (ContactsTrashed cs) \<longleftrightarrow>
                     History.Id history < Contact.HistoryId (tbl_contact d' ! i))))) \<and>
         (\<forall>i<length (tbl_contact d).
            Contact.UserId (tbl_contact d ! i) = User.Id writer \<and>
            Contact.Id (tbl_contact d ! i) \<in> set vs \<longrightarrow>
            (\<exists>d'. ContactRepository_Untrash e d writer idList = (None, d') \<and>
               i < length (tbl_contact d') \<and>
               Contact.DeviceId (tbl_contact d' ! i) = Some D1 \<and>
               (\<exists>cs. ContactRepository_Sync e d' writer history = Inr cs \<and>
                  tbl_contact d' ! i \<notin> set (ContactsInserted cs) \<and>
                  tbl_contact d' ! i \<notin> set (ContactsUpdated cs) \<and>
                  tbl_contact d' ! i \<notin> set (ContactsTrashed cs)) \<and>
               (\<exists>cs. ContactRepository_Sync e d' reader history = Inr cs \<and>
                  (tbl_contact d' ! i \<in> set (ContactsInserted cs) \<longleftrightarrow>
                     History.Id history < Contact.HistoryId (tbl_contact d' ! i)))))"
  apply (rule conjI)
   apply (rule created_contact_sync[OF assms(1-7)])
  apply (rule conjI)
   apply (intro allI impI)
   apply (rule updated_contact_sync[OF assms(1-7)])
    apply assumption
   apply assumption
  apply (rule conjI)
   apply (intro allI impI)
   apply (rule trashed_contact_sync[OF assms(1-9)])
    apply assumption
   apply assumption
  apply (intro allI impI)
  apply (rule untrashed_contact_sync[OF assms(1-9)])
   apply assumption
  apply assumption
  done

theorem sync_leaves_out_own_write_and_returns_it_to_other_device_witness:
  "(\<exists>r d' cs1 cs2.
      ContactRepository_Create env_attributed db0 user1 contact_new = (Inr r, d') \<and>
      Contact.DeviceId r = Some ''d1'' \<and>
      ContactRepository_Sync env_attributed d' user1 history0 = Inr cs1 \<and>
      r \<notin> set (ContactsInserted cs1) \<and> r \<notin> set (ContactsUpdated cs1) \<and>
      r \<notin> set (ContactsTrashed cs1) \<and>
      ContactRepository_Sync env_attributed d' user1_d2 history0 = Inr cs2 \<and>
      r \<in> set (ContactsInserted cs2)) \<and>
   (\<exists>r0 d' cs1 cs2.
      ContactRepository_Update env_attributed db0 user1 contact2 = (Inr r0, d') \<and>
      tbl_contact d' ! 1 =
        contact2\<lparr>Contact.ModifiedAt := Some 50, Contact.HistoryId := 5,
                 Contact.DeviceId := Some ''d1''\<rparr> \<and>
      ContactRepository_Sync env_attributed d' user1 history0 = Inr cs1 \<and>
      tbl_contact d' ! 1 \<notin> set (ContactsInserted cs1) \<and>
      tbl_contact d' ! 1 \<notin> set (ContactsUpdated cs1) \<and>
      tbl_contact d' ! 1 \<notin> set (ContactsTrashed cs1) \<and>
      ContactRepository_Sync env_attributed d' user1_d2 history0 = Inr cs2 \<and>
      tbl_contact d' ! 1 \<in> set (ContactsUpdated cs2)) \<and>
   (\<exists>d' cs1 cs2.
      ContactRepository_Trash env_attributed db0 user1 ids_json = (None, d') \<and>
      tbl_contact d' ! 0 = contact1\<lparr>Contact.LastStmt := 2\<rparr> \<and>
      ContactRepository_Sync env_attributed d' user1 history0 = Inr cs1 \<and>
      tbl_contact d' ! 0 \<notin> set (ContactsInserted cs1) \<and>
      tbl_contact d' ! 0 \<notin> set (ContactsUpdated cs1) \<and>
      tbl_contact d' ! 0 \<notin> set (ContactsTrashed cs1) \<and>
      ContactRepository_Sync env_attributed d' user1_d2 history0 = Inr cs2 \<and>
      tbl_contact d' ! 0 \<in> set (ContactsTrashed cs2))"
proof -
  have h: "\<forall>n<7. fails env_attributed n = None"
    "getPrefixedDeviceId env_attributed = attributedDevice"
    "User.DeviceId user1 = Some ''d1''"
    "User.Id user1_d2 = User.Id user1" "User.DeviceId user1_d2 = Some ''d2''" "''d2'' \<noteq> ''d1''"
    "User.Id user1 \<in> fst ` set (tbl_contact_history_seq db0)"
    "json_each env_attributed ids_json = Inr [''c1'', ''m1'', ''zz'']" "ids_json \<noteq> []"
    by (simp_all add: env_attributed_def env0_def user1_def user1_d2_def db0_def ids_json_def)
  note t = sync_leaves_out_own_write_and_returns_it_to_other_device[OF h, where history = history0]
  have f0: "fails env_attributed 0 = None" by (simp add: env_attributed_def env0_def)
  have h0: "History.Id history0 = 0" by (simp add: history0_def)
  from t[where contact = contact_new, THEN conjunct1] obtain r d' cs1 cs2 where
    cr: "ContactRepository_Create env_attributed db0 user1 contact_new = (Inr r, d')"
    and rd: "Contact.DeviceId r = Some ''d1''"
    and s1: "ContactRepository_Sync env_attributed d' user1 history0 = Inr cs1"
    and n1: "r \<notin> set (ContactsInserted cs1)" "r \<notin> set (ContactsUpdated cs1)"
      "r \<notin> set (ContactsTrashed cs1)"
    and s2: "ContactRepository_Sync env_attributed d' user1_d2 history0 = Inr cs2"
    and i2: "r \<in> set (ContactsInserted cs2) \<longleftrightarrow>
               History.Id history0 < Contact.HistoryId r \<and> Contact.LastStmt r = 0"
    by (elim exE conjE)
  have cc: "contact_columns env_attributed db0 = contact_new" by (simp add: env_attributed_def env0_def)
  from cr have rv: "Contact.HistoryId r = 5" "Contact.LastStmt r = 0"
    unfolding ContactRepository_Create_ok[OF f0] cc by (auto simp: contact_new_def)
  have m2: "r \<in> set (ContactsInserted cs2)" unfolding i2 rv h0 by simp
  have a: "\<exists>r d' cs1 cs2.
      ContactRepository_Create env_attributed db0 user1 contact_new = (Inr r, d') \<and>
      Contact.DeviceId r = Some ''d1'' \<and>
      ContactRepository_Sync env_attributed d' user1 history0 = Inr cs1 \<and>
      r \<notin> set (ContactsInserted cs1) \<and> r \<notin> set (ContactsUpdated cs1) \<and>
      r \<notin> set (ContactsTrashed cs1) \<and>
      ContactRepository_Sync env_attributed d' user1_d2 history0 = Inr cs2 \<and>
      r \<in> set (ContactsInserted cs2)"
    using cr rd s1 n1 s2 m2
    by (intro exI[of _ r] exI[of _ d'] exI[of _ cs1] exI[of _ cs2] conjI)
  have l1: "(1::nat) < length (tbl_contact db0)" by (simp add: db0_def)
  have w1: "Contact.UserId (tbl_contact db0 ! 1) = User.Id user1 \<and>
            Contact.Id (tbl_contact db0 ! 1) = Contact.Id contact2 \<and>
            Contact.LastStmt (tbl_contact db0 ! 1) \<noteq> 2"
    by (simp add: db0_def user1_def contact2_def)
  from t[where contact = contact2, THEN conjunct2, THEN conjunct1, rule_format, OF l1 w1]
  obtain r0 du cu1 cu2 where
    up: "ContactRepository_Update env_attributed db0 user1 contact2 = (Inr r0, du)"
    and us1: "ContactRepository_Sync env_attributed du user1 history0 = Inr cu1"
    and un1: "tbl_contact du ! 1 \<notin> set (ContactsInserted cu1)"
      "tbl_contact du ! 1 \<notin> set (ContactsUpdated cu1)"
      "tbl_contact du ! 1 \<notin> set (ContactsTrashed cu1)"
    and us2: "ContactRepository_Sync env_attributed du user1_d2 history0 = Inr cu2"
    and ui2: "tbl_contact du ! 1 \<in> set (ContactsUpdated cu2) \<longleftrightarrow>
               History.Id history0 < Contact.HistoryId (tbl_contact du ! 1)"
    by (elim exE conjE)
  have uv: "ContactRepository_Update env_attributed db0 user1 contact2 =
     (Inr (contact2\<lparr>Contact.ModifiedAt := Some 50, Contact.HistoryId := 5,
                    Contact.DeviceId := Some ''d1''\<rparr>),
      db0\<lparr>tbl_contact :=
            [contact1,
             contact2\<lparr>Contact.ModifiedAt := Some 50, Contact.HistoryId := 5,
                      Contact.DeviceId := Some ''d1''\<rparr>,
             contact3, contact4],
          tbl_contact_history_seq := [(1, 5), (2, 1)]\<rparr>)"
    by (simp add: ContactRepository_Update_def QueryRow_def Let_def sql_select_def
          Contact_on_update_def attributedDevice_def last_history_id_def select_last_history_id_def
          history_seq_advance_def env_attributed_def env0_def db0_def user1_def
          contact1_def contact2_def contact3_def contact4_def)
  from up uv have ur: "tbl_contact du ! 1 =
        contact2\<lparr>Contact.ModifiedAt := Some 50, Contact.HistoryId := 5,
                 Contact.DeviceId := Some ''d1''\<rparr>"
    by auto
  have um2: "tbl_contact du ! 1 \<in> set (ContactsUpdated cu2)"
    unfolding ui2 unfolding ur h0 by simp
  have b: "\<exists>r0 d' cs1 cs2.
      ContactRepository_Update env_attributed db0 user1 contact2 = (Inr r0, d') \<and>
      tbl_contact d' ! 1 =
        contact2\<lparr>Contact.ModifiedAt := Some 50, Contact.HistoryId := 5,
                 Contact.DeviceId := Some ''d1''\<rparr> \<and>
      ContactRepository_Sync env_attributed d' user1 history0 = Inr cs1 \<and>
      tbl_contact d' ! 1 \<notin> set (ContactsInserted cs1) \<and>
      tbl_contact d' ! 1 \<notin> set (ContactsUpdated cs1) \<and>
      tbl_contact d' ! 1 \<notin> set (ContactsTrashed cs1) \<and>
      ContactRepository_Sync env_attributed d' user1_d2 history0 = Inr cs2 \<and>
      tbl_contact d' ! 1 \<in> set (ContactsUpdated cs2)"
    using up ur us1 un1 us2 um2
    by (intro exI[of _ r0] exI[of _ du] exI[of _ cu1] exI[of _ cu2] conjI)
  have l0: "(0::nat) < length (tbl_contact db0)" by (simp add: db0_def)
  have w0: "Contact.UserId (tbl_contact db0 ! 0) = User.Id user1 \<and>
            Contact.Id (tbl_contact db0 ! 0) \<in> set [''c1'', ''m1'', ''zz'']"
    by (simp add: db0_def user1_def contact1_def)
  from t[where contact = contact_new, THEN conjunct2, THEN conjunct2, THEN conjunct1, rule_format, OF l0 w0]
  obtain dt ct1 ct2 where
    tr: "ContactRepository_Trash env_attributed db0 user1 ids_json = (None, dt)"
    and ts1: "ContactRepository_Sync env_attributed dt user1 history0 = Inr ct1"
    and tn1: "tbl_contact dt ! 0 \<notin> set (ContactsInserted ct1)"
      "tbl_contact dt ! 0 \<notin> set (ContactsUpdated ct1)"
      "tbl_contact dt ! 0 \<notin> set (ContactsTrashed ct1)"
    and ts2: "ContactRepository_Sync env_attributed dt user1_d2 history0 = Inr ct2"
    and ti2: "tbl_contact dt ! 0 \<in> set (ContactsTrashed ct2) \<longleftrightarrow>
               History.Id history0 < Contact.HistoryId (tbl_contact dt ! 0)"
    by (elim exE conjE)
  have tv: "ContactRepository_Trash env_attributed db0 user1 ids_json =
     (None, db0\<lparr>tbl_contact := [contact1\<lparr>Contact.LastStmt := 2\<rparr>, contact2, contact3, contact4]\<rparr>)"
    by (simp add: ContactRepository_Trash_def Exec_def Let_def sql_update_def attributedDevice_def
          env_attributed_def env0_def ids_json_def db0_def user1_def
          contact1_def contact2_def contact3_def contact4_def)
  from tr tv have tt: "tbl_contact dt ! 0 = contact1\<lparr>Contact.LastStmt := 2\<rparr>"
    by auto
  have tm2: "tbl_contact dt ! 0 \<in> set (ContactsTrashed ct2)"
    unfolding ti2 unfolding tt h0 by (simp add: contact1_def)
  have c: "\<exists>d' cs1 cs2.
      ContactRepository_Trash env_attributed db0 user1 ids_json = (None, d') \<and>
      tbl_contact d' ! 0 = contact1\<lparr>Contact.LastStmt := 2\<rparr> \<and>
      ContactRepository_Sync env_attributed d' user1 history0 = Inr cs1 \<and>
      tbl_contact d' ! 0 \<notin> set (ContactsInserted cs1) \<and>
      tbl_contact d' ! 0 \<notin> set (ContactsUpdated cs1) \<and>
      tbl_contact d' ! 0 \<notin> set (ContactsTrashed cs1) \<and>
      ContactRepository_Sync env_attributed d' user1_d2 history0 = Inr cs2 \<and>
      tbl_contact d' ! 0 \<in> set (ContactsTrashed cs2)"
    using tr tt ts1 tn1 ts2 tm2
    by (intro exI[of _ dt] exI[of _ ct1] exI[of _ ct2] conjI)
  from a b c show ?thesis by (intro conjI)
qed

end
